theory Spec2Isabelle
  imports Complex_Main "HOL-Library.Word"
begin

unbundle bit_operations_syntax

section \<open>IEEE binary32 values and their comparisons\<close>

text \<open>
  A C \<open>float\<close> is its 32-bit pattern: bit 31 is the sign, bits 30..23 the exponent, bits
  22..0 the fraction. A pattern is a NaN when its exponent is all ones and its fraction is
  not zero, that is when its magnitude bits exceed \<open>0x7F800000\<close>. On the other patterns
  (finite values, both zeros, both infinities) the order of the values is the order of the
  sign-magnitude integers, and the two zeros are equal. The comparisons \<open>a < b\<close> and
  \<open>a == b\<close> of C, and the vector comparisons \<open>_mm_cmplt_ps\<close> and
  \<open>_mm256_cmp_ps(.., _CMP_LT_OS)\<close>, are false as soon as one operand is a NaN.
\<close>

type_synonym float = "32 word"

definition fmag :: "float \<Rightarrow> int" where
  "fmag x = uint (x AND 0x7FFFFFFF)"

definition isnan :: "float \<Rightarrow> bool" where
  "isnan x \<longleftrightarrow> 0x7F800000 < fmag x"

definition fkey :: "float \<Rightarrow> int" where
  "fkey x = (if bit x 31 then - fmag x else fmag x)"

definition flt :: "float \<Rightarrow> float \<Rightarrow> bool" where
  "flt a b \<longleftrightarrow> \<not> isnan a \<and> \<not> isnan b \<and> fkey a < fkey b"

definition feq :: "float \<Rightarrow> float \<Rightarrow> bool" where
  "feq a b \<longleftrightarrow> \<not> isnan a \<and> \<not> isnan b \<and> fkey a = fkey b"

section \<open>Vector registers and the intrinsics of the index-of-minimum kernels\<close>

text \<open>
  A vector register is the list of its lanes, lane 0 first. The value registers hold
  binary32 patterns. The index registers hold floats whose values are integers between
  \<open>-8\<close> and \<open>65535\<close>: such floats, and the sums the kernels form of them, are exact
  in binary32, so an index lane is modelled by its integer value. A comparison mask lane is
  all ones or all zeros; where the SSE kernel combines a mask with an index register
  bitwise, the mask lane is read as the integer \<open>-1\<close> or \<open>0\<close>.
\<close>

definition USHRT_MAX :: "32 word" where
  "USHRT_MAX = 65535"

definition mm_set1_ps :: "'a \<Rightarrow> 'a list" where
  "mm_set1_ps a = [a, a, a, a]"

definition mm256_set1_ps :: "'a \<Rightarrow> 'a list" where
  "mm256_set1_ps a = [a, a, a, a, a, a, a, a]"

definition mm_set_ps :: "'a \<Rightarrow> 'a \<Rightarrow> 'a \<Rightarrow> 'a \<Rightarrow> 'a list" where
  "mm_set_ps e3 e2 e1 e0 = [e0, e1, e2, e3]"

definition mm256_set_ps :: "'a \<Rightarrow> 'a \<Rightarrow> 'a \<Rightarrow> 'a \<Rightarrow> 'a \<Rightarrow> 'a \<Rightarrow> 'a \<Rightarrow> 'a \<Rightarrow> 'a list" where
  "mm256_set_ps e7 e6 e5 e4 e3 e2 e1 e0 = [e0, e1, e2, e3, e4, e5, e6, e7]"

definition mm_setzero_ps :: "'a::zero list" where
  "mm_setzero_ps = [0, 0, 0, 0]"

definition mm256_setzero_ps :: "'a::zero list" where
  "mm256_setzero_ps = [0, 0, 0, 0, 0, 0, 0, 0]"

definition mm_load_ps :: "(nat \<Rightarrow> 'a) \<Rightarrow> nat \<Rightarrow> 'a list" where
  "mm_load_ps mem p = map mem [p ..< p + 4]"

definition mm256_load_ps :: "(nat \<Rightarrow> 'a) \<Rightarrow> nat \<Rightarrow> 'a list" where
  "mm256_load_ps mem p = map mem [p ..< p + 8]"

definition mm256_loadu_ps :: "(nat \<Rightarrow> 'a) \<Rightarrow> nat \<Rightarrow> 'a list" where
  "mm256_loadu_ps mem p = map mem [p ..< p + 8]"

definition mm_add_ps :: "int list \<Rightarrow> int list \<Rightarrow> int list" where
  "mm_add_ps a b = map2 (+) a b"

definition mm_cmplt_ps :: "float list \<Rightarrow> float list \<Rightarrow> 32 word list" where
  "mm_cmplt_ps a b = map2 (\<lambda>x y. if flt x y then - 1 else 0) a b"

definition mm256_cmp_ps_LT_OS :: "float list \<Rightarrow> float list \<Rightarrow> 32 word list" where
  "mm256_cmp_ps_LT_OS a b = map2 (\<lambda>x y. if flt x y then - 1 else 0) a b"

definition mm_blendv_ps :: "'a list \<Rightarrow> 'a list \<Rightarrow> 32 word list \<Rightarrow> 'a list" where
  "mm_blendv_ps a b msk = map2 (\<lambda>m (x, y). if bit m 31 then y else x) msk (zip a b)"

definition mm_and_ps :: "'a::ring_bit_operations list \<Rightarrow> 'a list \<Rightarrow> 'a list" where
  "mm_and_ps a b = map2 (AND) a b"

definition mm_andnot_ps :: "'a::ring_bit_operations list \<Rightarrow> 'a list \<Rightarrow> 'a list" where
  "mm_andnot_ps a b = map2 (\<lambda>x y. NOT x AND y) a b"

definition mm_or_ps :: "'a::ring_bit_operations list \<Rightarrow> 'a list \<Rightarrow> 'a list" where
  "mm_or_ps a b = map2 (OR) a b"

section \<open>volk\_32f\_index\_min\_16u\<close>

text \<open>
  The source buffer is a function from element index to pattern. The loop counters are
  \<open>uint32_t\<close> in the source and never exceed \<open>65535\<close>, so they are natural numbers
  here. Each kernel returns the value it stores into \<open>target[0]\<close>. The variable
  \<open>min\<close> of the source is \<open>minv\<close> here.
\<close>

function generic_loop ::
  "(nat \<Rightarrow> float) \<Rightarrow> nat \<Rightarrow> nat \<Rightarrow> float \<times> 16 word \<Rightarrow> float \<times> 16 word" where
  "generic_loop source num_points i (minv, index) =
     (if i < num_points
      then generic_loop source num_points (i + 1)
             (if flt (source i) minv then (source i, of_nat i) else (minv, index))
      else (minv, index))"
  by pat_completeness auto
termination
  by (relation "measure (\<lambda>(source, num_points, i, st). num_points - i)") auto

definition volk_32f_index_min_16u_generic :: "(nat \<Rightarrow> float) \<Rightarrow> 32 word \<Rightarrow> 16 word" where
  "volk_32f_index_min_16u_generic source num_points0 =
     (let num_points = (if num_points0 > USHRT_MAX then USHRT_MAX else num_points0);
          minv = source 0;
          index = 0;
          (minv, index) = generic_loop source (unat num_points) 1 (minv, index)
      in index)"

text \<open>
  The horizontal reduction over the lane buffers, and the scalar tail loop. The two local
  buffers \<open>minValuesBuffer\<close> and \<open>minIndexesBuffer\<close> are the registers stored into
  them. In the vector loops \<open>inputPtr\<close> starts at \<open>source\<close> and advances by the
  vector width in every iteration: it points at element \<open>8 * number\<close> (AVX) or
  \<open>4 * number\<close> (SSE).
\<close>

function reduce_loop ::
  "float list \<Rightarrow> int list \<Rightarrow> nat \<Rightarrow> nat \<Rightarrow> float \<times> int \<Rightarrow> float \<times> int" where
  "reduce_loop minValuesBuffer minIndexesBuffer lanes number (minv, index) =
     (if number < lanes
      then reduce_loop minValuesBuffer minIndexesBuffer lanes (number + 1)
             (if flt (minValuesBuffer ! number) minv
              then (minValuesBuffer ! number, minIndexesBuffer ! number)
              else if feq (minValuesBuffer ! number) minv
              then (if index > minIndexesBuffer ! number
                    then (minv, minIndexesBuffer ! number) else (minv, index))
              else (minv, index))
      else (minv, index))"
  by pat_completeness auto
termination
  by (relation "measure (\<lambda>(vb, ib, lanes, number, st). lanes - number)") auto

function tail_loop ::
  "(nat \<Rightarrow> float) \<Rightarrow> nat \<Rightarrow> nat \<Rightarrow> float \<times> int \<Rightarrow> float \<times> int" where
  "tail_loop source num_points number (minv, index) =
     (if number < num_points
      then tail_loop source num_points (number + 1)
             (if flt (source number) minv then (source number, int number) else (minv, index))
      else (minv, index))"
  by pat_completeness auto
termination
  by (relation "measure (\<lambda>(source, num_points, number, st). num_points - number)") auto

function a_avx_loop ::
  "(nat \<Rightarrow> float) \<Rightarrow> nat \<Rightarrow> nat \<Rightarrow> int list \<times> float list \<times> int list
     \<Rightarrow> int list \<times> float list \<times> int list" where
  "a_avx_loop source eighthPoints number (currentIndexes, minValues, minValuesIndex) =
     (if number < eighthPoints
      then (let currentValues = mm256_load_ps source (8 * number);
                currentIndexes = mm_add_ps currentIndexes (mm256_set1_ps 8);
                compareResults = mm256_cmp_ps_LT_OS currentValues minValues;
                minValuesIndex = mm_blendv_ps minValuesIndex currentIndexes compareResults;
                minValues = mm_blendv_ps minValues currentValues compareResults
            in a_avx_loop source eighthPoints (number + 1)
                 (currentIndexes, minValues, minValuesIndex))
      else (currentIndexes, minValues, minValuesIndex))"
  by pat_completeness auto
termination
  by (relation "measure (\<lambda>(source, eighthPoints, number, st). eighthPoints - number)") auto

definition volk_32f_index_min_16u_a_avx :: "(nat \<Rightarrow> float) \<Rightarrow> 32 word \<Rightarrow> 16 word" where
  "volk_32f_index_min_16u_a_avx source num_points0 =
     (let num_points = (if num_points0 > USHRT_MAX then USHRT_MAX else num_points0);
          eighthPoints = num_points div 8;
          currentIndexes = mm256_set_ps (- 1) (- 2) (- 3) (- 4) (- 5) (- 6) (- 7) (- 8);
          minv = source 0;
          index = 0;
          minValues = mm256_set1_ps minv;
          minValuesIndex = mm256_setzero_ps;
          (currentIndexes, minValues, minValuesIndex) =
             a_avx_loop source (unat eighthPoints) 0 (currentIndexes, minValues, minValuesIndex);
          minValuesBuffer = minValues;
          minIndexesBuffer = minValuesIndex;
          (minv, index) = reduce_loop minValuesBuffer minIndexesBuffer 8 0 (minv, index);
          (minv, index) = tail_loop source (unat num_points) (unat (eighthPoints * 8)) (minv, index)
      in word_of_int index)"

function a_sse4_1_loop ::
  "(nat \<Rightarrow> float) \<Rightarrow> nat \<Rightarrow> nat \<Rightarrow> int list \<times> float list \<times> int list
     \<Rightarrow> int list \<times> float list \<times> int list" where
  "a_sse4_1_loop source quarterPoints number (currentIndexes, minValues, minValuesIndex) =
     (if number < quarterPoints
      then (let currentValues = mm_load_ps source (4 * number);
                currentIndexes = mm_add_ps currentIndexes (mm_set1_ps 4);
                compareResults = mm_cmplt_ps currentValues minValues;
                minValuesIndex = mm_blendv_ps minValuesIndex currentIndexes compareResults;
                minValues = mm_blendv_ps minValues currentValues compareResults
            in a_sse4_1_loop source quarterPoints (number + 1)
                 (currentIndexes, minValues, minValuesIndex))
      else (currentIndexes, minValues, minValuesIndex))"
  by pat_completeness auto
termination
  by (relation "measure (\<lambda>(source, quarterPoints, number, st). quarterPoints - number)") auto

definition volk_32f_index_min_16u_a_sse4_1 :: "(nat \<Rightarrow> float) \<Rightarrow> 32 word \<Rightarrow> 16 word" where
  "volk_32f_index_min_16u_a_sse4_1 source num_points0 =
     (let num_points = (if num_points0 > USHRT_MAX then USHRT_MAX else num_points0);
          quarterPoints = num_points div 4;
          currentIndexes = mm_set_ps (- 1) (- 2) (- 3) (- 4);
          minv = source 0;
          index = 0;
          minValues = mm_set1_ps minv;
          minValuesIndex = mm_setzero_ps;
          (currentIndexes, minValues, minValuesIndex) =
             a_sse4_1_loop source (unat quarterPoints) 0 (currentIndexes, minValues, minValuesIndex);
          minValuesBuffer = minValues;
          minIndexesBuffer = minValuesIndex;
          (minv, index) = reduce_loop minValuesBuffer minIndexesBuffer 4 0 (minv, index);
          (minv, index) = tail_loop source (unat num_points) (unat (quarterPoints * 4)) (minv, index)
      in word_of_int index)"

function a_sse_loop ::
  "(nat \<Rightarrow> float) \<Rightarrow> nat \<Rightarrow> nat \<Rightarrow> int list \<times> float list \<times> int list
     \<Rightarrow> int list \<times> float list \<times> int list" where
  "a_sse_loop source quarterPoints number (currentIndexes, minValues, minValuesIndex) =
     (if number < quarterPoints
      then (let currentValues = mm_load_ps source (4 * number);
                currentIndexes = mm_add_ps currentIndexes (mm_set1_ps 4);
                compareResults = mm_cmplt_ps currentValues minValues;
                minValuesIndex =
                  mm_or_ps (mm_and_ps (map sint compareResults) currentIndexes)
                           (mm_andnot_ps (map sint compareResults) minValuesIndex);
                minValues =
                  mm_or_ps (mm_and_ps compareResults currentValues)
                           (mm_andnot_ps compareResults minValues)
            in a_sse_loop source quarterPoints (number + 1)
                 (currentIndexes, minValues, minValuesIndex))
      else (currentIndexes, minValues, minValuesIndex))"
  by pat_completeness auto
termination
  by (relation "measure (\<lambda>(source, quarterPoints, number, st). quarterPoints - number)") auto

definition volk_32f_index_min_16u_a_sse :: "(nat \<Rightarrow> float) \<Rightarrow> 32 word \<Rightarrow> 16 word" where
  "volk_32f_index_min_16u_a_sse source num_points0 =
     (let num_points = (if num_points0 > USHRT_MAX then USHRT_MAX else num_points0);
          quarterPoints = num_points div 4;
          currentIndexes = mm_set_ps (- 1) (- 2) (- 3) (- 4);
          minv = source 0;
          index = 0;
          minValues = mm_set1_ps minv;
          minValuesIndex = mm_setzero_ps;
          (currentIndexes, minValues, minValuesIndex) =
             a_sse_loop source (unat quarterPoints) 0 (currentIndexes, minValues, minValuesIndex);
          minValuesBuffer = minValues;
          minIndexesBuffer = minValuesIndex;
          (minv, index) = reduce_loop minValuesBuffer minIndexesBuffer 4 0 (minv, index);
          (minv, index) = tail_loop source (unat num_points) (unat (quarterPoints * 4)) (minv, index)
      in word_of_int index)"

function u_avx_loop ::
  "(nat \<Rightarrow> float) \<Rightarrow> nat \<Rightarrow> nat \<Rightarrow> int list \<times> float list \<times> int list
     \<Rightarrow> int list \<times> float list \<times> int list" where
  "u_avx_loop source eighthPoints number (currentIndexes, minValues, minValuesIndex) =
     (if number < eighthPoints
      then (let currentValues = mm256_loadu_ps source (8 * number);
                currentIndexes = mm_add_ps currentIndexes (mm256_set1_ps 8);
                compareResults = mm256_cmp_ps_LT_OS currentValues minValues;
                minValuesIndex = mm_blendv_ps minValuesIndex currentIndexes compareResults;
                minValues = mm_blendv_ps minValues currentValues compareResults
            in u_avx_loop source eighthPoints (number + 1)
                 (currentIndexes, minValues, minValuesIndex))
      else (currentIndexes, minValues, minValuesIndex))"
  by pat_completeness auto
termination
  by (relation "measure (\<lambda>(source, eighthPoints, number, st). eighthPoints - number)") auto

definition volk_32f_index_min_16u_u_avx :: "(nat \<Rightarrow> float) \<Rightarrow> 32 word \<Rightarrow> 16 word" where
  "volk_32f_index_min_16u_u_avx source num_points0 =
     (let num_points = (if num_points0 > USHRT_MAX then USHRT_MAX else num_points0);
          eighthPoints = num_points div 8;
          currentIndexes = mm256_set_ps (- 1) (- 2) (- 3) (- 4) (- 5) (- 6) (- 7) (- 8);
          minv = source 0;
          index = 0;
          minValues = mm256_set1_ps minv;
          minValuesIndex = mm256_setzero_ps;
          (currentIndexes, minValues, minValuesIndex) =
             u_avx_loop source (unat eighthPoints) 0 (currentIndexes, minValues, minValuesIndex);
          minValuesBuffer = minValues;
          minIndexesBuffer = minValuesIndex;
          (minv, index) = reduce_loop minValuesBuffer minIndexesBuffer 8 0 (minv, index);
          (minv, index) = tail_loop source (unat num_points) (unat (eighthPoints * 8)) (minv, index)
      in word_of_int index)"

section \<open>volk\_32fc\_x2\_s32f\_square\_dist\_scalar\_mult\_32f\<close>

text \<open>
  The kernels of this file compute with \<open>float\<close> additions, subtractions and
  multiplications. They are modelled over any type \<open>'f\<close> that has these operations
  (\<open>+\<close>, \<open>-\<close>, \<open>*\<close>) and a zero: nothing about the arithmetic is assumed in the
  definitions. A complex number \<open>lv_32fc_t\<close> is the pair of its real and imaginary
  part, in that order in memory.

  The buffers are unbounded memories indexed from the pointer the caller passes: an
  access beyond the \<open>num_points\<close> elements the caller owns is therefore visible as an
  index in the access logs \<open>loads\<close> (elements of \<open>points\<close> read) and \<open>stores\<close>
  (elements of \<open>target\<close> written), which every load and store extends. The three
  buffers are separate memories, as for a caller whose buffers lie far apart: a store
  beyond \<open>target\<close> shows in the log and never reaches \<open>points\<close> or \<open>src0\<close>. What
  such a store does to buffers that lie next to each other is followed on the single
  memory of the last subsection.
\<close>

record 'f state =
  target_buf :: "nat \<Rightarrow> 'f"
  src0_buf :: "nat \<Rightarrow> 'f \<times> 'f"
  points_buf :: "nat \<Rightarrow> 'f \<times> 'f"
  loads :: "nat list"
  stores :: "nat list"

text \<open>The cast \<open>(float*)&points[k]\<close>: element \<open>k\<close> of a complex buffer is floats
  \<open>2k\<close> (real part) and \<open>2k + 1\<close> (imaginary part).\<close>

definition as_floats :: "(nat \<Rightarrow> 'f \<times> 'f) \<Rightarrow> nat \<Rightarrow> 'f" where
  "as_floats cs i = (if even i then fst (cs (i div 2)) else snd (cs (i div 2)))"

text \<open>Loading \<open>n\<close> complex elements from \<open>points\<close>, storing a vector at \<open>target\<close>.\<close>

definition load_points :: "nat \<Rightarrow> nat \<Rightarrow> 'f state \<Rightarrow> 'f list \<times> 'f state" where
  "load_points n points st =
     (map (as_floats (points_buf st)) [2 * points ..< 2 * points + 2 * n],
      st\<lparr>loads := loads st @ [points ..< points + n]\<rparr>)"

definition store_target :: "nat \<Rightarrow> 'f list \<Rightarrow> 'f state \<Rightarrow> 'f state" where
  "store_target target v st =
     st\<lparr>target_buf := (\<lambda>i. if target \<le> i \<and> i < target + length v
                            then v ! (i - target) else target_buf st i),
        stores := stores st @ [target ..< target + length v]\<rparr>"

definition mm256_load_ps_at :: "nat \<Rightarrow> 'f state \<Rightarrow> 'f list \<times> 'f state" where
  "mm256_load_ps_at points st = load_points 4 points st"

definition mm256_loadu_ps_at :: "nat \<Rightarrow> 'f state \<Rightarrow> 'f list \<times> 'f state" where
  "mm256_loadu_ps_at points st = load_points 4 points st"

definition mm_load_ps_at :: "nat \<Rightarrow> 'f state \<Rightarrow> 'f list \<times> 'f state" where
  "mm_load_ps_at points st = load_points 2 points st"

definition mm256_store_ps_at :: "nat \<Rightarrow> 'f list \<Rightarrow> 'f state \<Rightarrow> 'f state" where
  "mm256_store_ps_at target v st = store_target target (take 8 v) st"

definition mm256_storeu_ps_at :: "nat \<Rightarrow> 'f list \<Rightarrow> 'f state \<Rightarrow> 'f state" where
  "mm256_storeu_ps_at target v st = store_target target (take 8 v) st"

definition mm_store_ps_at :: "nat \<Rightarrow> 'f list \<Rightarrow> 'f state \<Rightarrow> 'f state" where
  "mm_store_ps_at target v st = store_target target (take 4 v) st"

definition mm_storeu_ps_at :: "nat \<Rightarrow> 'f list \<Rightarrow> 'f state \<Rightarrow> 'f state" where
  "mm_storeu_ps_at target v st = store_target target (take 4 v) st"

definition mm_storeh_pi_at :: "nat \<Rightarrow> 'f list \<Rightarrow> 'f state \<Rightarrow> 'f state" where
  "mm_storeh_pi_at target v st = store_target target [v ! 2, v ! 3] st"

text \<open>The register-to-register intrinsics.\<close>

definition mm_loadl_pi :: "'f list \<Rightarrow> (nat \<Rightarrow> 'f) \<Rightarrow> nat \<Rightarrow> 'f list" where
  "mm_loadl_pi a mem p = [mem p, mem (p + 1), a ! 2, a ! 3]"

definition mm_movelh_ps :: "'f list \<Rightarrow> 'f list \<Rightarrow> 'f list" where
  "mm_movelh_ps a b = [a ! 0, a ! 1, b ! 0, b ! 1]"

definition mm_load1_ps :: "'f \<Rightarrow> 'f list" where
  "mm_load1_ps a = [a, a, a, a]"

definition mm256_setr_ps :: "'a \<Rightarrow> 'a \<Rightarrow> 'a \<Rightarrow> 'a \<Rightarrow> 'a \<Rightarrow> 'a \<Rightarrow> 'a \<Rightarrow> 'a \<Rightarrow> 'a list" where
  "mm256_setr_ps e0 e1 e2 e3 e4 e5 e6 e7 = [e0, e1, e2, e3, e4, e5, e6, e7]"

definition mm256_set_epi32 :: "nat \<Rightarrow> nat \<Rightarrow> nat \<Rightarrow> nat \<Rightarrow> nat \<Rightarrow> nat \<Rightarrow> nat \<Rightarrow> nat \<Rightarrow> nat list" where
  "mm256_set_epi32 e7 e6 e5 e4 e3 e2 e1 e0 = [e0, e1, e2, e3, e4, e5, e6, e7]"

definition mm_sub_ps :: "'f::minus list \<Rightarrow> 'f list \<Rightarrow> 'f list" where
  "mm_sub_ps a b = map2 (-) a b"

definition mm256_sub_ps :: "'f::minus list \<Rightarrow> 'f list \<Rightarrow> 'f list" where
  "mm256_sub_ps a b = map2 (-) a b"

definition mm_mul_ps :: "'f::times list \<Rightarrow> 'f list \<Rightarrow> 'f list" where
  "mm_mul_ps a b = map2 (*) a b"

definition mm256_mul_ps :: "'f::times list \<Rightarrow> 'f list \<Rightarrow> 'f list" where
  "mm256_mul_ps a b = map2 (*) a b"

definition mm_hadd_ps :: "'f::plus list \<Rightarrow> 'f list \<Rightarrow> 'f list" where
  "mm_hadd_ps a b = [a ! 0 + a ! 1, a ! 2 + a ! 3, b ! 0 + b ! 1, b ! 2 + b ! 3]"

definition mm256_hadd_ps :: "'f::plus list \<Rightarrow> 'f list \<Rightarrow> 'f list" where
  "mm256_hadd_ps a b =
     [a ! 0 + a ! 1, a ! 2 + a ! 3, b ! 0 + b ! 1, b ! 2 + b ! 3,
      a ! 4 + a ! 5, a ! 6 + a ! 7, b ! 4 + b ! 5, b ! 6 + b ! 7]"

definition mm_permute_ps :: "'f list \<Rightarrow> nat \<Rightarrow> 'f list" where
  "mm_permute_ps a imm8 =
     [a ! (imm8 mod 4), a ! (imm8 div 4 mod 4), a ! (imm8 div 16 mod 4), a ! (imm8 div 64 mod 4)]"

definition mm256_permutevar8x32_ps :: "'f list \<Rightarrow> nat list \<Rightarrow> 'f list" where
  "mm256_permutevar8x32_ps a idx = map (\<lambda>i. a ! (i mod 8)) idx"

definition mm256_extractf128_ps :: "'f list \<Rightarrow> nat \<Rightarrow> 'f list" where
  "mm256_extractf128_ps a imm8 = (if even imm8 then take 4 a else take 4 (drop 4 a))"

definition mm256_insertf128_ps :: "'f list \<Rightarrow> 'f list \<Rightarrow> nat \<Rightarrow> 'f list" where
  "mm256_insertf128_ps a b imm8 =
     (if even imm8 then take 4 b @ take 4 (drop 4 a) else take 4 a @ take 4 b)"

text \<open>\<open>_mm256_castps128_ps256\<close> leaves the upper four lanes undefined: they are the
  parameter \<open>junk\<close>.\<close>

definition mm256_castps128_ps256 :: "'f \<Rightarrow> 'f list \<Rightarrow> 'f list" where
  "mm256_castps128_ps256 junk a = take 4 a @ [junk, junk, junk, junk]"

definition mm256_blend_ps :: "'f list \<Rightarrow> 'f list \<Rightarrow> nat \<Rightarrow> 'f list" where
  "mm256_blend_ps a b imm8 =
     [if odd (imm8 div 1) then b ! 0 else a ! 0, if odd (imm8 div 2) then b ! 1 else a ! 1,
      if odd (imm8 div 4) then b ! 2 else a ! 2, if odd (imm8 div 8) then b ! 3 else a ! 3,
      if odd (imm8 div 16) then b ! 4 else a ! 4, if odd (imm8 div 32) then b ! 5 else a ! 5,
      if odd (imm8 div 64) then b ! 6 else a ! 6, if odd (imm8 div 128) then b ! 7 else a ! 7]"

subsection \<open>The scalar loop\<close>

text \<open>
  A counted loop \<open>for (i = 0; i < n; ++i) body\<close> whose body does not mention \<open>i\<close> runs
  its body \<open>n\<close> times on the variables it updates: \<open>(body ^^ n)\<close>.
\<close>

definition calculate_scaled_distances_body ::
  "'f \<times> 'f \<Rightarrow> 'f \<Rightarrow> nat \<times> nat \<times> 'f state \<Rightarrow> nat \<times> nat \<times> ('f::{plus,minus,times}) state" where
  "calculate_scaled_distances_body symbol scalar = (\<lambda>(target, points, st).
     (let (c, st) = load_points 1 points st;
          diff = (fst symbol - c ! 0, snd symbol - c ! 1);
          points = points + 1;
          st = store_target target
                 [scalar * (fst diff * fst diff + snd diff * snd diff)] st;
          target = target + 1
      in (target, points, st)))"

definition calculate_scaled_distances ::
  "nat \<Rightarrow> 'f \<times> 'f \<Rightarrow> nat \<Rightarrow> 'f \<Rightarrow> nat \<Rightarrow> 'f state \<Rightarrow> ('f::{plus,minus,times}) state" where
  "calculate_scaled_distances target symbol points scalar num_points st =
     snd (snd ((calculate_scaled_distances_body symbol scalar ^^ num_points)
                 (target, points, st)))"

definition volk_32fc_x2_s32f_square_dist_scalar_mult_32f_generic ::
  "'f \<Rightarrow> 32 word \<Rightarrow> 'f state \<Rightarrow> ('f::{plus,minus,times}) state" where
  "volk_32fc_x2_s32f_square_dist_scalar_mult_32f_generic scalar num_points st =
     (let symbol = src0_buf st 0
      in calculate_scaled_distances 0 symbol 0 scalar (unat num_points) st)"

subsection \<open>a\_avx2\<close>

definition a_avx2_loop_body ::
  "'f list \<Rightarrow> 'f list \<Rightarrow> nat list \<Rightarrow> 'f list \<times> 'f list \<times> nat \<times> nat \<times> 'f state
     \<Rightarrow> 'f list \<times> 'f list \<times> nat \<times> nat \<times> ('f::{plus,minus,times}) state" where
  "a_avx2_loop_body xmm1 xmm8 idx = (\<lambda>(xmm2, xmm3, points, target, st).
     (let xmm4 = mm256_sub_ps xmm1 xmm2;
          xmm5 = mm256_sub_ps xmm1 xmm3;
          points = points + 8;
          xmm6 = mm256_mul_ps xmm4 xmm4;
          xmm7 = mm256_mul_ps xmm5 xmm5;
          (xmm2, st) = mm256_load_ps_at points st;
          xmm4 = mm256_hadd_ps xmm6 xmm7;
          xmm4 = mm256_permutevar8x32_ps xmm4 idx;
          (xmm3, st) = mm256_load_ps_at (points + 4) st;
          xmm4 = mm256_mul_ps xmm4 xmm8;
          st = mm256_store_ps_at target xmm4 st;
          target = target + 8
      in (xmm2, xmm3, points, target, st)))"

definition a_avx2_leftovers0_body ::
  "'f list \<Rightarrow> 'f list \<Rightarrow> nat list \<Rightarrow> nat \<times> nat \<times> 'f state
     \<Rightarrow> nat \<times> nat \<times> ('f::{plus,minus,times}) state" where
  "a_avx2_leftovers0_body xmm1 xmm8 idx = (\<lambda>(points, target, st).
     (let (xmm2, st) = mm256_load_ps_at points st;
          xmm4 = mm256_sub_ps xmm1 xmm2;
          points = points + 4;
          xmm6 = mm256_mul_ps xmm4 xmm4;
          xmm4 = mm256_hadd_ps xmm6 xmm6;
          xmm4 = mm256_permutevar8x32_ps xmm4 idx;
          xmm4 = mm256_mul_ps xmm4 xmm8;
          xmm9 = mm256_extractf128_ps xmm4 1;
          st = mm_store_ps_at target xmm9 st;
          target = target + 4
      in (points, target, st)))"

definition a_avx2_leftovers1_body ::
  "'f list \<Rightarrow> 'f list \<Rightarrow> nat \<times> nat \<times> 'f state
     \<Rightarrow> nat \<times> nat \<times> ('f::{plus,minus,times}) state" where
  "a_avx2_leftovers1_body xmm0 xmm11 = (\<lambda>(points, target, st).
     (let (xmm9, st) = mm_load_ps_at points st;
          xmm10 = mm_sub_ps xmm0 xmm9;
          points = points + 2;
          xmm9 = mm_mul_ps xmm10 xmm10;
          xmm10 = mm_hadd_ps xmm9 xmm9;
          xmm10 = mm_mul_ps xmm10 xmm11;
          st = mm_storeh_pi_at target xmm10 st;
          target = target + 2
      in (points, target, st)))"

definition volk_32fc_x2_s32f_square_dist_scalar_mult_32f_a_avx2 ::
  "'f \<Rightarrow> 32 word \<Rightarrow> 'f state \<Rightarrow> ('f::{zero,plus,minus,times}) state" where
  "volk_32fc_x2_s32f_square_dist_scalar_mult_32f_a_avx2 scalar num_points st =
     (let num_bytes = num_points * 8;
          bound = unat (drop_bit 6 num_bytes);
          leftovers0 = unat (drop_bit 5 num_bytes AND 1);
          leftovers1 = unat (drop_bit 4 num_bytes AND 1);
          leftovers2 = unat (drop_bit 3 num_bytes AND 1);
          points = 0;
          target = 0;
          idx = mm256_set_epi32 7 6 3 2 5 4 1 0;
          xmm1 = mm256_setzero_ps;
          (xmm2, st) = mm256_load_ps_at points st;
          xmm8 = mm256_set1_ps scalar;
          xmm11 = mm256_extractf128_ps xmm8 1;
          xmm0 = mm_load_ps (as_floats (src0_buf st)) 0;
          xmm0 = mm_permute_ps xmm0 68;
          xmm1 = mm256_insertf128_ps xmm1 xmm0 0;
          xmm1 = mm256_insertf128_ps xmm1 xmm0 1;
          (xmm3, st) = mm256_load_ps_at (points + 4) st;
          (xmm2, xmm3, points, target, st) =
             (a_avx2_loop_body xmm1 xmm8 idx ^^ bound) (xmm2, xmm3, points, target, st);
          (points, target, st) =
             (a_avx2_leftovers0_body xmm1 xmm8 idx ^^ leftovers0) (points, target, st);
          (points, target, st) =
             (a_avx2_leftovers1_body xmm0 xmm11 ^^ leftovers1) (points, target, st)
      in calculate_scaled_distances target (src0_buf st 0) points scalar leftovers2 st)"

subsection \<open>u\_avx2\<close>

definition u_avx2_loop_body ::
  "'f list \<Rightarrow> 'f list \<Rightarrow> nat list \<Rightarrow> 'f list \<times> 'f list \<times> nat \<times> nat \<times> 'f state
     \<Rightarrow> 'f list \<times> 'f list \<times> nat \<times> nat \<times> ('f::{plus,minus,times}) state" where
  "u_avx2_loop_body xmm1 xmm8 idx = (\<lambda>(xmm2, xmm3, points, target, st).
     (let xmm4 = mm256_sub_ps xmm1 xmm2;
          xmm5 = mm256_sub_ps xmm1 xmm3;
          points = points + 8;
          xmm6 = mm256_mul_ps xmm4 xmm4;
          xmm7 = mm256_mul_ps xmm5 xmm5;
          (xmm2, st) = mm256_loadu_ps_at points st;
          xmm4 = mm256_hadd_ps xmm6 xmm7;
          xmm4 = mm256_permutevar8x32_ps xmm4 idx;
          (xmm3, st) = mm256_loadu_ps_at (points + 4) st;
          xmm4 = mm256_mul_ps xmm4 xmm8;
          st = mm256_storeu_ps_at target xmm4 st;
          target = target + 8
      in (xmm2, xmm3, points, target, st)))"

definition u_avx2_leftovers0_body ::
  "'f list \<Rightarrow> 'f list \<Rightarrow> nat list \<Rightarrow> nat \<times> nat \<times> 'f state
     \<Rightarrow> nat \<times> nat \<times> ('f::{plus,minus,times}) state" where
  "u_avx2_leftovers0_body xmm1 xmm8 idx = (\<lambda>(points, target, st).
     (let (xmm2, st) = mm256_loadu_ps_at points st;
          xmm4 = mm256_sub_ps xmm1 xmm2;
          points = points + 4;
          xmm6 = mm256_mul_ps xmm4 xmm4;
          xmm4 = mm256_hadd_ps xmm6 xmm6;
          xmm4 = mm256_permutevar8x32_ps xmm4 idx;
          xmm4 = mm256_mul_ps xmm4 xmm8;
          xmm9 = mm256_extractf128_ps xmm4 1;
          st = mm_storeu_ps_at target xmm9 st;
          target = target + 4
      in (points, target, st)))"

definition volk_32fc_x2_s32f_square_dist_scalar_mult_32f_u_avx2 ::
  "'f \<Rightarrow> 32 word \<Rightarrow> 'f state \<Rightarrow> ('f::{zero,plus,minus,times}) state" where
  "volk_32fc_x2_s32f_square_dist_scalar_mult_32f_u_avx2 scalar num_points st =
     (let num_bytes = num_points * 8;
          bound = unat (drop_bit 6 num_bytes);
          leftovers0 = unat (drop_bit 5 num_bytes AND 1);
          leftovers1 = unat (drop_bit 3 num_bytes AND 3);
          points = 0;
          target = 0;
          idx = mm256_set_epi32 7 6 3 2 5 4 1 0;
          xmm1 = mm256_setzero_ps;
          (xmm2, st) = mm256_loadu_ps_at points st;
          xmm8 = mm256_set1_ps scalar;
          xmm0 = mm_load_ps (as_floats (src0_buf st)) 0;
          xmm0 = mm_permute_ps xmm0 68;
          xmm1 = mm256_insertf128_ps xmm1 xmm0 0;
          xmm1 = mm256_insertf128_ps xmm1 xmm0 1;
          (xmm3, st) = mm256_loadu_ps_at (points + 4) st;
          (xmm2, xmm3, points, target, st) =
             (u_avx2_loop_body xmm1 xmm8 idx ^^ bound) (xmm2, xmm3, points, target, st);
          (points, target, st) =
             (u_avx2_leftovers0_body xmm1 xmm8 idx ^^ leftovers0) (points, target, st)
      in calculate_scaled_distances target (src0_buf st 0) points scalar leftovers1 st)"

subsection \<open>a\_avx\<close>

text \<open>
  The loop counter of this kernel is an \<open>int\<close> advanced by \<open>work_size = 8\<close> and compared
  with the unsigned \<open>avx_work_size\<close>; it is a natural number here (it stays below
  \<open>2^31\<close> as long as \<open>num_points\<close> does).
\<close>

function a_avx_loop_sq ::
  "'f \<Rightarrow> 'f \<Rightarrow> nat \<Rightarrow> nat \<Rightarrow> nat \<times> nat \<times> 'f state
     \<Rightarrow> nat \<times> nat \<times> ('f::{plus,minus,times}) state" where
  "a_avx_loop_sq junk scalar avx_work_size i (points, target, st) =
     (if i < avx_work_size
      then (let src = src0_buf st 0;
                src_real = fst src;
                src_imag = snd src;
                source = mm256_setr_ps src_real src_imag src_real src_imag
                           src_real src_imag src_real src_imag;
                (points_low, st) = mm256_load_ps_at points st;
                (points_high, st) = mm256_load_ps_at (points + 8 div 2) st;
                difference_low = mm256_sub_ps source points_low;
                difference_high = mm256_sub_ps source points_high;
                difference_low = mm256_mul_ps difference_low difference_low;
                difference_high = mm256_mul_ps difference_high difference_high;
                magnitudes_squared = mm256_hadd_ps difference_low difference_high;
                lower_magnitudes_squared_bottom = mm256_extractf128_ps magnitudes_squared 0;
                upper_magnitudes_squared_top = mm256_extractf128_ps magnitudes_squared 1;
                lower_magnitudes_squared =
                  mm256_castps128_ps256 junk lower_magnitudes_squared_bottom;
                lower_magnitudes_squared =
                  mm256_insertf128_ps lower_magnitudes_squared
                    (mm_permute_ps lower_magnitudes_squared_bottom 78) 1;
                upper_magnitudes_squared =
                  mm256_castps128_ps256 junk upper_magnitudes_squared_top;
                upper_magnitudes_squared =
                  mm256_insertf128_ps upper_magnitudes_squared upper_magnitudes_squared_top 1;
                upper_magnitudes_squared_top = mm_permute_ps upper_magnitudes_squared_top 78;
                upper_magnitudes_squared =
                  mm256_insertf128_ps upper_magnitudes_squared upper_magnitudes_squared_top 0;
                ordered_magnitudes_squared =
                  mm256_blend_ps lower_magnitudes_squared upper_magnitudes_squared 204;
                scalars = mm256_set1_ps scalar;
                output = mm256_mul_ps ordered_magnitudes_squared scalars;
                st = mm256_store_ps_at target output st;
                target = target + 8;
                points = points + 8
            in a_avx_loop_sq junk scalar avx_work_size (i + 8) (points, target, st))
      else (points, target, st))"
  by pat_completeness auto
termination
  by (relation "measure (\<lambda>(junk, scalar, avx_work_size, i, s). avx_work_size - i)") auto

definition volk_32fc_x2_s32f_square_dist_scalar_mult_32f_a_avx ::
  "'f \<Rightarrow> 'f \<Rightarrow> 32 word \<Rightarrow> 'f state \<Rightarrow> ('f::{plus,minus,times}) state" where
  "volk_32fc_x2_s32f_square_dist_scalar_mult_32f_a_avx junk scalar num_points st =
     (let avx_work_size = num_points div 8 * 8;
          (points, target, st) = a_avx_loop_sq junk scalar (unat avx_work_size) 0 (0, 0, st)
      in calculate_scaled_distances target (src0_buf st 0) points scalar
           (unat (num_points - avx_work_size)) st)"

subsection \<open>a\_sse3\<close>

definition a_sse3_loop_body ::
  "'f list \<Rightarrow> 'f list \<Rightarrow> 'f list \<times> 'f list \<times> nat \<times> nat \<times> 'f state
     \<Rightarrow> 'f list \<times> 'f list \<times> nat \<times> nat \<times> ('f::{plus,minus,times}) state" where
  "a_sse3_loop_body xmm1 xmm8 = (\<lambda>(xmm2, xmm3, points, target, st).
     (let xmm4 = mm_sub_ps xmm1 xmm2;
          xmm5 = mm_sub_ps xmm1 xmm3;
          points = points + 4;
          xmm6 = mm_mul_ps xmm4 xmm4;
          xmm7 = mm_mul_ps xmm5 xmm5;
          (xmm2, st) = mm_load_ps_at points st;
          xmm4 = mm_hadd_ps xmm6 xmm7;
          (xmm3, st) = mm_load_ps_at (points + 2) st;
          xmm4 = mm_mul_ps xmm4 xmm8;
          st = mm_store_ps_at target xmm4 st;
          target = target + 4
      in (xmm2, xmm3, points, target, st)))"

definition a_sse3_leftovers0_body ::
  "'f list \<Rightarrow> 'f list \<Rightarrow> nat \<times> nat \<times> 'f state
     \<Rightarrow> nat \<times> nat \<times> ('f::{plus,minus,times}) state" where
  "a_sse3_leftovers0_body xmm1 xmm8 = (\<lambda>(points, target, st).
     (let (xmm2, st) = mm_load_ps_at points st;
          xmm4 = mm_sub_ps xmm1 xmm2;
          points = points + 2;
          xmm6 = mm_mul_ps xmm4 xmm4;
          xmm4 = mm_hadd_ps xmm6 xmm6;
          xmm4 = mm_mul_ps xmm4 xmm8;
          st = mm_storeh_pi_at target xmm4 st;
          target = target + 2
      in (points, target, st)))"

text \<open>
  The main loop runs \<open>bound - 1\<close> times, with \<open>bound\<close> an \<open>int\<close>: not at all when
  \<open>bound\<close> is 0 or 1. The statements after it are not guarded by any test.
\<close>

definition volk_32fc_x2_s32f_square_dist_scalar_mult_32f_a_sse3 ::
  "'f \<Rightarrow> 32 word \<Rightarrow> 'f state \<Rightarrow> ('f::{zero,plus,minus,times}) state" where
  "volk_32fc_x2_s32f_square_dist_scalar_mult_32f_a_sse3 scalar num_points st =
     (let num_bytes = num_points * 8;
          bound = uint (drop_bit 5 num_bytes);
          leftovers0 = unat (drop_bit 4 num_bytes AND 1);
          leftovers1 = unat (drop_bit 3 num_bytes AND 1);
          points = 0;
          target = 0;
          xmm1 = mm_setzero_ps;
          xmm1 = mm_loadl_pi xmm1 (as_floats (src0_buf st)) 0;
          (xmm2, st) = mm_load_ps_at points st;
          xmm8 = mm_load1_ps scalar;
          xmm1 = mm_movelh_ps xmm1 xmm1;
          (xmm3, st) = mm_load_ps_at (points + 2) st;
          (xmm2, xmm3, points, target, st) =
             (a_sse3_loop_body xmm1 xmm8 ^^ nat (bound - 1)) (xmm2, xmm3, points, target, st);
          xmm4 = mm_sub_ps xmm1 xmm2;
          xmm5 = mm_sub_ps xmm1 xmm3;
          points = points + 4;
          xmm6 = mm_mul_ps xmm4 xmm4;
          xmm7 = mm_mul_ps xmm5 xmm5;
          xmm4 = mm_hadd_ps xmm6 xmm7;
          xmm4 = mm_mul_ps xmm4 xmm8;
          st = mm_store_ps_at target xmm4 st;
          target = target + 4;
          (points, target, st) =
             (a_sse3_leftovers0_body xmm1 xmm8 ^^ leftovers0) (points, target, st)
      in calculate_scaled_distances target (src0_buf st 0) points scalar leftovers1 st)"

subsection \<open>a\_sse3 and generic on one memory\<close>

text \<open>
  The buffers of a caller lie in one memory, and a store that leaves \<open>target\<close> lands
  in whatever lies behind it. To follow such a store, the SSE3 kernel and the generic
  kernel are modelled a second time, on a single memory of floats: an address counts
  floats, \<open>target\<close>, \<open>src0\<close> and \<open>points\<close> are the addresses the caller
  passes, and a complex number takes two floats, so that \<open>&points[k]\<close> is the address
  \<open>points + 2 * k\<close> and \<open>points += k\<close> advances the address by \<open>2 * k\<close>. The
  statements are those of the definitions above, with the loads and stores going to that
  memory.
\<close>

definition mm_store_ps_mem :: "nat \<Rightarrow> 'f list \<Rightarrow> (nat \<Rightarrow> 'f) \<Rightarrow> nat \<Rightarrow> 'f" where
  "mm_store_ps_mem p v mem = (\<lambda>a. if p \<le> a \<and> a < p + 4 then v ! (a - p) else mem a)"

definition mm_storeh_pi_mem :: "nat \<Rightarrow> 'f list \<Rightarrow> (nat \<Rightarrow> 'f) \<Rightarrow> nat \<Rightarrow> 'f" where
  "mm_storeh_pi_mem p v mem = (\<lambda>a. if a = p then v ! 2 else if a = p + 1 then v ! 3 else mem a)"

definition calculate_scaled_distances_body_mem ::
  "'f \<times> 'f \<Rightarrow> 'f \<Rightarrow> nat \<times> nat \<times> (nat \<Rightarrow> 'f) \<Rightarrow> nat \<times> nat \<times> (nat \<Rightarrow> 'f::{plus,minus,times})" where
  "calculate_scaled_distances_body_mem symbol scalar = (\<lambda>(target, points, mem).
     (let diff = (fst symbol - mem points, snd symbol - mem (points + 1));
          points = points + 2 * 1;
          mem = mem(target := scalar * (fst diff * fst diff + snd diff * snd diff));
          target = target + 1
      in (target, points, mem)))"

definition calculate_scaled_distances_mem ::
  "nat \<Rightarrow> 'f \<times> 'f \<Rightarrow> nat \<Rightarrow> 'f \<Rightarrow> nat \<Rightarrow> (nat \<Rightarrow> 'f) \<Rightarrow> nat \<Rightarrow> 'f::{plus,minus,times}" where
  "calculate_scaled_distances_mem target symbol points scalar num_points mem =
     snd (snd ((calculate_scaled_distances_body_mem symbol scalar ^^ num_points)
                 (target, points, mem)))"

definition volk_32fc_x2_s32f_square_dist_scalar_mult_32f_generic_mem ::
  "nat \<Rightarrow> nat \<Rightarrow> nat \<Rightarrow> 'f \<Rightarrow> 32 word \<Rightarrow> (nat \<Rightarrow> 'f) \<Rightarrow> nat \<Rightarrow> 'f::{plus,minus,times}" where
  "volk_32fc_x2_s32f_square_dist_scalar_mult_32f_generic_mem target src0 points scalar num_points mem =
     (let symbol = (mem src0, mem (src0 + 1))
      in calculate_scaled_distances_mem target symbol points scalar (unat num_points) mem)"

definition a_sse3_loop_body_mem ::
  "'f list \<Rightarrow> 'f list \<Rightarrow> 'f list \<times> 'f list \<times> nat \<times> nat \<times> (nat \<Rightarrow> 'f)
     \<Rightarrow> 'f list \<times> 'f list \<times> nat \<times> nat \<times> (nat \<Rightarrow> 'f::{plus,minus,times})" where
  "a_sse3_loop_body_mem xmm1 xmm8 = (\<lambda>(xmm2, xmm3, points, target, mem).
     (let xmm4 = mm_sub_ps xmm1 xmm2;
          xmm5 = mm_sub_ps xmm1 xmm3;
          points = points + 2 * 4;
          xmm6 = mm_mul_ps xmm4 xmm4;
          xmm7 = mm_mul_ps xmm5 xmm5;
          xmm2 = mm_load_ps mem points;
          xmm4 = mm_hadd_ps xmm6 xmm7;
          xmm3 = mm_load_ps mem (points + 2 * 2);
          xmm4 = mm_mul_ps xmm4 xmm8;
          mem = mm_store_ps_mem target xmm4 mem;
          target = target + 4
      in (xmm2, xmm3, points, target, mem)))"

definition a_sse3_leftovers0_body_mem ::
  "'f list \<Rightarrow> 'f list \<Rightarrow> nat \<times> nat \<times> (nat \<Rightarrow> 'f)
     \<Rightarrow> nat \<times> nat \<times> (nat \<Rightarrow> 'f::{plus,minus,times})" where
  "a_sse3_leftovers0_body_mem xmm1 xmm8 = (\<lambda>(points, target, mem).
     (let xmm2 = mm_load_ps mem points;
          xmm4 = mm_sub_ps xmm1 xmm2;
          points = points + 2 * 2;
          xmm6 = mm_mul_ps xmm4 xmm4;
          xmm4 = mm_hadd_ps xmm6 xmm6;
          xmm4 = mm_mul_ps xmm4 xmm8;
          mem = mm_storeh_pi_mem target xmm4 mem;
          target = target + 2
      in (points, target, mem)))"

definition volk_32fc_x2_s32f_square_dist_scalar_mult_32f_a_sse3_mem ::
  "nat \<Rightarrow> nat \<Rightarrow> nat \<Rightarrow> 'f \<Rightarrow> 32 word \<Rightarrow> (nat \<Rightarrow> 'f) \<Rightarrow> nat \<Rightarrow> 'f::{zero,plus,minus,times}" where
  "volk_32fc_x2_s32f_square_dist_scalar_mult_32f_a_sse3_mem target src0 points scalar num_points mem =
     (let num_bytes = num_points * 8;
          bound = uint (drop_bit 5 num_bytes);
          leftovers0 = unat (drop_bit 4 num_bytes AND 1);
          leftovers1 = unat (drop_bit 3 num_bytes AND 1);
          xmm1 = mm_setzero_ps;
          xmm1 = mm_loadl_pi xmm1 mem src0;
          xmm2 = mm_load_ps mem points;
          xmm8 = mm_load1_ps scalar;
          xmm1 = mm_movelh_ps xmm1 xmm1;
          xmm3 = mm_load_ps mem (points + 2 * 2);
          (xmm2, xmm3, points, target, mem) =
             (a_sse3_loop_body_mem xmm1 xmm8 ^^ nat (bound - 1)) (xmm2, xmm3, points, target, mem);
          xmm4 = mm_sub_ps xmm1 xmm2;
          xmm5 = mm_sub_ps xmm1 xmm3;
          points = points + 2 * 4;
          xmm6 = mm_mul_ps xmm4 xmm4;
          xmm7 = mm_mul_ps xmm5 xmm5;
          xmm4 = mm_hadd_ps xmm6 xmm7;
          xmm4 = mm_mul_ps xmm4 xmm8;
          mem = mm_store_ps_mem target xmm4 mem;
          target = target + 4;
          (points, target, mem) =
             (a_sse3_leftovers0_body_mem xmm1 xmm8 ^^ leftovers0) (points, target, mem)
      in calculate_scaled_distances_mem target (mem src0, mem (src0 + 1)) points scalar
           leftovers1 mem)"

section \<open>volk\_32u\_popcntpuppet\_32u\<close>

text \<open>
  The adapters call the single-word kernels \<open>volk_32u_popcnt_e2k\<close> and
  \<open>volk_32u_popcnt_a_sse4_2\<close> of \<open>volk/volk_32u_popcnt.h\<close>, which this repository
  snapshot does not hold. A call \<open>kernel(ret, value)\<close> stores one word through \<open>ret\<close>;
  the word it stores for a given \<open>value\<close> is the parameter \<open>kernel\<close> of the adapters.
  The counter \<open>ii\<close> is unsigned and stays below \<open>num_points\<close>.
\<close>

function popcntpuppet_e2k_loop ::
  "(32 word \<Rightarrow> 32 word) \<Rightarrow> (nat \<Rightarrow> 32 word) \<Rightarrow> nat \<Rightarrow> nat \<Rightarrow> (nat \<Rightarrow> 32 word)
     \<Rightarrow> (nat \<Rightarrow> 32 word)" where
  "popcntpuppet_e2k_loop volk_32u_popcnt_e2k inVector num_points ii outVector =
     (if ii < num_points
      then popcntpuppet_e2k_loop volk_32u_popcnt_e2k inVector num_points (ii + 1)
             (outVector(ii := volk_32u_popcnt_e2k (inVector ii)))
      else outVector)"
  by pat_completeness auto
termination
  by (relation "measure (\<lambda>(k, inVector, num_points, ii, outVector). num_points - ii)") auto

definition volk_32u_popcntpuppet_32u_e2k ::
  "(32 word \<Rightarrow> 32 word) \<Rightarrow> (nat \<Rightarrow> 32 word) \<Rightarrow> (nat \<Rightarrow> 32 word) \<Rightarrow> 32 word
     \<Rightarrow> (nat \<Rightarrow> 32 word)" where
  "volk_32u_popcntpuppet_32u_e2k volk_32u_popcnt_e2k outVector inVector num_points =
     popcntpuppet_e2k_loop volk_32u_popcnt_e2k inVector (unat num_points) 0 outVector"

function popcntpuppet_a_sse4_2_loop ::
  "(32 word \<Rightarrow> 32 word) \<Rightarrow> (nat \<Rightarrow> 32 word) \<Rightarrow> nat \<Rightarrow> nat \<Rightarrow> (nat \<Rightarrow> 32 word)
     \<Rightarrow> (nat \<Rightarrow> 32 word)" where
  "popcntpuppet_a_sse4_2_loop volk_32u_popcnt_a_sse4_2 inVector num_points ii outVector =
     (if ii < num_points
      then popcntpuppet_a_sse4_2_loop volk_32u_popcnt_a_sse4_2 inVector num_points (ii + 1)
             (outVector(ii := volk_32u_popcnt_a_sse4_2 (inVector ii)))
      else outVector)"
  by pat_completeness auto
termination
  by (relation "measure (\<lambda>(k, inVector, num_points, ii, outVector). num_points - ii)") auto

definition volk_32u_popcntpuppet_32u_a_sse4_2 ::
  "(32 word \<Rightarrow> 32 word) \<Rightarrow> (nat \<Rightarrow> 32 word) \<Rightarrow> (nat \<Rightarrow> 32 word) \<Rightarrow> 32 word
     \<Rightarrow> (nat \<Rightarrow> 32 word)" where
  "volk_32u_popcntpuppet_32u_a_sse4_2 volk_32u_popcnt_a_sse4_2 outVector inVector num_points =
     popcntpuppet_a_sse4_2_loop volk_32u_popcnt_a_sse4_2 inVector (unat num_points) 0 outVector"

section \<open>Specification notions for the index-of-minimum kernels\<close>

text \<open>
  \<open>first_min s a m i\<close>: the running state \<open>(m, i)\<close> of a scan is right for the first
  \<open>a\<close> elements of \<open>s\<close>: \<open>i\<close> is an index of the range (or 0), \<open>m\<close> compares equal
  to the element at \<open>i\<close>, no element of the range compares less than \<open>m\<close>, and no
  element before \<open>i\<close> compares equal to it.
\<close>

definition first_min :: "(nat \<Rightarrow> float) \<Rightarrow> nat \<Rightarrow> float \<Rightarrow> int \<Rightarrow> bool" where
  "first_min s a m i \<longleftrightarrow>
     0 \<le> i \<and> (i = 0 \<or> nat i < a) \<and> feq m (s (nat i)) \<and> \<not> flt (s 0) m \<and>
     (\<forall>k<a. \<not> flt (s k) m) \<and> (\<forall>k<nat i. \<not> feq (s k) m)"

text \<open>
  What lane \<open>j\<close> of a vector loop of width \<open>W\<close> holds after \<open>t\<close> iterations: the
  running minimum of the elements \<open>j, W + j, 2W + j, ...\<close> below the first element, and
  its index.
\<close>

fun lane_val :: "(nat \<Rightarrow> float) \<Rightarrow> nat \<Rightarrow> nat \<Rightarrow> nat \<Rightarrow> float"
  and lane_idx :: "(nat \<Rightarrow> float) \<Rightarrow> nat \<Rightarrow> nat \<Rightarrow> nat \<Rightarrow> int" where
  "lane_val s W j 0 = s 0"
| "lane_idx s W j 0 = 0"
| "lane_val s W j (Suc t) =
     (if flt (s (W * t + j)) (lane_val s W j t) then s (W * t + j) else lane_val s W j t)"
| "lane_idx s W j (Suc t) =
     (if flt (s (W * t + j)) (lane_val s W j t) then int (W * t + j) else lane_idx s W j t)"

text \<open>Registers written lane by lane, and the loop state after \<open>t\<close> iterations.\<close>

definition lanes4 :: "(nat \<Rightarrow> 'a) \<Rightarrow> 'a list" where
  "lanes4 f = [f 0, f 1, f 2, f 3]"

definition lanes8 :: "(nat \<Rightarrow> 'a) \<Rightarrow> 'a list" where
  "lanes8 f = [f 0, f 1, f 2, f 3, f 4, f 5, f 6, f 7]"

definition avx_state :: "(nat \<Rightarrow> float) \<Rightarrow> nat \<Rightarrow> int list \<times> float list \<times> int list" where
  "avx_state s t =
     (lanes8 (\<lambda>j. int (8 * t + j) - 8), lanes8 (\<lambda>j. lane_val s 8 j t),
      lanes8 (\<lambda>j. lane_idx s 8 j t))"

text \<open>
  The invariants of the vector loop (for one lane) and of the horizontal reduction (for
  the lanes below \<open>j\<close>), for a first element that is not a NaN.
\<close>

definition lane_ok :: "(nat \<Rightarrow> float) \<Rightarrow> nat \<Rightarrow> nat \<Rightarrow> nat \<Rightarrow> float \<Rightarrow> int \<Rightarrow> bool" where
  "lane_ok s W t j v i \<longleftrightarrow>
     0 \<le> i \<and> (i = 0 \<or> nat i < W * t) \<and> feq v (s (nat i)) \<and> \<not> flt (s 0) v \<and>
     (i \<noteq> 0 \<longrightarrow> flt v (s 0)) \<and>
     (\<forall>q<t. \<not> flt (s (W * q + j)) v) \<and>
     (\<forall>q. W * q + j < nat i \<longrightarrow> \<not> feq (s (W * q + j)) v)"

definition red_ok :: "(nat \<Rightarrow> float) \<Rightarrow> nat \<Rightarrow> nat \<Rightarrow> nat \<Rightarrow> float \<Rightarrow> int \<Rightarrow> bool" where
  "red_ok s W t j m i \<longleftrightarrow>
     0 \<le> i \<and> (i = 0 \<or> nat i < W * t) \<and> feq m (s (nat i)) \<and> \<not> flt (s 0) m \<and>
     (i \<noteq> 0 \<longrightarrow> flt m (s 0)) \<and>
     (\<forall>j'<j. \<forall>q<t. \<not> flt (s (W * q + j')) m) \<and>
     (\<forall>j'<j. \<forall>q. W * q + j' < nat i \<longrightarrow> \<not> feq (s (W * q + j')) m)"

text \<open>
  The index the scalar scan computes over the first \<open>N\<close> elements, and the index a
  kernel of vector width \<open>W\<close> computes: vector loop, horizontal reduction, scalar tail.
\<close>

definition scalar_result :: "(nat \<Rightarrow> float) \<Rightarrow> nat \<Rightarrow> int" where
  "scalar_result s N = snd (tail_loop s N 1 (s 0, 0))"

definition simd_result :: "nat \<Rightarrow> (nat \<Rightarrow> float) \<Rightarrow> nat \<Rightarrow> int" where
  "simd_result W s N =
     snd (tail_loop s N (W * (N div W))
            (reduce_loop (map (\<lambda>j. lane_val s W j (N div W)) [0..<W])
                         (map (\<lambda>j. lane_idx s W j (N div W)) [0..<W]) W 0 (s 0, 0)))"

definition sse_state :: "(nat \<Rightarrow> float) \<Rightarrow> nat \<Rightarrow> int list \<times> float list \<times> int list" where
  "sse_state s t =
     (lanes4 (\<lambda>j. int (4 * t + j) - 4), lanes4 (\<lambda>j. lane_val s 4 j t),
      lanes4 (\<lambda>j. lane_idx s 4 j t))"

text \<open>
  \<open>lowest_min_index s N r\<close>: \<open>r\<close> is the lowest index at which the minimum of the
  first \<open>N\<close> elements occurs. It is an index of the range, its element is a number (not
  a NaN), no element of the range compares less than it (a NaN compares less than
  nothing, so the minimum is that of the elements that are numbers), and no element
  before \<open>r\<close> compares equal to it. At most one index has this property (lemma
  \<open>lowest_min_index_unique\<close>); none has it when every element of the range is a NaN.
\<close>

definition lowest_min_index :: "(nat \<Rightarrow> float) \<Rightarrow> nat \<Rightarrow> nat \<Rightarrow> bool" where
  "lowest_min_index s N r \<longleftrightarrow>
     r < N \<and> \<not> isnan (s r) \<and> (\<forall>i<N. \<not> flt (s i) (s r)) \<and> (\<forall>i<r. \<not> feq (s i) (s r))"

text \<open>A buffer given by the list of its elements; the memory behind it reads as zero.\<close>

definition buf :: "'a::zero list \<Rightarrow> nat \<Rightarrow> 'a" where
  "buf xs i = (if i < length xs then xs ! i else 0)"

section \<open>Specification notions for the square-distance kernels\<close>

text \<open>
  \<open>bufs\<close> is the memory of a state without its access logs. \<open>wr g P n m T\<close> is the
  target memory \<open>T\<close> after the elements \<open>n, ..., n + m - 1\<close> have been overwritten with
  \<open>g\<close> of the corresponding points. \<open>sqd_scalar\<close> is the expression of the scalar loop,
  \<open>sqd_vector\<close> the one the vector code evaluates: they differ in the order of the
  operands of the last multiplication.
\<close>

definition bufs :: "'f state \<Rightarrow> (nat \<Rightarrow> 'f) \<times> (nat \<Rightarrow> 'f \<times> 'f) \<times> (nat \<Rightarrow> 'f \<times> 'f)" where
  "bufs st = (target_buf st, src0_buf st, points_buf st)"

definition wr :: "('f \<times> 'f \<Rightarrow> 'f) \<Rightarrow> (nat \<Rightarrow> 'f \<times> 'f) \<Rightarrow> nat \<Rightarrow> nat \<Rightarrow> (nat \<Rightarrow> 'f) \<Rightarrow> nat \<Rightarrow> 'f" where
  "wr g P n m T = (\<lambda>i. if n \<le> i \<and> i < n + m then g (P i) else T i)"

definition sqd_scalar :: "'f \<times> 'f \<Rightarrow> 'f \<Rightarrow> 'f \<times> 'f \<Rightarrow> ('f::{plus,minus,times})" where
  "sqd_scalar symbol scalar c =
     scalar * ((fst symbol - fst c) * (fst symbol - fst c) + (snd symbol - snd c) * (snd symbol - snd c))"

definition sqd_vector :: "'f \<times> 'f \<Rightarrow> 'f \<Rightarrow> 'f \<times> 'f \<Rightarrow> ('f::{plus,minus,times})" where
  "sqd_vector symbol scalar c =
     ((fst symbol - fst c) * (fst symbol - fst c) + (snd symbol - snd c) * (snd symbol - snd c)) * scalar"

text \<open>
  Register contents: four or two consecutive points as floats, the symbol repeated, the
  results for eight, four or two consecutive points; the loop variables of the kernels
  with the state cut down to its memory.
\<close>

definition cplx4 :: "(nat \<Rightarrow> 'f \<times> 'f) \<Rightarrow> nat \<Rightarrow> 'f list" where
  "cplx4 P p = [fst (P p), snd (P p), fst (P (p + 1)), snd (P (p + 1)),
                fst (P (p + 2)), snd (P (p + 2)), fst (P (p + 3)), snd (P (p + 3))]"

definition cplx2 :: "(nat \<Rightarrow> 'f \<times> 'f) \<Rightarrow> nat \<Rightarrow> 'f list" where
  "cplx2 P p = [fst (P p), snd (P p), fst (P (p + 1)), snd (P (p + 1))]"

definition proj3 :: "nat \<times> nat \<times> 'f state \<Rightarrow> nat \<times> nat \<times> ((nat \<Rightarrow> 'f) \<times> (nat \<Rightarrow> 'f \<times> 'f) \<times> (nat \<Rightarrow> 'f \<times> 'f))" where
  "proj3 = (\<lambda>(p, t, st). (p, t, bufs st))"

definition proj5 :: "'f list \<times> 'f list \<times> nat \<times> nat \<times> 'f state
    \<Rightarrow> 'f list \<times> 'f list \<times> nat \<times> nat \<times> ((nat \<Rightarrow> 'f) \<times> (nat \<Rightarrow> 'f \<times> 'f) \<times> (nat \<Rightarrow> 'f \<times> 'f))" where
  "proj5 = (\<lambda>(x2, x3, p, t, st). (x2, x3, p, t, bufs st))"

definition sym4 :: "'f \<times> 'f \<Rightarrow> 'f list" where
  "sym4 symbol = [fst symbol, snd symbol, fst symbol, snd symbol,
                  fst symbol, snd symbol, fst symbol, snd symbol]"

definition sym2 :: "'f \<times> 'f \<Rightarrow> 'f list" where
  "sym2 symbol = [fst symbol, snd symbol, fst symbol, snd symbol]"

definition vec8 :: "('f \<times> 'f \<Rightarrow> 'f) \<Rightarrow> (nat \<Rightarrow> 'f \<times> 'f) \<Rightarrow> nat \<Rightarrow> 'f list" where
  "vec8 g P n = [g (P n), g (P (n + 1)), g (P (n + 2)), g (P (n + 3)),
                 g (P (n + 4)), g (P (n + 5)), g (P (n + 6)), g (P (n + 7))]"

definition vec4 :: "('f \<times> 'f \<Rightarrow> 'f) \<Rightarrow> (nat \<Rightarrow> 'f \<times> 'f) \<Rightarrow> nat \<Rightarrow> 'f list" where
  "vec4 g P n = [g (P n), g (P (n + 1)), g (P (n + 2)), g (P (n + 3))]"

definition vec2 :: "('f \<times> 'f \<Rightarrow> 'f) \<Rightarrow> (nat \<Rightarrow> 'f \<times> 'f) \<Rightarrow> nat \<Rightarrow> 'f list" where
  "vec2 g P n = [g (P n), g (P (n + 1))]"

section \<open>The 16-QAM example of the kernel documentation\<close>

text \<open>
  The documentation of the square-distance kernel computes the distances of the received
  symbol \<open>(0.5, 2)\<close> from the 16 points \<open>constellation[ii] = (const_vals[ii % 4],
  const_vals[ii / 4])\<close> with \<open>const_vals = {-3, -1, 1, 3}\<close>, scaled by \<open>1/64\<close>.

  The kernels are modelled over an arbitrary type \<open>'f\<close> of floats. For this example a
  predicate \<open>fin\<close> says which floats are finite numbers (not a NaN, not an infinity) and
  a function \<open>val\<close> gives the rational value of a finite float. The arithmetic of
  \<open>'f\<close> is assumed exact on finite operands wherever the exact result is a multiple of
  \<open>1/256\<close> of magnitude below \<open>2^16\<close> (\<open>grid\<close>): every such number is
  \<open>m * 2^-8\<close> with \<open>|m| < 2^24\<close>, a binary32 value, and an IEEE operation on finite
  operands returns the exact result whenever it is representable. Nothing is assumed of
  an operation with a NaN or an infinity among its operands, nor of one whose exact
  result is off the grid.
\<close>

definition grid :: "rat \<Rightarrow> bool" where
  "grid q \<longleftrightarrow> q * 256 \<in> \<int> \<and> \<bar>q * 256\<bar> < 2 ^ 24"

definition exact_arith :: "('f::{plus,minus,times} \<Rightarrow> bool) \<Rightarrow> ('f \<Rightarrow> rat) \<Rightarrow> bool" where
  "exact_arith fin val \<longleftrightarrow>
     (\<forall>a b. fin a \<and> fin b \<and> grid (val a - val b)
        \<longrightarrow> fin (a - b) \<and> val (a - b) = val a - val b) \<and>
     (\<forall>a b. fin a \<and> fin b \<and> grid (val a + val b)
        \<longrightarrow> fin (a + b) \<and> val (a + b) = val a + val b) \<and>
     (\<forall>a b. fin a \<and> fin b \<and> grid (val a * val b)
        \<longrightarrow> fin (a * b) \<and> val (a * b) = val a * val b)"

definition const_vals :: "rat list" where
  "const_vals = [- 3, - 1, 1, 3]"

definition qam16 :: "('f \<Rightarrow> bool) \<Rightarrow> ('f \<Rightarrow> rat) \<Rightarrow> 'f state \<Rightarrow> bool" where
  "qam16 fin val st \<longleftrightarrow>
     fin (fst (src0_buf st 0)) \<and> val (fst (src0_buf st 0)) = 1 / 2 \<and>
     fin (snd (src0_buf st 0)) \<and> val (snd (src0_buf st 0)) = 2 \<and>
     (\<forall>i<16. fin (fst (points_buf st i)) \<and> val (fst (points_buf st i)) = const_vals ! (i mod 4) \<and>
             fin (snd (points_buf st i)) \<and> val (snd (points_buf st i)) = const_vals ! (i div 4))"

definition expected :: "nat \<Rightarrow> rat" where
  "expected i =
     ((1 / 2 - const_vals ! (i mod 4)) ^ 2 + (2 - const_vals ! (i div 4)) ^ 2) / 64"

text \<open>
  A floating-point arithmetic to run the example in: binary, with a significand of 24
  bits as binary32 has, an exponent without bounds, and a NaN. A float is a rational
  number or the NaN; an operation on two numbers returns the exact result rounded to 24
  significant bits, to the nearest value and to the even one of two nearest; an operation
  with a NaN among its operands returns the NaN.
\<close>

datatype xfloat = Finite rat | NaN

definition round_even :: "rat \<Rightarrow> int" where
  "round_even x =
     (let f = \<lfloor>x\<rfloor>
      in if x - of_int f < 1 / 2 then f
         else if 1 / 2 < x - of_int f then f + 1
         else if even f then f else f + 1)"

definition round24 :: "rat \<Rightarrow> rat" where
  "round24 q =
     (if q = 0 then 0
      else (let e = \<lfloor>log 2 (real_of_rat \<bar>q\<bar>)\<rfloor>
            in of_int (round_even (q * 2 powi (23 - e))) * 2 powi (e - 23)))"

instantiation xfloat :: "{zero,plus,minus,times}"
begin

definition zero_xfloat :: xfloat where
  "zero_xfloat = Finite 0"

definition plus_xfloat :: "xfloat \<Rightarrow> xfloat \<Rightarrow> xfloat" where
  "plus_xfloat a b =
     (case a of NaN \<Rightarrow> NaN
      | Finite x \<Rightarrow> (case b of NaN \<Rightarrow> NaN | Finite y \<Rightarrow> Finite (round24 (x + y))))"

definition minus_xfloat :: "xfloat \<Rightarrow> xfloat \<Rightarrow> xfloat" where
  "minus_xfloat a b =
     (case a of NaN \<Rightarrow> NaN
      | Finite x \<Rightarrow> (case b of NaN \<Rightarrow> NaN | Finite y \<Rightarrow> Finite (round24 (x - y))))"

definition times_xfloat :: "xfloat \<Rightarrow> xfloat \<Rightarrow> xfloat" where
  "times_xfloat a b =
     (case a of NaN \<Rightarrow> NaN
      | Finite x \<Rightarrow> (case b of NaN \<Rightarrow> NaN | Finite y \<Rightarrow> Finite (round24 (x * y))))"

instance ..

end

fun xfin :: "xfloat \<Rightarrow> bool" where
  "xfin (Finite q) = True"
| "xfin NaN = False"

fun xval :: "xfloat \<Rightarrow> rat" where
  "xval (Finite q) = q"
| "xval NaN = 0"

text \<open>
  The example as a state of that arithmetic. The memory around the 16 points, the memory
  after the symbol and the uninitialised \<open>target\<close> hold NaNs. The last definition is a
  small state over the integers.
\<close>

definition qam16_state :: "xfloat state" where
  "qam16_state =
     \<lparr>target_buf = (\<lambda>i. NaN),
      src0_buf = (\<lambda>i. if i = 0 then (Finite (1 / 2), Finite 2) else (NaN, NaN)),
      points_buf = (\<lambda>i. if i < 16
                          then (Finite (const_vals ! (i mod 4)), Finite (const_vals ! (i div 4)))
                          else (NaN, NaN)),
      loads = [], stores = []\<rparr>"

definition int_state :: "int state" where
  "int_state =
     \<lparr>target_buf = (\<lambda>i. 0), src0_buf = (\<lambda>i. (1, 2)),
      points_buf = (\<lambda>i. (int i, 3)), loads = [], stores = []\<rparr>"

text \<open>
  A memory for a call with \<open>num_points = 1\<close>, over the integers: \<open>target\<close> is the
  address 0 (one float, at the start of a block of 16 bytes), \<open>points\<close> is the
  address 4, 16 bytes behind \<open>target\<close>, and holds the point \<open>(3, 4)\<close>, \<open>src0\<close>
  is the address 16 and holds the symbol \<open>(1, 2)\<close>; every other float is 0. All three
  addresses are multiples of 16 bytes.
\<close>

definition adjacent_mem :: "nat \<Rightarrow> int" where
  "adjacent_mem = buf [0, 0, 0, 0, 3, 4, 0, 0, 0, 0, 0, 0, 0, 0, 0, 0, 1, 2]"

section \<open>Correctness of the index-of-minimum kernels\<close>

declare generic_loop.simps [simp del] reduce_loop.simps [simp del] tail_loop.simps [simp del]
  a_avx_loop.simps [simp del] a_sse4_1_loop.simps [simp del] a_sse_loop.simps [simp del]
  u_avx_loop.simps [simp del] a_avx_loop_sq.simps [simp del]
  popcntpuppet_e2k_loop.simps [simp del] popcntpuppet_a_sse4_2_loop.simps [simp del]

lemma first_min_init: "\<not> isnan (s 0) \<Longrightarrow> first_min s 0 (s 0) 0"
  by (simp add: first_min_def feq_def flt_def)

lemma flt_irrefl: "\<not> flt a a"
  by (simp add: flt_def)

lemma flt_trans: "flt a b \<Longrightarrow> flt b c \<Longrightarrow> flt a c"
  by (auto simp: flt_def)

lemma flt_feq_trans: "flt a b \<Longrightarrow> feq b c \<Longrightarrow> flt a c"
  by (auto simp: flt_def feq_def)

lemma feq_flt_trans: "feq a b \<Longrightarrow> flt b c \<Longrightarrow> flt a c"
  by (auto simp: flt_def feq_def)

lemma feq_sym: "feq a b \<Longrightarrow> feq b a"
  by (auto simp: feq_def)

lemma feq_trans: "feq a b \<Longrightarrow> feq b c \<Longrightarrow> feq a c"
  by (auto simp: feq_def)

lemma feq_refl: "\<not> isnan a \<Longrightarrow> feq a a"
  by (simp add: feq_def)

lemma flt_not_nan: "flt a b \<Longrightarrow> \<not> isnan a \<and> \<not> isnan b"
  by (simp add: flt_def)

lemma feq_not_nan: "feq a b \<Longrightarrow> \<not> isnan a \<and> \<not> isnan b"
  by (simp add: feq_def)

lemma flt_not_feq: "flt a b \<Longrightarrow> \<not> feq a b \<and> \<not> feq b a \<and> \<not> flt b a"
  by (auto simp: flt_def feq_def)

lemma f_trichotomy: "\<not> isnan a \<Longrightarrow> \<not> isnan b \<Longrightarrow> flt a b \<or> feq a b \<or> flt b a"
  by (auto simp: flt_def feq_def)

lemma first_min_step:
  assumes "first_min s a m i"
  shows "first_min s (Suc a) (if flt (s a) m then s a else m) (if flt (s a) m then int a else i)"
proof (cases "flt (s a) m")
  case True
  have old: "\<not> flt (s k) m" if "k < a" for k
    using that assms by (simp add: first_min_def)
  have "\<not> flt (s k) (s a)" if "k < Suc a" for k
  proof (cases "k = a")
    case True
    then show ?thesis by (simp add: flt_irrefl)
  next
    case False
    with that have "k < a" by simp
    from old [OF this] True show ?thesis by (meson flt_trans)
  qed
  moreover have "\<not> feq (s k) (s a)" if "k < a" for k
    using old [OF that] True by (meson feq_flt_trans)
  moreover have "\<not> flt (s 0) (s a)"
    using assms True by (meson flt_trans first_min_def)
  moreover have "feq (s a) (s a)"
    using True by (meson feq_refl flt_not_nan)
  ultimately show ?thesis using True by (simp add: first_min_def)
next
  case False
  have "\<not> flt (s k) m" if "k < Suc a" for k
    using that assms False by (cases "k = a") (auto simp: first_min_def)
  then show ?thesis using False assms by (auto simp: first_min_def)
qed

lemma first_min_rescan:
  assumes "first_min s a m i" "k < a"
  shows "\<not> flt (s k) m"
  using assms by (simp add: first_min_def)

lemma tail_loop_first_min:
  "first_min s lo m i \<Longrightarrow>
     first_min s (max lo n) (fst (tail_loop s n lo (m, i))) (snd (tail_loop s n lo (m, i)))"
proof (induction s n lo "(m, i)" arbitrary: m i rule: tail_loop.induct)
  case (1 source num_points number minv index)
  show ?case
  proof (cases "number < num_points")
    case True
    have st: "first_min source (Suc number)
               (if flt (source number) minv then source number else minv)
               (if flt (source number) minv then int number else index)"
      by (rule first_min_step [OF "1.prems"])
    have mx: "max (number + 1) num_points = max number num_points" using True by simp
    show ?thesis
    proof (cases "flt (source number) minv")
      case T2: True
      from "1.hyps"(1) [OF True, of "source number" "int number"] st T2 True mx
      show ?thesis by (simp add: tail_loop.simps [of source num_points number])
    next
      case F2: False
      from "1.hyps"(1) [OF True, of minv index] st F2 True mx
      show ?thesis by (simp add: tail_loop.simps [of source num_points number])
    qed
  next
    case False
    then have "max number num_points = number" by simp
    with False "1.prems" show ?thesis
      by (simp add: tail_loop.simps [of source num_points number])
  qed
qed

lemma first_min_unique:
  assumes "first_min s a m i" "first_min s a m' i'"
  shows "i = i'"
proof -
  have *: False if h: "first_min s a m i" "first_min s a m' i'" "i < i'" for m i m' i'
  proof -
    from h have "nat i < nat i'" "nat i' < a" "nat i < a" by (auto simp: first_min_def)
    with h have "\<not> flt (s (nat i)) m'" "\<not> flt (s (nat i')) m" "\<not> feq (s (nat i)) m'"
      "feq m (s (nat i))" "feq m' (s (nat i'))"
      by (simp_all add: first_min_def)
    then show False by (auto simp: flt_def feq_def)
  qed
  show ?thesis using *[of m i m' i'] *[of m' i' m i] assms by force
qed

lemma upt_8: "[p ..< p + 8] = [p, p + 1, p + 2, p + 3, p + 4, p + 5, p + 6, p + 7]"
  by (simp add: upt_rec)

lemma upt_4: "[p ..< p + 4] = [p, p + 1, p + 2, p + 3]"
  by (simp add: upt_rec)

lemma blend_lane:
  "(if bit (if c then (- 1 :: 32 word) else 0) 31 then y else x) = (if c then y else x)"
  by simp

lemma select_lane_word:
  "((if c then (- 1 :: 32 word) else 0) AND y) OR (NOT (if c then - 1 else 0) AND x)
     = (if c then y else x)"
  by simp

lemma select_lane_int:
  "(sint (if c then (- 1 :: 32 word) else 0) AND y) OR (NOT (sint (if c then (- 1 :: 32 word) else 0)) AND x)
     = (if c then y else (x :: int))"
  by simp

lemma a_avx_loop_step:
  assumes "number < T"
  shows "a_avx_loop s T number (avx_state s number) = a_avx_loop s T (Suc number) (avx_state s (Suc number))"
proof -
  have "a_avx_loop s T number (avx_state s number) =
        a_avx_loop s T (number + 1)
          (let currentValues = mm256_load_ps s (8 * number);
               currentIndexes = mm_add_ps (lanes8 (\<lambda>j. int (8 * number + j) - 8)) (mm256_set1_ps 8);
               compareResults = mm256_cmp_ps_LT_OS currentValues (lanes8 (\<lambda>j. lane_val s 8 j number));
               minValuesIndex = mm_blendv_ps (lanes8 (\<lambda>j. lane_idx s 8 j number)) currentIndexes compareResults;
               minValues = mm_blendv_ps (lanes8 (\<lambda>j. lane_val s 8 j number)) currentValues compareResults
           in (currentIndexes, minValues, minValuesIndex))"
    unfolding avx_state_def
    by (subst a_avx_loop.simps) (simp only: assms if_True Let_def)
  also have "(let currentValues = mm256_load_ps s (8 * number);
               currentIndexes = mm_add_ps (lanes8 (\<lambda>j. int (8 * number + j) - 8)) (mm256_set1_ps 8);
               compareResults = mm256_cmp_ps_LT_OS currentValues (lanes8 (\<lambda>j. lane_val s 8 j number));
               minValuesIndex = mm_blendv_ps (lanes8 (\<lambda>j. lane_idx s 8 j number)) currentIndexes compareResults;
               minValues = mm_blendv_ps (lanes8 (\<lambda>j. lane_val s 8 j number)) currentValues compareResults
           in (currentIndexes, minValues, minValuesIndex)) = avx_state s (Suc number)"
    apply (simp add: avx_state_def lanes8_def mm256_load_ps_def mm_add_ps_def mm256_set1_ps_def
        mm256_cmp_ps_LT_OS_def mm_blendv_ps_def upt_8 Let_def blend_lane split del: if_split)
    apply (intro conjI; simp)
    done
  finally show ?thesis by simp
qed

lemma a_avx_loop_lanes:
  "number \<le> T \<Longrightarrow> a_avx_loop s T number (avx_state s number) = avx_state s T"
proof (induction "T - number" arbitrary: number)
  case 0
  then have e: "number = T" by simp
  show ?case unfolding e avx_state_def by (subst a_avx_loop.simps) simp
next
  case (Suc d)
  then have lt: "number < T" and d: "d = T - Suc number" and le: "Suc number \<le> T" by simp_all
  show ?case
    unfolding a_avx_loop_step [OF lt] by (rule Suc.hyps(1) [OF d le])
qed

lemma lane_ok_0: "\<not> isnan (s 0) \<Longrightarrow> lane_ok s W 0 j (s 0) 0"
  by (simp add: lane_ok_def feq_refl flt_irrefl)

lemma lane_ok_Suc:
  assumes ok: "lane_ok s W t j v i" and j: "j < W"
  shows "lane_ok s W (Suc t) j
           (if flt (s (W * t + j)) v then s (W * t + j) else v)
           (if flt (s (W * t + j)) v then int (W * t + j) else i)"
proof (cases "flt (s (W * t + j)) v")
  case True
  let ?x = "s (W * t + j)"
  have a: "\<not> flt (s (W * q + j)) ?x" if "q < Suc t" for q
  proof (cases "q = t")
    case True
    then show ?thesis by (simp add: flt_irrefl)
  next
    case False
    with that have "q < t" by simp
    with ok have "\<not> flt (s (W * q + j)) v" by (simp add: lane_ok_def)
    with True show ?thesis by (meson flt_trans)
  qed
  have b: "\<not> feq (s (W * q + j)) ?x" if "W * q + j < W * t + j" for q
  proof -
    from that have "q < t" by simp
    with ok have "\<not> flt (s (W * q + j)) v" by (simp add: lane_ok_def)
    with True show ?thesis by (meson feq_flt_trans)
  qed
  have c: "\<not> flt (s 0) ?x" "flt ?x (s 0)"
  proof -
    from ok have n: "\<not> flt (s 0) v" "feq v (s (nat i))" by (simp_all add: lane_ok_def)
    from n True show "\<not> flt (s 0) ?x" by (meson flt_trans)
    from ok have "feq v (s 0) \<or> flt v (s 0)" by (cases "i = 0") (auto simp: lane_ok_def)
    with True show "flt ?x (s 0)" by (meson flt_trans flt_feq_trans)
  qed
  have d: "feq ?x ?x" using True by (meson feq_refl flt_not_nan)
  have e: "W * t + j < W * Suc t" using j by simp
  have n: "nat (int (W * t + j)) = W * t + j" by (rule nat_int)
  show ?thesis using True a b c d e
    by (simp add: lane_ok_def n del: of_nat_add of_nat_mult)
next
  case False
  have a: "\<not> flt (s (W * q + j)) v" if "q < Suc t" for q
    using that ok False by (cases "q = t") (auto simp: lane_ok_def)
  have e: "nat i < W * Suc t" if "nat i < W * t" using that by simp
  show ?thesis using False a ok e by (auto simp: lane_ok_def)
qed

lemma lane_ok_lane:
  "\<not> isnan (s 0) \<Longrightarrow> j < W \<Longrightarrow> lane_ok s W t j (lane_val s W j t) (lane_idx s W j t)"
proof (induction t)
  case 0
  then show ?case by (simp add: lane_ok_0)
next
  case (Suc t)
  then show ?case using lane_ok_Suc [of s W t j "lane_val s W j t" "lane_idx s W j t"] by simp
qed

lemma red_ok_0: "\<not> isnan (s 0) \<Longrightarrow> red_ok s W t 0 (s 0) 0"
  by (simp add: red_ok_def feq_refl flt_irrefl)

lemma red_ok_Suc:
  assumes r: "red_ok s W t j m idx" and l: "lane_ok s W t j v i"
  shows "red_ok s W t (Suc j)
           (if flt v m then v else m)
           (if flt v m then i else if feq v m then (if idx > i then i else idx) else idx)"
proof -
  from r have r1: "0 \<le> idx" "idx = 0 \<or> nat idx < W * t" "feq m (s (nat idx))" "\<not> flt (s 0) m"
    "idx \<noteq> 0 \<longrightarrow> flt m (s 0)"
    and r2: "\<And>j' q. j' < j \<Longrightarrow> q < t \<Longrightarrow> \<not> flt (s (W * q + j')) m"
    and r3: "\<And>j' q. j' < j \<Longrightarrow> W * q + j' < nat idx \<Longrightarrow> \<not> feq (s (W * q + j')) m"
    by (simp_all add: red_ok_def)
  from l have l1: "0 \<le> i" "i = 0 \<or> nat i < W * t" "feq v (s (nat i))" "\<not> flt (s 0) v"
    "i \<noteq> 0 \<longrightarrow> flt v (s 0)"
    and l2: "\<And>q. q < t \<Longrightarrow> \<not> flt (s (W * q + j)) v"
    and l3: "\<And>q. W * q + j < nat i \<Longrightarrow> \<not> feq (s (W * q + j)) v"
    by (simp_all add: lane_ok_def)
  have nn: "\<not> isnan v" "\<not> isnan m" using l1(3) r1(3) by (simp_all add: feq_def)
  consider (lt) "flt v m" | (eq) "\<not> flt v m" "feq v m" | (gt) "\<not> flt v m" "\<not> feq v m" "flt m v"
    using f_trichotomy [OF nn] by blast
  then show ?thesis
  proof cases
    case lt
    have a: "\<not> flt (s (W * q + j')) v" if "j' < Suc j" "q < t" for j' q
    proof (cases "j' = j")
      case True
      then show ?thesis using l2 that by simp
    next
      case False
      with that have "j' < j" by simp
      from r2 [OF this that(2)] lt show ?thesis by (meson flt_trans)
    qed
    have b: "\<not> feq (s (W * q + j')) v" if "j' < Suc j" "W * q + j' < nat i" for j' q
    proof (cases "j' = j")
      case True
      then show ?thesis using l3 that by simp
    next
      case False
      with that have jj: "j' < j" by simp
      from that l1 have "W * q + j' < W * t" by auto
      then have "q < t" by (metis add_lessD1 mult_less_cancel1 nat_mult_less_cancel_disj)
      from r2 [OF jj this] lt show ?thesis by (meson feq_flt_trans)
    qed
    show ?thesis using lt a b l1 by (simp add: red_ok_def)
  next
    case eq
    have me: "feq m v" using eq by (meson feq_sym)
    have a: "\<not> flt (s (W * q + j')) m" if "j' < Suc j" "q < t" for j' q
    proof (cases "j' = j")
      case True
      then show ?thesis using l2 [OF that(2)] me by (meson flt_feq_trans)
    next
      case False
      with that have "j' < j" by simp
      from r2 [OF this that(2)] show ?thesis .
    qed
    have b: "\<not> feq (s (W * q + j')) m"
      if "j' < Suc j" "W * q + j' < nat i" "W * q + j' < nat idx" for j' q
    proof (cases "j' = j")
      case True
      then show ?thesis using l3 that eq by (meson feq_trans feq_sym)
    next
      case False
      with that have jj: "j' < j" by simp
      from r3 [OF jj that(3)] show ?thesis .
    qed
    have c: "feq m (s (nat i))" using me l1(3) by (meson feq_trans)
    have d: "i \<noteq> 0 \<longrightarrow> flt m (s 0)" using l1(5) me by (meson feq_flt_trans)
    show ?thesis
    proof (cases "idx > i")
      case True
      then have "nat i \<le> nat idx" by simp
      then have "\<not> feq (s (W * q + j')) m" if "j' < Suc j" "W * q + j' < nat i" for j' q
        using b that by (meson less_le_trans)
      then show ?thesis using eq True a c d l1 r1 by (simp add: red_ok_def)
    next
      case False
      then have "nat idx \<le> nat i" by simp
      then have "\<not> feq (s (W * q + j')) m" if "j' < Suc j" "W * q + j' < nat idx" for j' q
        using b that by (meson less_le_trans)
      then show ?thesis using eq False a r1 by (simp add: red_ok_def)
    qed
  next
    case gt
    have a: "\<not> flt (s (W * q + j')) m" if "j' < Suc j" "q < t" for j' q
    proof (cases "j' = j")
      case True
      then show ?thesis using l2 [OF that(2)] gt by (meson flt_trans)
    next
      case False
      with that have "j' < j" by simp
      from r2 [OF this that(2)] show ?thesis .
    qed
    have b: "\<not> feq (s (W * q + j')) m" if "j' < Suc j" "W * q + j' < nat idx" for j' q
    proof (cases "j' = j")
      case True
      have "idx \<noteq> 0" using that by auto
      with r1 have "nat idx < W * t" by simp
      with that True have "W * q + j < W * t" by simp
      then have "q < t" by (metis add_lessD1 mult_less_cancel1 nat_mult_less_cancel_disj)
      from l2 [OF this] gt True show ?thesis by (meson feq_flt_trans)
    next
      case False
      with that have jj: "j' < j" by simp
      from r3 [OF jj that(2)] show ?thesis .
    qed
    show ?thesis using gt a b r1 by (simp add: red_ok_def)
  qed
qed

lemma reduce_loop_ok:
  assumes lanes: "\<And>j. j < W \<Longrightarrow> lane_ok s W t j (vb ! j) (ib ! j)"
  shows "number \<le> W \<Longrightarrow> red_ok s W t number m idx \<Longrightarrow>
         red_ok s W t W (fst (reduce_loop vb ib W number (m, idx)))
                        (snd (reduce_loop vb ib W number (m, idx)))"
proof (induction "W - number" arbitrary: number m idx)
  case 0
  then have e: "number = W" by simp
  show ?case using 0(3) unfolding e by (subst (1 2) reduce_loop.simps) simp
next
  case (Suc d)
  then have lt: "number < W" and d: "d = W - Suc number" and le: "Suc number \<le> W" by simp_all
  let ?v = "vb ! number" and ?i = "ib ! number"
  let ?m' = "if flt ?v m then ?v else m"
  let ?i' = "if flt ?v m then ?i else if feq ?v m then (if idx > ?i then ?i else idx) else idx"
  have st: "red_ok s W t (Suc number) ?m' ?i'"
    by (rule red_ok_Suc [OF Suc.prems(2) lanes [OF lt]])
  have unf: "reduce_loop vb ib W number (m, idx) = reduce_loop vb ib W (Suc number) (?m', ?i')"
    by (subst reduce_loop.simps) (simp add: lt)
  show ?case unfolding unf by (rule Suc.hyps(1) [OF d le st])
qed

lemma red_ok_first_min:
  assumes r: "red_ok s W t W m idx" and W: "0 < W"
  shows "first_min s (W * t) m idx"
proof -
  have a: "\<not> flt (s k) m" if "k < W * t" for k
  proof -
    have k: "W * (k div W) + k mod W = k" by simp
    have "k div W < t" using that W by (simp add: less_mult_imp_div_less mult.commute)
    moreover have "k mod W < W" using W by simp
    ultimately have "\<not> flt (s (W * (k div W) + k mod W)) m" using r
      unfolding red_ok_def by blast
    then show ?thesis unfolding k .
  qed
  have b: "\<not> feq (s k) m" if "k < nat idx" for k
  proof -
    have k: "W * (k div W) + k mod W = k" by simp
    have "k mod W < W" using W by simp
    moreover have "W * (k div W) + k mod W < nat idx" using that by (simp only: k)
    ultimately have "\<not> feq (s (W * (k div W) + k mod W)) m" using r
      unfolding red_ok_def by blast
    then show ?thesis unfolding k .
  qed
  show ?thesis using r a b by (simp add: first_min_def red_ok_def)
qed

lemma tail_loop_nan: "isnan m \<Longrightarrow> tail_loop s n lo (m, i) = (m, i)"
proof (induction "n - lo" arbitrary: lo)
  case 0
  then show ?case by (subst tail_loop.simps) simp
next
  case (Suc d)
  then have lt: "lo < n" and d: "d = n - (lo + 1)" by simp_all
  have "tail_loop s n lo (m, i) = tail_loop s n (lo + 1) (m, i)"
    by (subst tail_loop.simps) (simp add: lt flt_def Suc.prems)
  then show ?case using Suc.hyps(1) [OF d Suc.prems] by simp
qed

lemma reduce_loop_nan: "isnan m \<Longrightarrow> reduce_loop vb ib W number (m, i) = (m, i)"
proof (induction "W - number" arbitrary: number)
  case 0
  then show ?case by (subst reduce_loop.simps) simp
next
  case (Suc d)
  then have lt: "number < W" and d: "d = W - (number + 1)" by simp_all
  have "reduce_loop vb ib W number (m, i) = reduce_loop vb ib W (number + 1) (m, i)"
    by (subst reduce_loop.simps) (simp add: lt flt_def feq_def Suc.prems)
  then show ?case using Suc.hyps(1) [OF d Suc.prems] by simp
qed

lemma first_min_mono_index:
  "first_min s a m i \<Longrightarrow> 0 \<le> i \<and> (i = 0 \<or> nat i < a)"
  by (simp add: first_min_def)

lemma scalar_first_min:
  assumes "\<not> isnan (s 0)"
  shows "first_min s (max 1 N) (fst (tail_loop s N 1 (s 0, 0))) (scalar_result s N)"
proof -
  have "first_min s (Suc 0) (s 0) 0"
    using first_min_step [OF first_min_init [of s, OF assms]] by (simp add: flt_irrefl)
  from tail_loop_first_min [of s 1 "s 0" 0 N] this show ?thesis
    by (simp add: scalar_result_def)
qed

lemma simd_first_min:
  assumes nn: "\<not> isnan (s 0)" and W: "0 < W"
  shows "\<exists>m. first_min s (max 1 N) m (simd_result W s N)"
proof -
  let ?t = "N div W"
  let ?vb = "map (\<lambda>j. lane_val s W j ?t) [0..<W]"
  let ?ib = "map (\<lambda>j. lane_idx s W j ?t) [0..<W]"
  let ?r = "reduce_loop ?vb ?ib W 0 (s 0, 0)"
  have lanes: "lane_ok s W ?t j (?vb ! j) (?ib ! j)" if "j < W" for j
    using lane_ok_lane [of s, OF nn that] that by simp
  have "red_ok s W ?t W (fst ?r) (snd ?r)"
    by (rule reduce_loop_ok [OF lanes _ red_ok_0 [of s, OF nn]]) simp_all
  then have fm: "first_min s (W * ?t) (fst ?r) (snd ?r)"
    by (rule red_ok_first_min [OF _ W])
  have le: "W * ?t \<le> N" by simp
  from tail_loop_first_min [OF fm, of N]
  have "first_min s (max (W * ?t) N) (fst (tail_loop s N (W * ?t) ?r)) (simd_result W s N)"
    by (simp add: simd_result_def)
  moreover have "max (W * ?t) N = N" using le by simp
  ultimately have "first_min s N (fst (tail_loop s N (W * ?t) ?r)) (simd_result W s N)"
    by simp
  then have "first_min s (max 1 N) (fst (tail_loop s N (W * ?t) ?r)) (simd_result W s N)"
    by (cases "N = 0") (auto simp: first_min_def max_def)
  then show ?thesis ..
qed

lemma lane_nan: "isnan (s 0) \<Longrightarrow> lane_val s W j t = s 0 \<and> lane_idx s W j t = 0"
  by (induction t) (simp_all add: flt_def)

lemma simd_result_nan: "isnan (s 0) \<Longrightarrow> simd_result W s N = 0"
  by (simp add: simd_result_def reduce_loop_nan tail_loop_nan)

lemma scalar_result_nan: "isnan (s 0) \<Longrightarrow> scalar_result s N = 0"
  by (simp add: scalar_result_def tail_loop_nan)

lemma simd_result_eq: "0 < W \<Longrightarrow> simd_result W s N = scalar_result s N"
proof (cases "isnan (s 0)")
  case True
  then show ?thesis by (simp add: simd_result_nan scalar_result_nan)
next
  case False
  assume "0 < W"
  from simd_first_min [of s, OF False this, of N] obtain m where
    "first_min s (max 1 N) m (simd_result W s N)" ..
  from first_min_unique [OF this scalar_first_min [of s, OF False]] show ?thesis .
qed

lemma u_avx_loop_step:
  assumes "number < T"
  shows "u_avx_loop s T number (avx_state s number) = u_avx_loop s T (Suc number) (avx_state s (Suc number))"
proof -
  have "u_avx_loop s T number (avx_state s number) =
        u_avx_loop s T (number + 1)
          (let currentValues = mm256_loadu_ps s (8 * number);
               currentIndexes = mm_add_ps (lanes8 (\<lambda>j. int (8 * number + j) - 8)) (mm256_set1_ps 8);
               compareResults = mm256_cmp_ps_LT_OS currentValues (lanes8 (\<lambda>j. lane_val s 8 j number));
               minValuesIndex = mm_blendv_ps (lanes8 (\<lambda>j. lane_idx s 8 j number)) currentIndexes compareResults;
               minValues = mm_blendv_ps (lanes8 (\<lambda>j. lane_val s 8 j number)) currentValues compareResults
           in (currentIndexes, minValues, minValuesIndex))"
    unfolding avx_state_def
    by (subst u_avx_loop.simps) (simp only: assms if_True Let_def)
  also have "(let currentValues = mm256_loadu_ps s (8 * number);
               currentIndexes = mm_add_ps (lanes8 (\<lambda>j. int (8 * number + j) - 8)) (mm256_set1_ps 8);
               compareResults = mm256_cmp_ps_LT_OS currentValues (lanes8 (\<lambda>j. lane_val s 8 j number));
               minValuesIndex = mm_blendv_ps (lanes8 (\<lambda>j. lane_idx s 8 j number)) currentIndexes compareResults;
               minValues = mm_blendv_ps (lanes8 (\<lambda>j. lane_val s 8 j number)) currentValues compareResults
           in (currentIndexes, minValues, minValuesIndex)) = avx_state s (Suc number)"
    apply (simp add: avx_state_def lanes8_def mm256_loadu_ps_def mm_add_ps_def mm256_set1_ps_def
        mm256_cmp_ps_LT_OS_def mm_blendv_ps_def blend_lane upt_8 Let_def split del: if_split)
    apply (intro conjI; simp)
    done
  finally show ?thesis by simp
qed

lemma u_avx_loop_lanes:
  "number \<le> T \<Longrightarrow> u_avx_loop s T number (avx_state s number) = avx_state s T"
proof (induction "T - number" arbitrary: number)
  case 0
  then have e: "number = T" by simp
  show ?case unfolding e avx_state_def by (subst u_avx_loop.simps) simp
next
  case (Suc d)
  then have lt: "number < T" and d: "d = T - Suc number" and le: "Suc number \<le> T" by simp_all
  show ?case
    unfolding u_avx_loop_step [OF lt] by (rule Suc.hyps(1) [OF d le])
qed

lemma a_sse4_1_loop_step:
  assumes "number < T"
  shows "a_sse4_1_loop s T number (sse_state s number) = a_sse4_1_loop s T (Suc number) (sse_state s (Suc number))"
proof -
  have "a_sse4_1_loop s T number (sse_state s number) =
        a_sse4_1_loop s T (number + 1)
          (let currentValues = mm_load_ps s (4 * number);
               currentIndexes = mm_add_ps (lanes4 (\<lambda>j. int (4 * number + j) - 4)) (mm_set1_ps 4);
               compareResults = mm_cmplt_ps currentValues (lanes4 (\<lambda>j. lane_val s 4 j number));
               minValuesIndex = mm_blendv_ps (lanes4 (\<lambda>j. lane_idx s 4 j number)) currentIndexes compareResults;
               minValues = mm_blendv_ps (lanes4 (\<lambda>j. lane_val s 4 j number)) currentValues compareResults
           in (currentIndexes, minValues, minValuesIndex))"
    unfolding sse_state_def
    by (subst a_sse4_1_loop.simps) (simp only: assms if_True Let_def)
  also have "(let currentValues = mm_load_ps s (4 * number);
               currentIndexes = mm_add_ps (lanes4 (\<lambda>j. int (4 * number + j) - 4)) (mm_set1_ps 4);
               compareResults = mm_cmplt_ps currentValues (lanes4 (\<lambda>j. lane_val s 4 j number));
               minValuesIndex = mm_blendv_ps (lanes4 (\<lambda>j. lane_idx s 4 j number)) currentIndexes compareResults;
               minValues = mm_blendv_ps (lanes4 (\<lambda>j. lane_val s 4 j number)) currentValues compareResults
           in (currentIndexes, minValues, minValuesIndex)) = sse_state s (Suc number)"
    apply (simp add: sse_state_def lanes4_def mm_load_ps_def mm_add_ps_def mm_set1_ps_def
        mm_cmplt_ps_def mm_blendv_ps_def blend_lane upt_4 Let_def split del: if_split)
    apply (intro conjI; simp)
    done
  finally show ?thesis by simp
qed

lemma a_sse4_1_loop_lanes:
  "number \<le> T \<Longrightarrow> a_sse4_1_loop s T number (sse_state s number) = sse_state s T"
proof (induction "T - number" arbitrary: number)
  case 0
  then have e: "number = T" by simp
  show ?case unfolding e sse_state_def by (subst a_sse4_1_loop.simps) simp
next
  case (Suc d)
  then have lt: "number < T" and d: "d = T - Suc number" and le: "Suc number \<le> T" by simp_all
  show ?case
    unfolding a_sse4_1_loop_step [OF lt] by (rule Suc.hyps(1) [OF d le])
qed

lemma a_sse_loop_step:
  assumes "number < T"
  shows "a_sse_loop s T number (sse_state s number) = a_sse_loop s T (Suc number) (sse_state s (Suc number))"
proof -
  have "a_sse_loop s T number (sse_state s number) =
        a_sse_loop s T (number + 1)
          (let currentValues = mm_load_ps s (4 * number);
               currentIndexes = mm_add_ps (lanes4 (\<lambda>j. int (4 * number + j) - 4)) (mm_set1_ps 4);
               compareResults = mm_cmplt_ps currentValues (lanes4 (\<lambda>j. lane_val s 4 j number));
               minValuesIndex = mm_or_ps (mm_and_ps (map sint compareResults) currentIndexes)
                           (mm_andnot_ps (map sint compareResults) (lanes4 (\<lambda>j. lane_idx s 4 j number)));
               minValues = mm_or_ps (mm_and_ps compareResults currentValues)
                           (mm_andnot_ps compareResults (lanes4 (\<lambda>j. lane_val s 4 j number)))
           in (currentIndexes, minValues, minValuesIndex))"
    unfolding sse_state_def
    by (subst a_sse_loop.simps) (simp only: assms if_True Let_def)
  also have "(let currentValues = mm_load_ps s (4 * number);
               currentIndexes = mm_add_ps (lanes4 (\<lambda>j. int (4 * number + j) - 4)) (mm_set1_ps 4);
               compareResults = mm_cmplt_ps currentValues (lanes4 (\<lambda>j. lane_val s 4 j number));
               minValuesIndex = mm_or_ps (mm_and_ps (map sint compareResults) currentIndexes)
                           (mm_andnot_ps (map sint compareResults) (lanes4 (\<lambda>j. lane_idx s 4 j number)));
               minValues = mm_or_ps (mm_and_ps compareResults currentValues)
                           (mm_andnot_ps compareResults (lanes4 (\<lambda>j. lane_val s 4 j number)))
           in (currentIndexes, minValues, minValuesIndex)) = sse_state s (Suc number)"
    apply (simp add: sse_state_def lanes4_def mm_load_ps_def mm_add_ps_def mm_set1_ps_def
        mm_cmplt_ps_def mm_or_ps_def mm_and_ps_def mm_andnot_ps_def select_lane_word select_lane_int if_distrib [of sint] upt_4 Let_def split del: if_split)
    apply (intro conjI; simp)
    done
  finally show ?thesis by simp
qed

lemma a_sse_loop_lanes:
  "number \<le> T \<Longrightarrow> a_sse_loop s T number (sse_state s number) = sse_state s T"
proof (induction "T - number" arbitrary: number)
  case 0
  then have e: "number = T" by simp
  show ?case unfolding e sse_state_def by (subst a_sse_loop.simps) simp
next
  case (Suc d)
  then have lt: "number < T" and d: "d = T - Suc number" and le: "Suc number \<le> T" by simp_all
  show ?case
    unfolding a_sse_loop_step [OF lt] by (rule Suc.hyps(1) [OF d le])
qed

lemma lanes8_map: "map f [0..<8] = lanes8 f"
  by (simp add: lanes8_def upt_rec eval_nat_numeral)

lemma lanes4_map: "map f [0..<4] = lanes4 f"
  by (simp add: lanes4_def upt_rec eval_nat_numeral)

lemma clamp_unat:
  "unat (if num_points > USHRT_MAX then USHRT_MAX else num_points) = min (unat num_points) 65535"
  by (simp add: USHRT_MAX_def word_less_nat_alt min_def)

lemma unat_div_mult_8: "unat ((c :: 32 word) div 8 * 8) = 8 * (unat c div 8)"
proof -
  have "unat c < 2 ^ 32"
    using unsigned_less [of c, where ?'a = nat] by simp
  then have b: "8 * (unat c div 8) < 2 ^ 32" by simp
  have "unat (c div 8 * 8) = (8 * (unat c div 8)) mod 2 ^ 32"
    by (simp add: unat_word_ariths unat_div mult.commute mod_mult_right_eq)
  with b show ?thesis by simp
qed

lemma unat_div_mult_4: "unat ((c :: 32 word) div 4 * 4) = 4 * (unat c div 4)"
proof -
  have "unat c < 2 ^ 32"
    using unsigned_less [of c, where ?'a = nat] by simp
  then have b: "4 * (unat c div 4) < 2 ^ 32" by simp
  have "unat (c div 4 * 4) = (4 * (unat c div 4)) mod 2 ^ 32"
    by (simp add: unat_word_ariths unat_div mult.commute mod_mult_right_eq)
  with b show ?thesis by simp
qed

lemma avx_state_0:
  "(mm256_set_ps (- 1) (- 2) (- 3) (- 4) (- 5) (- 6) (- 7) (- 8), mm256_set1_ps (s 0), mm256_setzero_ps)
     = avx_state s 0"
  by (simp add: avx_state_def lanes8_def mm256_set_ps_def mm256_set1_ps_def mm256_setzero_ps_def)

lemma sse_state_0:
  "(mm_set_ps (- 1) (- 2) (- 3) (- 4), mm_set1_ps (s 0), mm_setzero_ps) = sse_state s 0"
  by (simp add: sse_state_def lanes4_def mm_set_ps_def mm_set1_ps_def mm_setzero_ps_def)

lemma a_avx_simd:
  "volk_32f_index_min_16u_a_avx s n = word_of_int (simd_result 8 s (min (unat n) 65535))"
  unfolding volk_32f_index_min_16u_a_avx_def Let_def avx_state_0
  apply (subst a_avx_loop_lanes)
   apply simp
  apply (simp add: avx_state_def simd_result_def lanes8_map clamp_unat unat_div unat_div_mult_8 split: prod.split)
  done

lemma u_avx_simd:
  "volk_32f_index_min_16u_u_avx s n = word_of_int (simd_result 8 s (min (unat n) 65535))"
  unfolding volk_32f_index_min_16u_u_avx_def Let_def avx_state_0
  apply (subst u_avx_loop_lanes)
   apply simp
  apply (simp add: avx_state_def simd_result_def lanes8_map clamp_unat unat_div unat_div_mult_8 split: prod.split)
  done

lemma a_sse4_1_simd:
  "volk_32f_index_min_16u_a_sse4_1 s n = word_of_int (simd_result 4 s (min (unat n) 65535))"
  unfolding volk_32f_index_min_16u_a_sse4_1_def Let_def sse_state_0
  apply (subst a_sse4_1_loop_lanes)
   apply simp
  apply (simp add: sse_state_def simd_result_def lanes4_map clamp_unat unat_div unat_div_mult_4 split: prod.split)
  done

lemma a_sse_simd:
  "volk_32f_index_min_16u_a_sse s n = word_of_int (simd_result 4 s (min (unat n) 65535))"
  unfolding volk_32f_index_min_16u_a_sse_def Let_def sse_state_0
  apply (subst a_sse_loop_lanes)
   apply simp
  apply (simp add: sse_state_def simd_result_def lanes4_map clamp_unat unat_div unat_div_mult_4 split: prod.split)
  done

lemma generic_loop_tail:
  "generic_loop s n i (m, word_of_int idx) =
     (fst (tail_loop s n i (m, idx)), word_of_int (snd (tail_loop s n i (m, idx))))"
proof (induction "n - i" arbitrary: i m idx)
  case 0
  then show ?case by (subst generic_loop.simps, subst (1 2) tail_loop.simps) simp
next
  case (Suc d)
  then have lt: "i < n" and d: "d = n - (i + 1)" by simp_all
  show ?case
    apply (subst generic_loop.simps, subst (1 2) tail_loop.simps)
    using Suc.hyps(1) [OF d, of "s i" "int i"] Suc.hyps(1) [OF d, of m idx]
    apply (simp add: lt)
    done
qed

lemma generic_scalar:
  "volk_32f_index_min_16u_generic s n = word_of_int (scalar_result s (min (unat n) 65535))"
  unfolding volk_32f_index_min_16u_generic_def Let_def
  using generic_loop_tail [of s "min (unat n) 65535" 1 "s 0" 0]
  by (simp add: scalar_result_def clamp_unat split: prod.split)

lemma variants_scalar:
  "volk_32f_index_min_16u_generic s n = word_of_int (scalar_result s (min (unat n) 65535))"
  "volk_32f_index_min_16u_a_avx s n = word_of_int (scalar_result s (min (unat n) 65535))"
  "volk_32f_index_min_16u_a_sse4_1 s n = word_of_int (scalar_result s (min (unat n) 65535))"
  "volk_32f_index_min_16u_a_sse s n = word_of_int (scalar_result s (min (unat n) 65535))"
  "volk_32f_index_min_16u_u_avx s n = word_of_int (scalar_result s (min (unat n) 65535))"
  by (simp_all add: generic_scalar a_avx_simd a_sse4_1_simd a_sse_simd u_avx_simd simd_result_eq)

lemma scalar_result_range:
  "0 \<le> scalar_result s N \<and> (scalar_result s N = 0 \<or> nat (scalar_result s N) < N)"
proof (cases "isnan (s 0)")
  case True
  then show ?thesis by (simp add: scalar_result_nan)
next
  case False
  from scalar_first_min [of s, OF False, of N] show ?thesis
    by (auto simp: first_min_def max_def split: if_splits)
qed

lemma scalar_result_lowest:
  assumes "\<not> isnan (s 0)" and "0 < N"
  shows "lowest_min_index s N (nat (scalar_result s N))"
proof -
  let ?m = "fst (tail_loop s N 1 (s 0, 0))" and ?r = "nat (scalar_result s N)"
  from scalar_first_min [of s, OF assms(1), of N]
  have m: "feq ?m (s ?r)" and a: "\<And>k. k < N \<Longrightarrow> \<not> flt (s k) ?m"
    and b: "\<And>k. k < ?r \<Longrightarrow> \<not> feq (s k) ?m"
    by (simp_all add: first_min_def)
  from scalar_result_range [of s N] assms(2) have r: "?r < N" by auto
  from m have n: "\<not> isnan (s ?r)" by (simp add: feq_def)
  have "\<not> flt (s i) (s ?r)" if "i < N" for i
    using a [OF that] m by (meson flt_feq_trans feq_sym)
  moreover have "\<not> feq (s i) (s ?r)" if "i < ?r" for i
    using b [OF that] m by (meson feq_trans feq_sym)
  ultimately show ?thesis using r n by (simp add: lowest_min_index_def)
qed

lemma lowest_min_index_unique:
  assumes "lowest_min_index s N r" and "lowest_min_index s N r'"
  shows "r = r'"
proof -
  from assms have n: "\<not> isnan (s r)" "\<not> isnan (s r')"
    and l: "\<not> flt (s r') (s r)" "\<not> flt (s r) (s r')"
    and e: "\<And>i. i < r \<Longrightarrow> \<not> feq (s i) (s r)" "\<And>i. i < r' \<Longrightarrow> \<not> feq (s i) (s r')"
    by (simp_all add: lowest_min_index_def)
  from f_trichotomy [OF n] l have q: "feq (s r) (s r')" by blast
  have "\<not> r < r'" using e(2) [of r] q by blast
  moreover have "\<not> r' < r" using e(1) [of r'] q feq_sym by blast
  ultimately show ?thesis by simp
qed

lemma lowest_min_index_iff:
  assumes "\<not> isnan (s 0)" and "0 < N" and "N \<le> 65535"
  shows "lowest_min_index s N r
           \<longleftrightarrow> r = unat (word_of_int (scalar_result s N) :: 16 word)"
proof -
  have u: "unat (word_of_int (scalar_result s N) :: 16 word) = nat (scalar_result s N)"
    using scalar_result_range [of s N] assms(3)
    by (auto simp: unat_eq_nat_uint uint_word_of_int)
  show ?thesis unfolding u
    using scalar_result_lowest [of s N, OF assms(1,2)] lowest_min_index_unique by blast
qed

lemma index_min_nan_first:
  assumes "isnan (source 0)"
  shows "volk_32f_index_min_16u_generic source num_points = 0"
    and "volk_32f_index_min_16u_a_avx source num_points = 0"
    and "volk_32f_index_min_16u_a_sse4_1 source num_points = 0"
    and "volk_32f_index_min_16u_a_sse source num_points = 0"
    and "volk_32f_index_min_16u_u_avx source num_points = 0"
  using assms by (simp_all add: variants_scalar scalar_result_nan)

lemma unat_index:
  assumes "N \<le> 65535"
  shows "unat (word_of_int (scalar_result s N) :: 16 word) = nat (scalar_result s N)"
proof -
  from scalar_result_range [of s N] assms
  have "0 \<le> scalar_result s N" "scalar_result s N < 65536" by auto
  then show ?thesis by (simp add: unat_eq_nat_uint uint_word_of_int)
qed

lemma tail_loop_cong:
  "(\<And>k. lo \<le> k \<Longrightarrow> k < n \<Longrightarrow> s k = s' k) \<Longrightarrow> tail_loop s n lo st = tail_loop s' n lo st"
proof (induction "n - lo" arbitrary: lo st)
  case 0
  then show ?case by (cases st) (simp add: tail_loop.simps)
next
  case (Suc d)
  obtain m i where st: "st = (m, i)" by (cases st)
  from Suc have lt: "lo < n" and d: "d = n - Suc lo" by simp_all
  have e: "s lo = s' lo" using Suc.prems lt by simp
  have ih: "tail_loop s n (Suc lo) st' = tail_loop s' n (Suc lo) st'" for st'
    by (rule Suc.hyps(1) [OF d]) (simp add: Suc.prems)
  show ?case unfolding st
    by (simp add: tail_loop.simps [of s n lo] tail_loop.simps [of s' n lo] lt e ih)
qed

lemma scalar_result_cong:
  assumes "\<And>k. k < N \<Longrightarrow> s k = s' k" and "0 < N"
  shows "scalar_result s N = scalar_result s' N"
proof -
  have "s 0 = s' 0" using assms by simp
  moreover have "tail_loop s N 1 st = tail_loop s' N 1 st" for st
    by (rule tail_loop_cong) (simp add: assms)
  ultimately show ?thesis by (simp add: scalar_result_def)
qed

section \<open>Correctness of the square-distance kernels\<close>

lemma as_floats_even: "as_floats cs (2 * k) = fst (cs k)"
  by (simp add: as_floats_def)

lemma as_floats_odd: "as_floats cs (Suc (2 * k)) = snd (cs k)"
  by (simp add: as_floats_def)

lemma floats_1: "map (as_floats cs) [2 * p ..< 2 * p + 2 * 1] = [fst (cs p), snd (cs p)]"
  by (simp add: upt_rec as_floats_def)

lemma floats_2: "map (as_floats cs) [2 * p ..< 2 * p + 2 * 2] = cplx2 cs p"
proof -
  have "[2 * p ..< 2 * p + 2 * 2] = [2 * p, Suc (2 * p), 2 * (p + 1), Suc (2 * (p + 1))]"
    by (simp add: upt_rec)
  then show ?thesis by (simp only: list.map as_floats_even as_floats_odd cplx2_def)
qed

lemma floats_4: "map (as_floats cs) [2 * p ..< 2 * p + 2 * 4] = cplx4 cs p"
proof -
  have "[2 * p ..< 2 * p + 2 * 4] =
        [2 * p, Suc (2 * p), 2 * (p + 1), Suc (2 * (p + 1)),
         2 * (p + 2), Suc (2 * (p + 2)), 2 * (p + 3), Suc (2 * (p + 3))]"
    by (simp add: upt_rec)
  then show ?thesis by (simp only: list.map as_floats_even as_floats_odd cplx4_def)
qed

lemma load_points_fst:
  "fst (load_points 1 p st) = [fst (points_buf st p), snd (points_buf st p)]"
  "fst (load_points 2 p st) = cplx2 (points_buf st) p"
  "fst (load_points 4 p st) = cplx4 (points_buf st) p"
  by (simp_all only: load_points_def fst_conv floats_1 floats_2 floats_4)

lemma load_points_bufs: "bufs (snd (load_points n p st)) = bufs st"
  by (simp add: load_points_def bufs_def)

lemma store_target_bufs:
  "bufs (store_target t v st) =
     ((\<lambda>i. if t \<le> i \<and> i < t + length v then v ! (i - t) else target_buf st i),
      src0_buf st, points_buf st)"
  by (simp add: store_target_def bufs_def)

lemma bufs_eq:
  "bufs st = (T, S, P) \<longleftrightarrow> target_buf st = T \<and> src0_buf st = S \<and> points_buf st = P"
  by (auto simp: bufs_def)

lemma wr_0: "wr g P n 0 T = T"
  by (auto simp: wr_def fun_eq_iff)

lemma wr_wr: "wr g P (n + m) k (wr g P n m T) = wr g P n (m + k) T"
  by (auto simp: wr_def fun_eq_iff)

lemma csd_body_step:
  assumes "bufs st = (T, S, P)"
  shows "proj3 (calculate_scaled_distances_body symbol scalar (n, n, st))
         = (n + 1, n + 1, (wr (sqd_scalar symbol scalar) P n 1 T, S, P))"
proof -
  have P: "points_buf st = P" and T: "target_buf st = T" and S: "src0_buf st = S"
    using assms by (simp_all add: bufs_eq)
  show ?thesis
    apply (simp add: calculate_scaled_distances_body_def proj3_def Let_def split_beta
        load_points_fst store_target_bufs load_points_bufs [unfolded bufs_def, simplified])
    apply (auto simp add: load_points_def P T S wr_def sqd_scalar_def fun_eq_iff
        as_floats_even as_floats_odd less_Suc_eq)
    done
qed

lemma funpow_proj3:
  assumes step: "\<And>n st T. bufs st = (T, S, P) \<Longrightarrow>
                   proj3 (body (n, n, st)) = (n + w, n + w, (wr g P n w T, S, P))"
    and st: "bufs st = (T, S, P)"
  shows "proj3 ((body ^^ k) (n, n, st)) = (n + k * w, n + k * w, (wr g P n (k * w) T, S, P))"
proof (induction k)
  case 0
  show ?case by (simp add: proj3_def st wr_0)
next
  case (Suc k)
  obtain p t st' where r: "(body ^^ k) (n, n, st) = (p, t, st')"
    by (cases "(body ^^ k) (n, n, st)")
  with Suc have p: "p = n + k * w" and t: "t = n + k * w"
    and b: "bufs st' = (wr g P n (k * w) T, S, P)"
    by (simp_all add: proj3_def)
  have "proj3 (body (n + k * w, n + k * w, st'))
        = (n + k * w + w, n + k * w + w, (wr g P (n + k * w) w (wr g P n (k * w) T), S, P))"
    by (rule step [OF b])
  then show ?case by (simp add: r p t wr_wr add.commute add.left_commute)
qed

lemma funpow_proj5:
  assumes step: "\<And>n st T. bufs st = (T, S, P) \<Longrightarrow>
                   proj5 (body (R2 n, R3 n, n, n, st))
                     = (R2 (n + w), R3 (n + w), n + w, n + w, (wr g P n w T, S, P))"
    and st: "bufs st = (T, S, P)"
  shows "proj5 ((body ^^ k) (R2 n, R3 n, n, n, st))
         = (R2 (n + k * w), R3 (n + k * w), n + k * w, n + k * w, (wr g P n (k * w) T, S, P))"
proof (induction k)
  case 0
  show ?case by (simp add: proj5_def st wr_0)
next
  case (Suc k)
  obtain x2 x3 p t st' where r: "(body ^^ k) (R2 n, R3 n, n, n, st) = (x2, x3, p, t, st')"
    by (cases "(body ^^ k) (R2 n, R3 n, n, n, st)")
  with Suc have p: "p = n + k * w" and t: "t = n + k * w"
    and x: "x2 = R2 (n + k * w)" "x3 = R3 (n + k * w)"
    and b: "bufs st' = (wr g P n (k * w) T, S, P)"
    by (simp_all add: proj5_def)
  have "proj5 (body (R2 (n + k * w), R3 (n + k * w), n + k * w, n + k * w, st'))
        = (R2 (n + k * w + w), R3 (n + k * w + w), n + k * w + w, n + k * w + w,
           (wr g P (n + k * w) w (wr g P n (k * w) T), S, P))"
    by (rule step [OF b])
  then show ?case by (simp add: r p t x wr_wr add.commute add.left_commute)
qed

lemma store_wr:
  assumes "\<And>j. j < length v \<Longrightarrow> v ! j = g (P (t + j))"
  shows "(\<lambda>i. if t \<le> i \<and> i < t + length v then v ! (i - t) else T i) = wr g P t (length v) T"
proof
  fix i
  show "(if t \<le> i \<and> i < t + length v then v ! (i - t) else T i) = wr g P t (length v) T i"
  proof (cases "t \<le> i \<and> i < t + length v")
    case True
    then have "i - t < length v" "t + (i - t) = i" by auto
    with assms [of "i - t"] True show ?thesis by (simp add: wr_def)
  next
    case False
    then show ?thesis by (auto simp: wr_def)
  qed
qed

lemma nth_less_8:
  assumes "j < 8" and "P 0" "P 1" "P 2" "P 3" "P 4" "P 5" "P 6" "P (7 :: nat)"
  shows "P j"
proof -
  from assms(1) consider "j = 0" | "j = 1" | "j = 2" | "j = 3" | "j = 4" | "j = 5" | "j = 6" | "j = 7"
    by linarith
  then show ?thesis using assms(2-) by cases simp_all
qed

lemma nth_less_4:
  assumes "j < 4" and "P 0" "P 1" "P 2" "P (3 :: nat)"
  shows "P j"
proof -
  from assms(1) consider "j = 0" | "j = 1" | "j = 2" | "j = 3"
    by linarith
  then show ?thesis using assms(2-) by cases simp_all
qed

lemma vec8_nth: "j < 8 \<Longrightarrow> vec8 g P n ! j = g (P (n + j))"
  by (erule nth_less_8) (simp_all add: vec8_def)

lemma vec4_nth: "j < 4 \<Longrightarrow> vec4 g P n ! j = g (P (n + j))"
  by (erule nth_less_4) (simp_all add: vec4_def)

lemma vec2_nth: "j < 2 \<Longrightarrow> vec2 g P n ! j = g (P (n + j))"
  by (cases j) (simp_all add: vec2_def)

lemma store_vec8:
  "bufs (store_target t (vec8 g P t) st) = (wr g P t 8 (target_buf st), src0_buf st, points_buf st)"
proof -
  have len: "length (vec8 g P t) = 8" by (simp add: vec8_def)
  have "(\<lambda>i. if t \<le> i \<and> i < t + length (vec8 g P t) then vec8 g P t ! (i - t)
             else target_buf st i) = wr g P t (length (vec8 g P t)) (target_buf st)"
    by (rule store_wr) (simp add: len vec8_nth)
  then show ?thesis by (simp only: store_target_bufs len)
qed

lemma store_vec4:
  "bufs (store_target t (vec4 g P t) st) = (wr g P t 4 (target_buf st), src0_buf st, points_buf st)"
proof -
  have len: "length (vec4 g P t) = 4" by (simp add: vec4_def)
  have "(\<lambda>i. if t \<le> i \<and> i < t + length (vec4 g P t) then vec4 g P t ! (i - t)
             else target_buf st i) = wr g P t (length (vec4 g P t)) (target_buf st)"
    by (rule store_wr) (simp add: len vec4_nth)
  then show ?thesis by (simp only: store_target_bufs len)
qed

lemma store_vec2:
  "bufs (store_target t (vec2 g P t) st) = (wr g P t 2 (target_buf st), src0_buf st, points_buf st)"
proof -
  have len: "length (vec2 g P t) = 2" by (simp add: vec2_def)
  have "(\<lambda>i. if t \<le> i \<and> i < t + length (vec2 g P t) then vec2 g P t ! (i - t)
             else target_buf st i) = wr g P t (length (vec2 g P t)) (target_buf st)"
    by (rule store_wr) (simp add: len vec2_nth)
  then show ?thesis by (simp only: store_target_bufs len)
qed

lemma a_avx2_vec8:
  assumes "idx = [0, 1, 4, 5, 2, 3, 6, 7]"
    and "xmm8 = [scalar, scalar, scalar, scalar, scalar, scalar, scalar, scalar]"
  shows "take 8 (mm256_mul_ps
     (mm256_permutevar8x32_ps
        (mm256_hadd_ps
           (mm256_mul_ps (mm256_sub_ps (sym4 symbol) (cplx4 P n)) (mm256_sub_ps (sym4 symbol) (cplx4 P n)))
           (mm256_mul_ps (mm256_sub_ps (sym4 symbol) (cplx4 P (n + 4))) (mm256_sub_ps (sym4 symbol) (cplx4 P (n + 4)))))
        idx)
     xmm8)
   = vec8 (sqd_vector symbol scalar) P n"
  unfolding assms
  by (simp add: mm256_mul_ps_def mm256_permutevar8x32_ps_def mm256_hadd_ps_def mm256_sub_ps_def
      sym4_def cplx4_def sqd_vector_def vec8_def ac_simps)

lemma load_points_frame:
  "points_buf (snd (load_points k p s)) = points_buf s"
  "target_buf (snd (load_points k p s)) = target_buf s"
  "src0_buf (snd (load_points k p s)) = src0_buf s"
  by (simp_all add: load_points_def)

lemma a_avx2_loop_body_step:
  assumes "bufs st = (T, S, P)"
    and idx: "idx = [0, 1, 4, 5, 2, 3, 6, 7]"
    and x8: "xmm8 = [scalar, scalar, scalar, scalar, scalar, scalar, scalar, scalar]"
  shows "proj5 (a_avx2_loop_body (sym4 symbol) xmm8 idx (cplx4 P n, cplx4 P (n + 4), n, n, st))
         = (cplx4 P (n + 8), cplx4 P (n + 8 + 4), n + 8, n + 8,
            (wr (sqd_vector symbol scalar) P n 8 T, S, P))"
proof -
  have P: "points_buf st = P" and T: "target_buf st = T" and S: "src0_buf st = S"
    using assms by (simp_all add: bufs_eq)
  show ?thesis
    by (simp add: a_avx2_loop_body_def proj5_def Let_def split_beta mm256_load_ps_at_def
        mm256_store_ps_at_def load_points_fst load_points_frame P T S
        a_avx2_vec8 [OF idx x8] store_vec8 ac_simps)
qed

lemma u_avx2_loop_body_step:
  assumes "bufs st = (T, S, P)"
    and idx: "idx = [0, 1, 4, 5, 2, 3, 6, 7]"
    and x8: "xmm8 = [scalar, scalar, scalar, scalar, scalar, scalar, scalar, scalar]"
  shows "proj5 (u_avx2_loop_body (sym4 symbol) xmm8 idx (cplx4 P n, cplx4 P (n + 4), n, n, st))
         = (cplx4 P (n + 8), cplx4 P (n + 8 + 4), n + 8, n + 8,
            (wr (sqd_vector symbol scalar) P n 8 T, S, P))"
proof -
  have P: "points_buf st = P" and T: "target_buf st = T" and S: "src0_buf st = S"
    using assms by (simp_all add: bufs_eq)
  show ?thesis
    by (simp add: u_avx2_loop_body_def proj5_def Let_def split_beta mm256_loadu_ps_at_def
        mm256_storeu_ps_at_def load_points_fst load_points_frame P T S
        a_avx2_vec8 [OF idx x8] store_vec8 ac_simps)
qed

lemma avx2_left0_vec4:
  assumes "idx = [0, 1, 4, 5, 2, 3, 6, 7]"
    and "xmm8 = [scalar, scalar, scalar, scalar, scalar, scalar, scalar, scalar]"
  shows "take 4 (mm256_extractf128_ps (mm256_mul_ps
     (mm256_permutevar8x32_ps
        (mm256_hadd_ps
           (mm256_mul_ps (mm256_sub_ps (sym4 symbol) (cplx4 P n)) (mm256_sub_ps (sym4 symbol) (cplx4 P n)))
           (mm256_mul_ps (mm256_sub_ps (sym4 symbol) (cplx4 P n)) (mm256_sub_ps (sym4 symbol) (cplx4 P n))))
        idx)
     xmm8) (Suc 0))
   = vec4 (sqd_vector symbol scalar) P n"
  unfolding assms
  by (simp add: mm256_mul_ps_def mm256_permutevar8x32_ps_def mm256_hadd_ps_def mm256_sub_ps_def
      mm256_extractf128_ps_def sym4_def cplx4_def sqd_vector_def vec4_def ac_simps)

lemma a_avx2_leftovers0_body_step:
  assumes "bufs st = (T, S, P)"
    and idx: "idx = [0, 1, 4, 5, 2, 3, 6, 7]"
    and x8: "xmm8 = [scalar, scalar, scalar, scalar, scalar, scalar, scalar, scalar]"
  shows "proj3 (a_avx2_leftovers0_body (sym4 symbol) xmm8 idx (n, n, st))
         = (n + 4, n + 4, (wr (sqd_vector symbol scalar) P n 4 T, S, P))"
proof -
  have P: "points_buf st = P" and T: "target_buf st = T" and S: "src0_buf st = S"
    using assms by (simp_all add: bufs_eq)
  show ?thesis
    by (simp add: a_avx2_leftovers0_body_def proj3_def Let_def split_beta mm256_load_ps_at_def
        mm_store_ps_at_def load_points_fst load_points_frame P T S
        avx2_left0_vec4 [OF idx x8] store_vec4)
qed

lemma u_avx2_leftovers0_body_step:
  assumes "bufs st = (T, S, P)"
    and idx: "idx = [0, 1, 4, 5, 2, 3, 6, 7]"
    and x8: "xmm8 = [scalar, scalar, scalar, scalar, scalar, scalar, scalar, scalar]"
  shows "proj3 (u_avx2_leftovers0_body (sym4 symbol) xmm8 idx (n, n, st))
         = (n + 4, n + 4, (wr (sqd_vector symbol scalar) P n 4 T, S, P))"
proof -
  have P: "points_buf st = P" and T: "target_buf st = T" and S: "src0_buf st = S"
    using assms by (simp_all add: bufs_eq)
  show ?thesis
    by (simp add: u_avx2_leftovers0_body_def proj3_def Let_def split_beta mm256_loadu_ps_at_def
        mm_storeu_ps_at_def load_points_fst load_points_frame P T S
        avx2_left0_vec4 [OF idx x8] store_vec4)
qed

lemma sse_left_vec2:
  assumes "xmm8 = [scalar, scalar, scalar, scalar]"
  shows "[mm_mul_ps (mm_hadd_ps
            (mm_mul_ps (mm_sub_ps (sym2 symbol) (cplx2 P n)) (mm_sub_ps (sym2 symbol) (cplx2 P n)))
            (mm_mul_ps (mm_sub_ps (sym2 symbol) (cplx2 P n)) (mm_sub_ps (sym2 symbol) (cplx2 P n))))
          xmm8 ! 2,
         mm_mul_ps (mm_hadd_ps
            (mm_mul_ps (mm_sub_ps (sym2 symbol) (cplx2 P n)) (mm_sub_ps (sym2 symbol) (cplx2 P n)))
            (mm_mul_ps (mm_sub_ps (sym2 symbol) (cplx2 P n)) (mm_sub_ps (sym2 symbol) (cplx2 P n))))
          xmm8 ! 3]
   = vec2 (sqd_vector symbol scalar) P n"
  unfolding assms
  by (simp add: mm_mul_ps_def mm_hadd_ps_def mm_sub_ps_def
      sym2_def cplx2_def sqd_vector_def vec2_def ac_simps)

lemma a_avx2_leftovers1_body_step:
  assumes "bufs st = (T, S, P)"
    and x11: "xmm11 = [scalar, scalar, scalar, scalar]"
  shows "proj3 (a_avx2_leftovers1_body (sym2 symbol) xmm11 (n, n, st))
         = (n + 2, n + 2, (wr (sqd_vector symbol scalar) P n 2 T, S, P))"
proof -
  have P: "points_buf st = P" and T: "target_buf st = T" and S: "src0_buf st = S"
    using assms by (simp_all add: bufs_eq)
  show ?thesis
    by (simp add: a_avx2_leftovers1_body_def proj3_def Let_def split_beta mm_load_ps_at_def
        mm_storeh_pi_at_def load_points_fst load_points_frame P T S
        sse_left_vec2 [OF x11] store_vec2)
qed

lemma a_sse3_leftovers0_body_step:
  assumes "bufs st = (T, S, P)"
    and x8: "xmm8 = [scalar, scalar, scalar, scalar]"
  shows "proj3 (a_sse3_leftovers0_body (sym2 symbol) xmm8 (n, n, st))
         = (n + 2, n + 2, (wr (sqd_vector symbol scalar) P n 2 T, S, P))"
proof -
  have P: "points_buf st = P" and T: "target_buf st = T" and S: "src0_buf st = S"
    using assms by (simp_all add: bufs_eq)
  show ?thesis
    by (simp add: a_sse3_leftovers0_body_def proj3_def Let_def split_beta mm_load_ps_at_def
        mm_storeh_pi_at_def load_points_fst load_points_frame P T S
        sse_left_vec2 [OF x8] store_vec2)
qed

lemma sse3_vec4:
  assumes "xmm8 = [scalar, scalar, scalar, scalar]" and "m = n + 2"
  shows "take 4 (mm_mul_ps (mm_hadd_ps
            (mm_mul_ps (mm_sub_ps (sym2 symbol) (cplx2 P n)) (mm_sub_ps (sym2 symbol) (cplx2 P n)))
            (mm_mul_ps (mm_sub_ps (sym2 symbol) (cplx2 P m)) (mm_sub_ps (sym2 symbol) (cplx2 P m))))
          xmm8)
   = vec4 (sqd_vector symbol scalar) P n"
  unfolding assms
  by (simp add: mm_mul_ps_def mm_hadd_ps_def mm_sub_ps_def
      sym2_def cplx2_def sqd_vector_def vec4_def numeral_3_eq_3 ac_simps)

lemma a_sse3_loop_body_step:
  assumes "bufs st = (T, S, P)"
    and x8: "xmm8 = [scalar, scalar, scalar, scalar]" and m: "m = n + 2"
  shows "proj5 (a_sse3_loop_body (sym2 symbol) xmm8 (cplx2 P n, cplx2 P m, n, n, st))
         = (cplx2 P (n + 4), cplx2 P (n + 4 + 2), n + 4, n + 4,
            (wr (sqd_vector symbol scalar) P n 4 T, S, P))"
proof -
  have P: "points_buf st = P" and T: "target_buf st = T" and S: "src0_buf st = S"
    using assms by (simp_all add: bufs_eq)
  show ?thesis
    by (simp add: a_sse3_loop_body_def proj5_def Let_def split_beta mm_load_ps_at_def
        mm_store_ps_at_def load_points_fst load_points_frame P T S
        sse3_vec4 [OF x8 m] store_vec4 ac_simps)
qed

lemma setr_sym4:
  "mm256_setr_ps (fst c) (snd c) (fst c) (snd c) (fst c) (snd c) (fst c) (snd c) = sym4 c"
  by (simp add: mm256_setr_ps_def sym4_def)

lemma a_avx_vec8:
  assumes "m = n + 4"
  shows "take 8 (mm256_mul_ps
     (mm256_blend_ps
        (mm256_insertf128_ps
           (mm256_castps128_ps256 junk
              (mm256_extractf128_ps
                 (mm256_hadd_ps
                    (mm256_mul_ps (mm256_sub_ps (sym4 symbol) (cplx4 P n)) (mm256_sub_ps (sym4 symbol) (cplx4 P n)))
                    (mm256_mul_ps (mm256_sub_ps (sym4 symbol) (cplx4 P m)) (mm256_sub_ps (sym4 symbol) (cplx4 P m)))) 0))
           (mm_permute_ps
              (mm256_extractf128_ps
                 (mm256_hadd_ps
                    (mm256_mul_ps (mm256_sub_ps (sym4 symbol) (cplx4 P n)) (mm256_sub_ps (sym4 symbol) (cplx4 P n)))
                    (mm256_mul_ps (mm256_sub_ps (sym4 symbol) (cplx4 P m)) (mm256_sub_ps (sym4 symbol) (cplx4 P m)))) 0) 78) (Suc 0))
        (mm256_insertf128_ps
           (mm256_insertf128_ps
              (mm256_castps128_ps256 junk
                 (mm256_extractf128_ps
                    (mm256_hadd_ps
                       (mm256_mul_ps (mm256_sub_ps (sym4 symbol) (cplx4 P n)) (mm256_sub_ps (sym4 symbol) (cplx4 P n)))
                       (mm256_mul_ps (mm256_sub_ps (sym4 symbol) (cplx4 P m)) (mm256_sub_ps (sym4 symbol) (cplx4 P m)))) (Suc 0)))
              (mm256_extractf128_ps
                 (mm256_hadd_ps
                    (mm256_mul_ps (mm256_sub_ps (sym4 symbol) (cplx4 P n)) (mm256_sub_ps (sym4 symbol) (cplx4 P n)))
                    (mm256_mul_ps (mm256_sub_ps (sym4 symbol) (cplx4 P m)) (mm256_sub_ps (sym4 symbol) (cplx4 P m)))) (Suc 0)) (Suc 0))
           (mm_permute_ps
              (mm256_extractf128_ps
                 (mm256_hadd_ps
                    (mm256_mul_ps (mm256_sub_ps (sym4 symbol) (cplx4 P n)) (mm256_sub_ps (sym4 symbol) (cplx4 P n)))
                    (mm256_mul_ps (mm256_sub_ps (sym4 symbol) (cplx4 P m)) (mm256_sub_ps (sym4 symbol) (cplx4 P m)))) (Suc 0)) 78) 0)
        204)
     (mm256_set1_ps scalar))
   = vec8 (sqd_vector symbol scalar) P n"
  unfolding assms
  by (simp add: mm256_mul_ps_def mm256_blend_ps_def mm256_insertf128_ps_def
      mm256_castps128_ps256_def mm256_extractf128_ps_def mm_permute_ps_def mm256_hadd_ps_def
      mm256_sub_ps_def mm256_set1_ps_def sym4_def cplx4_def sqd_vector_def vec8_def
      ac_simps)

lemma a_avx_loop_sq_unfold:
  assumes b: "bufs st = (T, S, P)" and lt: "n < W"
  shows "\<exists>st'. a_avx_loop_sq junk scalar W n (n, n, st)
                 = a_avx_loop_sq junk scalar W (n + 8) (n + 8, n + 8, st')
               \<and> bufs st' = (wr (sqd_vector (S 0) scalar) P n 8 T, S, P)"
proof -
  have P: "points_buf st = P" and T: "target_buf st = T" and S: "src0_buf st = S"
    using b by (simp_all add: bufs_eq)
  have m: "n + 8 div 2 = n + 4" by simp
  show ?thesis
    apply (subst a_avx_loop_sq.simps)
    apply (simp only: lt if_True Let_def split_conv m)
    apply (simp only: split_beta mm256_load_ps_at_def mm256_store_ps_at_def load_points_fst
        load_points_frame P S setr_sym4)
    apply (rule exI, rule conjI, rule refl)
    apply (simp add: a_avx_vec8 [OF refl] store_vec8 load_points_frame T S P)
    done
qed

lemma a_avx_loop_sq_bufs:
  assumes b: "bufs st = (T, S, P)"
  shows "\<exists>st'. a_avx_loop_sq junk scalar (8 * k) (8 * i) (8 * i, 8 * i, st)
                 = (8 * max i k, 8 * max i k, st')
               \<and> bufs st' = (wr (sqd_vector (S 0) scalar) P (8 * i) (8 * (k - i)) T, S, P)"
  using b
proof (induction "k - i" arbitrary: i st T)
  case 0
  then have "\<not> 8 * i < 8 * k" "max i k = i" "k - i = 0" by simp_all
  then show ?case using 0(2)
    by (subst a_avx_loop_sq.simps) (simp add: wr_0)
next
  case (Suc d)
  then have lt: "8 * i < 8 * k" and d: "d = k - Suc i" and mx: "max i k = max (Suc i) k"
    and ki: "8 + 8 * (k - Suc i) = 8 * (k - i)"
    by simp_all
  from a_avx_loop_sq_unfold [OF Suc.prems lt, of junk scalar] obtain st1 where
    u: "a_avx_loop_sq junk scalar (8 * k) (8 * i) (8 * i, 8 * i, st)
          = a_avx_loop_sq junk scalar (8 * k) (8 * i + 8) (8 * i + 8, 8 * i + 8, st1)"
    and b1: "bufs st1 = (wr (sqd_vector (S 0) scalar) P (8 * i) 8 T, S, P)"
    by blast
  have e: "8 * Suc i = 8 * i + 8" by simp
  from Suc.hyps(1) [OF d b1] obtain st' where
    r: "a_avx_loop_sq junk scalar (8 * k) (8 * Suc i) (8 * Suc i, 8 * Suc i, st1)
          = (8 * max (Suc i) k, 8 * max (Suc i) k, st')"
    and b': "bufs st' = (wr (sqd_vector (S 0) scalar) P (8 * Suc i) (8 * (k - Suc i))
                    (wr (sqd_vector (S 0) scalar) P (8 * i) 8 T), S, P)"
    by blast
  have "wr (sqd_vector (S 0) scalar) P (8 * i + 8) (8 * (k - Suc i))
          (wr (sqd_vector (S 0) scalar) P (8 * i) 8 T)
        = wr (sqd_vector (S 0) scalar) P (8 * i) (8 * (k - i)) T"
    by (simp only: wr_wr ki)
  with b' have b'': "bufs st' = (wr (sqd_vector (S 0) scalar) P (8 * i) (8 * (k - i)) T, S, P)"
    by (simp only: e)
  from u r have "a_avx_loop_sq junk scalar (8 * k) (8 * i) (8 * i, 8 * i, st)
                 = (8 * max i k, 8 * max i k, st')"
    by (simp only: e mx)
  with b'' show ?case by blast
qed

lemma csd_bufs:
  assumes "bufs st = (T, S, P)"
  shows "bufs (calculate_scaled_distances n symbol n scalar k st)
         = (wr (sqd_scalar symbol scalar) P n k T, S, P)"
proof -
  have "proj3 ((calculate_scaled_distances_body symbol scalar ^^ k) (n, n, st))
        = (n + k * 1, n + k * 1, (wr (sqd_scalar symbol scalar) P n (k * 1) T, S, P))"
    by (rule funpow_proj3 [OF csd_body_step assms])
  then show ?thesis
    by (simp add: calculate_scaled_distances_def proj3_def split_beta)
qed

lemma generic_bufs:
  assumes "bufs st = (T, S, P)"
  shows "bufs (volk_32fc_x2_s32f_square_dist_scalar_mult_32f_generic scalar num_points st)
         = (wr (sqd_scalar (S 0) scalar) P 0 (unat num_points) T, S, P)"
proof -
  have S: "src0_buf st = S" using assms by (simp add: bufs_eq)
  show ?thesis
    by (simp add: volk_32fc_x2_s32f_square_dist_scalar_mult_32f_generic_def S csd_bufs [OF assms])
qed

lemma a_avx_bufs:
  assumes b: "bufs st = (T, S, P)"
  shows "bufs (volk_32fc_x2_s32f_square_dist_scalar_mult_32f_a_avx junk scalar num_points st)
         = (wr (sqd_scalar (S 0) scalar) P (8 * (unat num_points div 8)) (unat num_points mod 8)
              (wr (sqd_vector (S 0) scalar) P 0 (8 * (unat num_points div 8)) T), S, P)"
proof -
  let ?k = "unat num_points div 8"
  from a_avx_loop_sq_bufs [OF b, of junk scalar ?k 0] obtain st' where
    r: "a_avx_loop_sq junk scalar (8 * ?k) 0 (0, 0, st) = (8 * ?k, 8 * ?k, st')"
    and b': "bufs st' = (wr (sqd_vector (S 0) scalar) P 0 (8 * ?k) T, S, P)"
    by auto
  have S: "src0_buf st' = S" using b' by (simp add: bufs_eq)
  have w: "unat (num_points div 8 * 8) = 8 * ?k" by (rule unat_div_mult_8)
  have "num_points div 8 * 8 \<le> num_points"
    by (simp add: word_le_nat_alt w)
  then have m: "unat (num_points - num_points div 8 * 8) = unat num_points mod 8"
    by (simp add: unat_sub w minus_mult_div_eq_mod)
  show ?thesis
    by (simp add: volk_32fc_x2_s32f_square_dist_scalar_mult_32f_a_avx_def Let_def w r m S
        csd_bufs [OF b'])
qed

lemma unat_drop_bit_32: "unat (drop_bit k (w :: 32 word)) = unat w div 2 ^ k"
  unfolding unat_drop_bit_eq by (simp add: drop_bit_eq_div)

lemma unat_and_1: "unat ((w :: 32 word) AND 1) = unat w mod 2"
  by (simp add: and_one_eq unat_mod)

lemma unat_and_3: "unat ((w :: 32 word) AND 3) = unat w mod 4"
proof -
  have "w AND 3 = take_bit 2 w" using take_bit_eq_mask [of 2 w] by (simp add: mask_eq_exp_minus_1)
  then show ?thesis by (simp add: unsigned_take_bit_eq take_bit_eq_mod unat_mod)
qed

lemma init_xmm0: "mm_permute_ps (mm_load_ps (as_floats S) 0) 68 = sym2 (S 0)"
  by (simp add: mm_permute_ps_def mm_load_ps_def sym2_def upt_rec as_floats_def)

lemma init_xmm1:
  "mm256_insertf128_ps (mm256_insertf128_ps mm256_setzero_ps (sym2 c) 0) (sym2 c) (Suc 0) = sym4 c"
  by (simp add: mm256_insertf128_ps_def mm256_setzero_ps_def sym2_def sym4_def)

lemma init_xmm11:
  "mm256_extractf128_ps (mm256_set1_ps scalar) (Suc 0) = [scalar, scalar, scalar, scalar]"
  by (simp add: mm256_extractf128_ps_def mm256_set1_ps_def)

lemma init_idx: "mm256_set_epi32 7 6 3 2 5 4 (Suc 0) 0 = [0, Suc 0, 4, 5, 2, 3, 6, 7]"
  by (simp add: mm256_set_epi32_def)

lemma init_sse_xmm1:
  "mm_movelh_ps (mm_loadl_pi mm_setzero_ps (as_floats S) 0) (mm_loadl_pi mm_setzero_ps (as_floats S) 0)
     = sym2 (S 0)"
  by (simp add: mm_movelh_ps_def mm_loadl_pi_def sym2_def as_floats_def)

lemma proj5_D:
  assumes "proj5 r = (a, b, p, t, c)"
  obtains st' where "r = (a, b, p, t, st')" and "bufs st' = c"
  using assms by (cases r) (auto simp: proj5_def)

lemma proj3_D:
  assumes "proj3 r = (p, t, c)"
  obtains st' where "r = (p, t, st')" and "bufs st' = c"
  using assms by (cases r) (auto simp: proj3_def)

lemma load4_eq:
  assumes "bufs st = (T, S, P)"
  obtains st' where "load_points 4 p st = (cplx4 P p, st')" and "bufs st' = (T, S, P)"
proof
  have P: "points_buf st = P" using assms by (simp add: bufs_eq)
  show "load_points 4 p st = (cplx4 P p, snd (load_points 4 p st))"
    using load_points_fst(3) [of p st] by (simp add: P prod_eq_iff)
  show "bufs (snd (load_points 4 p st)) = (T, S, P)"
    using assms by (simp add: load_points_bufs)
qed

lemma load2_eq:
  assumes "bufs st = (T, S, P)"
  obtains st' where "load_points 2 p st = (cplx2 P p, st')" and "bufs st' = (T, S, P)"
proof
  have P: "points_buf st = P" using assms by (simp add: bufs_eq)
  show "load_points 2 p st = (cplx2 P p, snd (load_points 2 p st))"
    using load_points_fst(2) [of p st] by (simp add: P prod_eq_iff)
  show "bufs (snd (load_points 2 p st)) = (T, S, P)"
    using assms by (simp add: load_points_bufs)
qed

lemma a_avx2_bufs:
  fixes num_points :: "32 word"
  assumes b: "bufs st = (T, S, P)"
  defines "B \<equiv> unat (num_points * 8)"
  shows "bufs (volk_32fc_x2_s32f_square_dist_scalar_mult_32f_a_avx2 scalar num_points st)
         = (wr (sqd_scalar (S 0) scalar) P
               (8 * (B div 64) + 4 * (B div 32 mod 2) + 2 * (B div 16 mod 2)) (B div 8 mod 2)
              (wr (sqd_vector (S 0) scalar) P 0
                 (8 * (B div 64) + 4 * (B div 32 mod 2) + 2 * (B div 16 mod 2)) T), S, P)"
proof -
  let ?gv = "sqd_vector (S 0) scalar"
  define idx where "idx = mm256_set_epi32 7 6 3 2 5 4 1 0"
  define xmm8 where "xmm8 = mm256_set1_ps scalar"
  define xmm11 where "xmm11 = mm256_extractf128_ps xmm8 1"
  have idx: "idx = [0, 1, 4, 5, 2, 3, 6, 7]" by (simp add: idx_def mm256_set_epi32_def)
  have x8: "xmm8 = [scalar, scalar, scalar, scalar, scalar, scalar, scalar, scalar]"
    by (simp add: xmm8_def mm256_set1_ps_def)
  have x11: "xmm11 = [scalar, scalar, scalar, scalar]"
    by (simp add: xmm11_def x8 mm256_extractf128_ps_def)
  have S: "src0_buf st = S" using b by (simp add: bufs_eq)
  from load4_eq [OF b, of 0] obtain st1 where
    l1: "load_points 4 0 st = (cplx4 P 0, st1)" and b1: "bufs st1 = (T, S, P)" by blast
  from load4_eq [OF b1, of 4] obtain st2 where
    l2: "load_points 4 4 st1 = (cplx4 P 4, st2)" and b2: "bufs st2 = (T, S, P)" by blast
  have S1: "src0_buf st1 = S" using b1 by (simp add: bufs_eq)
  have "proj5 ((a_avx2_loop_body (sym4 (S 0)) xmm8 idx ^^ (B div 64))
                 (cplx4 P 0, cplx4 P (0 + 4), 0, 0, st2))
        = (cplx4 P (0 + B div 64 * 8), cplx4 P (0 + B div 64 * 8 + 4),
           0 + B div 64 * 8, 0 + B div 64 * 8, (wr ?gv P 0 (B div 64 * 8) T, S, P))"
    by (rule funpow_proj5 [where ?R2.0 = "cplx4 P" and ?R3.0 = "\<lambda>n. cplx4 P (n + 4)"])
       (simp_all add: a_avx2_loop_body_step [OF _ idx x8] b2)
  then obtain st3 x2 x3 where
    r3: "(a_avx2_loop_body (sym4 (S 0)) xmm8 idx ^^ (B div 64)) (cplx4 P 0, cplx4 P 4, 0, 0, st2)
           = (x2, x3, B div 64 * 8, B div 64 * 8, st3)"
    and b3: "bufs st3 = (wr ?gv P 0 (B div 64 * 8) T, S, P)"
    by (auto elim!: proj5_D)
  have "proj3 ((a_avx2_leftovers0_body (sym4 (S 0)) xmm8 idx ^^ (B div 32 mod 2))
                 (B div 64 * 8, B div 64 * 8, st3))
        = (B div 64 * 8 + B div 32 mod 2 * 4, B div 64 * 8 + B div 32 mod 2 * 4,
           (wr ?gv P (B div 64 * 8) (B div 32 mod 2 * 4) (wr ?gv P 0 (B div 64 * 8) T), S, P))"
    by (rule funpow_proj3) (simp_all add: a_avx2_leftovers0_body_step [OF _ idx x8] b3)
  then obtain st4 where
    r4: "(a_avx2_leftovers0_body (sym4 (S 0)) xmm8 idx ^^ (B div 32 mod 2))
           (B div 64 * 8, B div 64 * 8, st3)
         = (B div 64 * 8 + B div 32 mod 2 * 4, B div 64 * 8 + B div 32 mod 2 * 4, st4)"
    and b4: "bufs st4 = (wr ?gv P (0 + B div 64 * 8) (B div 32 mod 2 * 4) (wr ?gv P 0 (B div 64 * 8) T), S, P)"
    by (auto elim!: proj3_D)
  let ?n4 = "B div 64 * 8 + B div 32 mod 2 * 4"
  have b4': "bufs st4 = (wr ?gv P 0 ?n4 T, S, P)"
    using b4 by (simp only: wr_wr)
  have "proj3 ((a_avx2_leftovers1_body (sym2 (S 0)) xmm11 ^^ (B div 16 mod 2)) (?n4, ?n4, st4))
        = (?n4 + B div 16 mod 2 * 2, ?n4 + B div 16 mod 2 * 2,
           (wr ?gv P ?n4 (B div 16 mod 2 * 2) (wr ?gv P 0 ?n4 T), S, P))"
    by (rule funpow_proj3) (simp_all add: a_avx2_leftovers1_body_step [OF _ x11] b4')
  then obtain st5 where
    r5: "(a_avx2_leftovers1_body (sym2 (S 0)) xmm11 ^^ (B div 16 mod 2)) (?n4, ?n4, st4)
         = (?n4 + B div 16 mod 2 * 2, ?n4 + B div 16 mod 2 * 2, st5)"
    and b5: "bufs st5 = (wr ?gv P (0 + ?n4) (B div 16 mod 2 * 2) (wr ?gv P 0 ?n4 T), S, P)"
    by (auto elim!: proj3_D)
  let ?n5 = "?n4 + B div 16 mod 2 * 2"
  have b5': "bufs st5 = (wr ?gv P 0 ?n5 T, S, P)"
    using b5 by (simp only: wr_wr)
  have S5: "src0_buf st5 = S" using b5' by (simp add: bufs_eq)
  have n5: "?n5 = 8 * (B div 64) + 4 * (B div 32 mod 2) + 2 * (B div 16 mod 2)" by simp
  have K: "volk_32fc_x2_s32f_square_dist_scalar_mult_32f_a_avx2 scalar num_points st
           = calculate_scaled_distances ?n5 (S 0) ?n5 scalar (B div 8 mod 2) st5"
    unfolding volk_32fc_x2_s32f_square_dist_scalar_mult_32f_a_avx2_def Let_def
      xmm8_def [symmetric] xmm11_def [symmetric] idx_def [symmetric]
    by (simp add: mm256_load_ps_at_def l1 l2 S S1 S5 init_xmm0 init_xmm1 unat_drop_bit_32
        unat_and_1 B_def [symmetric] r3 r4 r5)
  show ?thesis unfolding K n5 [symmetric] by (rule csd_bufs [OF b5'])
qed

lemma u_avx2_bufs:
  fixes num_points :: "32 word"
  assumes b: "bufs st = (T, S, P)"
  defines "B \<equiv> unat (num_points * 8)"
  shows "bufs (volk_32fc_x2_s32f_square_dist_scalar_mult_32f_u_avx2 scalar num_points st)
         = (wr (sqd_scalar (S 0) scalar) P
               (8 * (B div 64) + 4 * (B div 32 mod 2)) (B div 8 mod 4)
              (wr (sqd_vector (S 0) scalar) P 0
                 (8 * (B div 64) + 4 * (B div 32 mod 2)) T), S, P)"
proof -
  let ?gv = "sqd_vector (S 0) scalar"
  define idx where "idx = mm256_set_epi32 7 6 3 2 5 4 1 0"
  define xmm8 where "xmm8 = mm256_set1_ps scalar"
  have idx: "idx = [0, 1, 4, 5, 2, 3, 6, 7]" by (simp add: idx_def mm256_set_epi32_def)
  have x8: "xmm8 = [scalar, scalar, scalar, scalar, scalar, scalar, scalar, scalar]"
    by (simp add: xmm8_def mm256_set1_ps_def)
  have S: "src0_buf st = S" using b by (simp add: bufs_eq)
  from load4_eq [OF b, of 0] obtain st1 where
    l1: "load_points 4 0 st = (cplx4 P 0, st1)" and b1: "bufs st1 = (T, S, P)" by blast
  from load4_eq [OF b1, of 4] obtain st2 where
    l2: "load_points 4 4 st1 = (cplx4 P 4, st2)" and b2: "bufs st2 = (T, S, P)" by blast
  have S1: "src0_buf st1 = S" using b1 by (simp add: bufs_eq)
  have "proj5 ((u_avx2_loop_body (sym4 (S 0)) xmm8 idx ^^ (B div 64))
                 (cplx4 P 0, cplx4 P (0 + 4), 0, 0, st2))
        = (cplx4 P (0 + B div 64 * 8), cplx4 P (0 + B div 64 * 8 + 4),
           0 + B div 64 * 8, 0 + B div 64 * 8, (wr ?gv P 0 (B div 64 * 8) T, S, P))"
    by (rule funpow_proj5 [where ?R2.0 = "cplx4 P" and ?R3.0 = "\<lambda>n. cplx4 P (n + 4)"])
       (simp_all add: u_avx2_loop_body_step [OF _ idx x8] b2)
  then obtain st3 x2 x3 where
    r3: "(u_avx2_loop_body (sym4 (S 0)) xmm8 idx ^^ (B div 64)) (cplx4 P 0, cplx4 P 4, 0, 0, st2)
           = (x2, x3, B div 64 * 8, B div 64 * 8, st3)"
    and b3: "bufs st3 = (wr ?gv P 0 (B div 64 * 8) T, S, P)"
    by (auto elim!: proj5_D)
  have "proj3 ((u_avx2_leftovers0_body (sym4 (S 0)) xmm8 idx ^^ (B div 32 mod 2))
                 (B div 64 * 8, B div 64 * 8, st3))
        = (B div 64 * 8 + B div 32 mod 2 * 4, B div 64 * 8 + B div 32 mod 2 * 4,
           (wr ?gv P (B div 64 * 8) (B div 32 mod 2 * 4) (wr ?gv P 0 (B div 64 * 8) T), S, P))"
    by (rule funpow_proj3) (simp_all add: u_avx2_leftovers0_body_step [OF _ idx x8] b3)
  then obtain st4 where
    r4: "(u_avx2_leftovers0_body (sym4 (S 0)) xmm8 idx ^^ (B div 32 mod 2))
           (B div 64 * 8, B div 64 * 8, st3)
         = (B div 64 * 8 + B div 32 mod 2 * 4, B div 64 * 8 + B div 32 mod 2 * 4, st4)"
    and b4: "bufs st4 = (wr ?gv P (0 + B div 64 * 8) (B div 32 mod 2 * 4) (wr ?gv P 0 (B div 64 * 8) T), S, P)"
    by (auto elim!: proj3_D)
  let ?n4 = "B div 64 * 8 + B div 32 mod 2 * 4"
  have b4': "bufs st4 = (wr ?gv P 0 ?n4 T, S, P)"
    using b4 by (simp only: wr_wr)
  have S4: "src0_buf st4 = S" using b4' by (simp add: bufs_eq)
  have n4: "?n4 = 8 * (B div 64) + 4 * (B div 32 mod 2)" by simp
  have K: "volk_32fc_x2_s32f_square_dist_scalar_mult_32f_u_avx2 scalar num_points st
           = calculate_scaled_distances ?n4 (S 0) ?n4 scalar (B div 8 mod 4) st4"
    unfolding volk_32fc_x2_s32f_square_dist_scalar_mult_32f_u_avx2_def Let_def
      xmm8_def [symmetric] idx_def [symmetric]
    by (simp add: mm256_loadu_ps_at_def l1 l2 S S1 S4 init_xmm0 init_xmm1 unat_drop_bit_32
        unat_and_1 unat_and_3 B_def [symmetric] r3 r4)
  show ?thesis unfolding K n4 [symmetric] by (rule csd_bufs [OF b4'])
qed

lemma a_sse3_bufs:
  fixes num_points :: "32 word"
  assumes b: "bufs st = (T, S, P)"
  defines "B \<equiv> unat (num_points * 8)"
  shows "bufs (volk_32fc_x2_s32f_square_dist_scalar_mult_32f_a_sse3 scalar num_points st)
         = (wr (sqd_scalar (S 0) scalar) P
               (4 * (B div 32 - 1) + 4 + 2 * (B div 16 mod 2)) (B div 8 mod 2)
              (wr (sqd_vector (S 0) scalar) P 0
                 (4 * (B div 32 - 1) + 4 + 2 * (B div 16 mod 2)) T), S, P)"
proof -
  let ?gv = "sqd_vector (S 0) scalar"
  define k where "k = B div 32 - 1"
  define xmm8 where "xmm8 = mm_load1_ps scalar"
  have x8: "xmm8 = [scalar, scalar, scalar, scalar]"
    by (simp add: xmm8_def mm_load1_ps_def)
  have S: "src0_buf st = S" using b by (simp add: bufs_eq)
  from load2_eq [OF b, of 0] obtain st1 where
    l1: "load_points 2 0 st = (cplx2 P 0, st1)" and b1: "bufs st1 = (T, S, P)" by blast
  from load2_eq [OF b1, of 2] obtain st2 where
    l2: "load_points 2 2 st1 = (cplx2 P 2, st2)" and b2: "bufs st2 = (T, S, P)" by blast
  have "proj5 ((a_sse3_loop_body (sym2 (S 0)) xmm8 ^^ k)
                 (cplx2 P 0, cplx2 P (0 + 2), 0, 0, st2))
        = (cplx2 P (0 + k * 4), cplx2 P (0 + k * 4 + 2),
           0 + k * 4, 0 + k * 4, (wr ?gv P 0 (k * 4) T, S, P))"
    by (rule funpow_proj5 [where ?R2.0 = "cplx2 P" and ?R3.0 = "\<lambda>n. cplx2 P (n + 2)",
          OF a_sse3_loop_body_step [OF _ x8 refl] b2])
  then obtain st3 where
    r3': "(a_sse3_loop_body (sym2 (S 0)) xmm8 ^^ k) (cplx2 P 0, cplx2 P (0 + 2), 0, 0, st2)
           = (cplx2 P (0 + k * 4), cplx2 P (0 + k * 4 + 2), 0 + k * 4, 0 + k * 4, st3)"
    and b3: "bufs st3 = (wr ?gv P 0 (k * 4) T, S, P)"
    by (rule proj5_D)
  have r3: "(a_sse3_loop_body (sym2 (S 0)) xmm8 ^^ k) (cplx2 P 0, cplx2 P 2, 0, 0, st2)
           = (cplx2 P (k * 4), cplx2 P (k * 4 + 2), k * 4, k * 4, st3)"
    using r3' by (simp only: add_0)
  define st4 where "st4 = store_target (k * 4) (vec4 ?gv P (k * 4)) st3"
  have b4: "bufs st4 = (wr ?gv P (0 + k * 4) 4 (wr ?gv P 0 (k * 4) T), S, P)"
    using b3 by (simp add: st4_def store_vec4 bufs_eq)
  have b4': "bufs st4 = (wr ?gv P 0 (k * 4 + 4) T, S, P)"
    using b4 by (simp only: wr_wr)
  have "proj3 ((a_sse3_leftovers0_body (sym2 (S 0)) xmm8 ^^ (B div 16 mod 2))
                 (k * 4 + 4, k * 4 + 4, st4))
        = (k * 4 + 4 + B div 16 mod 2 * 2, k * 4 + 4 + B div 16 mod 2 * 2,
           (wr ?gv P (k * 4 + 4) (B div 16 mod 2 * 2) (wr ?gv P 0 (k * 4 + 4) T), S, P))"
    by (rule funpow_proj3) (simp_all add: a_sse3_leftovers0_body_step [OF _ x8] b4')
  then obtain st5 where
    r5: "(a_sse3_leftovers0_body (sym2 (S 0)) xmm8 ^^ (B div 16 mod 2))
           (k * 4 + 4, k * 4 + 4, st4)
         = (k * 4 + 4 + B div 16 mod 2 * 2, k * 4 + 4 + B div 16 mod 2 * 2, st5)"
    and b5: "bufs st5 = (wr ?gv P (0 + (k * 4 + 4)) (B div 16 mod 2 * 2)
                           (wr ?gv P 0 (k * 4 + 4) T), S, P)"
    by (auto elim!: proj3_D)
  let ?n5 = "k * 4 + 4 + B div 16 mod 2 * 2"
  have b5': "bufs st5 = (wr ?gv P 0 ?n5 T, S, P)"
    using b5 by (simp only: wr_wr)
  have S5: "src0_buf st5 = S" using b5' by (simp add: bufs_eq)
  have n5: "?n5 = 4 * (B div 32 - 1) + 4 + 2 * (B div 16 mod 2)" by (simp add: k_def)
  have bnd: "nat (uint (drop_bit 5 (num_points * 8)) - 1) = k"
    using unat_drop_bit_32 [of 5 "num_points * 8"] by (simp add: B_def k_def nat_diff_distrib')
  have l2': "load_points 2 (Suc (Suc 0)) st1 = (cplx2 P 2, st2)"
    using l2 by (simp add: numeral_2_eq_2)
  have K: "volk_32fc_x2_s32f_square_dist_scalar_mult_32f_a_sse3 scalar num_points st
           = calculate_scaled_distances ?n5 (S 0) ?n5 scalar (B div 8 mod 2) st5"
    unfolding volk_32fc_x2_s32f_square_dist_scalar_mult_32f_a_sse3_def Let_def
      xmm8_def [symmetric] bnd
    by (simp add: mm_load_ps_at_def mm_store_ps_at_def l1 l2' S S5 init_sse_xmm1
        unat_drop_bit_32 unat_and_1 B_def [symmetric] r3 sse3_vec4 [OF x8]
        st4_def [symmetric] r5)
  show ?thesis unfolding K n5 [symmetric] by (rule csd_bufs [OF b5'])
qed

section \<open>The puppet adapters\<close>

lemma popcntpuppet_e2k_loop_eq:
  "popcntpuppet_e2k_loop k inVector N ii outVector
     = (\<lambda>i. if ii \<le> i \<and> i < N then k (inVector i) else outVector i)"
proof (induction "N - ii" arbitrary: ii outVector)
  case 0
  then show ?case by (subst popcntpuppet_e2k_loop.simps) (auto simp: fun_eq_iff)
next
  case (Suc d)
  then have lt: "ii < N" and d: "d = N - Suc ii" by simp_all
  have ih: "popcntpuppet_e2k_loop k inVector N (Suc ii) out'
              = (\<lambda>i. if Suc ii \<le> i \<and> i < N then k (inVector i) else out' i)" for out'
    by (rule Suc.hyps(1) [OF d])
  show ?case
    by (subst popcntpuppet_e2k_loop.simps) (auto simp: lt ih fun_eq_iff)
qed

lemma popcntpuppet_a_sse4_2_loop_eq:
  "popcntpuppet_a_sse4_2_loop k inVector N ii outVector
     = (\<lambda>i. if ii \<le> i \<and> i < N then k (inVector i) else outVector i)"
proof (induction "N - ii" arbitrary: ii outVector)
  case 0
  then show ?case by (subst popcntpuppet_a_sse4_2_loop.simps) (auto simp: fun_eq_iff)
next
  case (Suc d)
  then have lt: "ii < N" and d: "d = N - Suc ii" by simp_all
  have ih: "popcntpuppet_a_sse4_2_loop k inVector N (Suc ii) out'
              = (\<lambda>i. if Suc ii \<le> i \<and> i < N then k (inVector i) else out' i)" for out'
    by (rule Suc.hyps(1) [OF d])
  show ?case
    by (subst popcntpuppet_a_sse4_2_loop.simps) (auto simp: lt ih fun_eq_iff)
qed

lemma num_bytes_parts_a:
  "8 * (B div 64) + 4 * (B div 32 mod 2) + 2 * (B div 16 mod 2) + B div 8 mod 2 = B div (8 :: nat)"
proof -
  have 1: "B div 8 = 2 * (B div 16) + B div 8 mod 2"
    using div_mult2_eq [of B 8 2] by (simp add: mult.commute)
  have 2: "B div 16 = 2 * (B div 32) + B div 16 mod 2"
    using div_mult2_eq [of B 16 2] by (simp add: mult.commute)
  have 3: "B div 32 = 2 * (B div 64) + B div 32 mod 2"
    using div_mult2_eq [of B 32 2] by (simp add: mult.commute)
  show ?thesis using 1 2 3 by linarith
qed

lemma num_bytes_parts_u:
  "8 * (B div 64) + 4 * (B div 32 mod 2) + B div 8 mod 4 = B div (8 :: nat)"
proof -
  have 1: "B div 8 = 4 * (B div 32) + B div 8 mod 4"
    using div_mult2_eq [of B 8 4] by (simp add: mult.commute)
  have 3: "B div 32 = 2 * (B div 64) + B div 32 mod 2"
    using div_mult2_eq [of B 32 2] by (simp add: mult.commute)
  show ?thesis using 1 3 by linarith
qed

lemma sqd_comm:
  assumes "\<forall>a b :: 'f :: {plus,minus,times}. a * b = b * a"
  shows "sqd_vector symbol scalar = (sqd_scalar symbol scalar :: 'f \<times> 'f \<Rightarrow> 'f)"
  using assms by (simp add: sqd_vector_def sqd_scalar_def fun_eq_iff)

lemma wr_join: "wr g P n l (wr g P 0 n T) = wr g P 0 (n + l) T"
  using wr_wr [of g P 0 n l T] by simp

lemma bufs_self: "bufs st = (target_buf st, src0_buf st, points_buf st)"
  by (simp add: bufs_def)

lemma avx2_pair_equal:
  assumes c: "\<forall>a b :: 'f :: {zero,plus,minus,times}. a * b = b * a"
  shows "target_buf (volk_32fc_x2_s32f_square_dist_scalar_mult_32f_a_avx2 scalar num_points st)
       = target_buf (volk_32fc_x2_s32f_square_dist_scalar_mult_32f_u_avx2 scalar num_points
           (st :: 'f state))"
proof -
  let ?B = "unat (num_points * 8)"
  let ?g = "sqd_scalar (src0_buf st 0) scalar"
  have v: "sqd_vector (src0_buf st 0) scalar = ?g" by (rule sqd_comm [OF c])
  have "bufs (volk_32fc_x2_s32f_square_dist_scalar_mult_32f_a_avx2 scalar num_points st)
        = (wr ?g (points_buf st) 0 (?B div 8) (target_buf st), src0_buf st, points_buf st)"
    unfolding a_avx2_bufs [OF bufs_self] v wr_join num_bytes_parts_a ..
  moreover have
    "bufs (volk_32fc_x2_s32f_square_dist_scalar_mult_32f_u_avx2 scalar num_points st)
        = (wr ?g (points_buf st) 0 (?B div 8) (target_buf st), src0_buf st, points_buf st)"
    unfolding u_avx2_bufs [OF bufs_self] v wr_join num_bytes_parts_u ..
  ultimately show ?thesis by (simp add: bufs_def)
qed

lemma idem_from_bufs:
  assumes k: "\<And>st T S P. bufs st = (T, S, P) \<Longrightarrow> bufs (K st) = (F S P T, S, P)"
    and f: "\<And>S P T. F S P (F S P T) = F S P T"
  shows "bufs (K (K st)) = bufs (K st) \<and> src0_buf (K st) = src0_buf st
         \<and> points_buf (K st) = points_buf st"
proof -
  have 1: "bufs (K st) = (F (src0_buf st) (points_buf st) (target_buf st), src0_buf st, points_buf st)"
    by (rule k [OF bufs_self])
  have 2: "bufs (K (K st)) = (F (src0_buf st) (points_buf st)
             (F (src0_buf st) (points_buf st) (target_buf st)), src0_buf st, points_buf st)"
    by (rule k [OF 1])
  have "bufs (K (K st)) = bufs (K st)" by (simp only: 1 2 f)
  moreover have "src0_buf (K st) = src0_buf st" "points_buf (K st) = points_buf st"
    using 1 by (simp_all add: bufs_eq)
  ultimately show ?thesis by simp
qed

lemma wr2_idem:
  "wr g P n l (wr h P 0 n (wr g P n l (wr h P 0 n T))) = wr g P n l (wr h P 0 n T)"
  by (auto simp: wr_def fun_eq_iff)

lemma wr_idem: "wr g P n l (wr g P n l T) = wr g P n l T"
  by (auto simp: wr_def fun_eq_iff)

lemma generic_idem:
  "bufs (volk_32fc_x2_s32f_square_dist_scalar_mult_32f_generic scalar n
          (volk_32fc_x2_s32f_square_dist_scalar_mult_32f_generic scalar n st))
   = bufs (volk_32fc_x2_s32f_square_dist_scalar_mult_32f_generic scalar n st)
   \<and> src0_buf (volk_32fc_x2_s32f_square_dist_scalar_mult_32f_generic scalar n st) = src0_buf st
   \<and> points_buf (volk_32fc_x2_s32f_square_dist_scalar_mult_32f_generic scalar n st) = points_buf st"
  by (rule idem_from_bufs [where F = "\<lambda>S P T. wr (sqd_scalar (S 0) scalar) P 0 (unat n) T"])
     (simp_all add: generic_bufs wr_idem)

lemma a_avx2_idem:
  "bufs (volk_32fc_x2_s32f_square_dist_scalar_mult_32f_a_avx2 scalar n (volk_32fc_x2_s32f_square_dist_scalar_mult_32f_a_avx2 scalar n st)) = bufs (volk_32fc_x2_s32f_square_dist_scalar_mult_32f_a_avx2 scalar n st)
   \<and> src0_buf (volk_32fc_x2_s32f_square_dist_scalar_mult_32f_a_avx2 scalar n st) = src0_buf st
   \<and> points_buf (volk_32fc_x2_s32f_square_dist_scalar_mult_32f_a_avx2 scalar n st) = points_buf st"
proof -
  let ?B = "unat (n * 8)"
  show ?thesis
    by (rule idem_from_bufs [where F = "\<lambda>S P T. wr (sqd_scalar (S 0) scalar) P (8 * (?B div 64) + 4 * (?B div 32 mod 2) + 2 * (?B div 16 mod 2)) (?B div 8 mod 2)
            (wr (sqd_vector (S 0) scalar) P 0 (8 * (?B div 64) + 4 * (?B div 32 mod 2) + 2 * (?B div 16 mod 2)) T)"])
       (erule a_avx2_bufs, rule wr2_idem)
qed

lemma u_avx2_idem:
  "bufs (volk_32fc_x2_s32f_square_dist_scalar_mult_32f_u_avx2 scalar n (volk_32fc_x2_s32f_square_dist_scalar_mult_32f_u_avx2 scalar n st)) = bufs (volk_32fc_x2_s32f_square_dist_scalar_mult_32f_u_avx2 scalar n st)
   \<and> src0_buf (volk_32fc_x2_s32f_square_dist_scalar_mult_32f_u_avx2 scalar n st) = src0_buf st
   \<and> points_buf (volk_32fc_x2_s32f_square_dist_scalar_mult_32f_u_avx2 scalar n st) = points_buf st"
proof -
  let ?B = "unat (n * 8)"
  show ?thesis
    by (rule idem_from_bufs [where F = "\<lambda>S P T. wr (sqd_scalar (S 0) scalar) P (8 * (?B div 64) + 4 * (?B div 32 mod 2)) (?B div 8 mod 4)
            (wr (sqd_vector (S 0) scalar) P 0 (8 * (?B div 64) + 4 * (?B div 32 mod 2)) T)"])
       (erule u_avx2_bufs, rule wr2_idem)
qed

lemma a_avx_idem:
  "bufs (volk_32fc_x2_s32f_square_dist_scalar_mult_32f_a_avx junk scalar n (volk_32fc_x2_s32f_square_dist_scalar_mult_32f_a_avx junk scalar n st)) = bufs (volk_32fc_x2_s32f_square_dist_scalar_mult_32f_a_avx junk scalar n st)
   \<and> src0_buf (volk_32fc_x2_s32f_square_dist_scalar_mult_32f_a_avx junk scalar n st) = src0_buf st
   \<and> points_buf (volk_32fc_x2_s32f_square_dist_scalar_mult_32f_a_avx junk scalar n st) = points_buf st"
proof -
  let ?B = "unat (n * 8)"
  show ?thesis
    by (rule idem_from_bufs [where F = "\<lambda>S P T. wr (sqd_scalar (S 0) scalar) P (8 * (unat n div 8)) (unat n mod 8)
            (wr (sqd_vector (S 0) scalar) P 0 (8 * (unat n div 8)) T)"])
       (erule a_avx_bufs, rule wr2_idem)
qed

section \<open>The 16-QAM example\<close>

lemma const_vals_cases:
  assumes "i < 4"
  shows "const_vals ! i \<in> {- 3, - 1, 1, 3}"
  using assms by (rule nth_less_4) (simp_all add: const_vals_def)

lemma val_sqd:
  assumes e: "exact_arith fin val"
    and s: "fin sr" "val sr = 1 / 2" "fin si" "val si = 2"
    and c: "fin scalar" "val scalar = 1 / 64"
    and p: "fin pr" "val pr = x" "fin pim" "val pim = y"
    and x: "x \<in> {- 3, - 1, 1, 3}" and y: "y \<in> {- 3, - 1, 1, 3}"
  shows "fin (sqd_vector (sr, si) scalar (pr, pim))
         \<and> val (sqd_vector (sr, si) scalar (pr, pim)) = ((1 / 2 - x) ^ 2 + (2 - y) ^ 2) / 64"
    and "fin (sqd_scalar (sr, si) scalar (pr, pim))
         \<and> val (sqd_scalar (sr, si) scalar (pr, pim)) = ((1 / 2 - x) ^ 2 + (2 - y) ^ 2) / 64"
proof -
  from e have sub: "\<And>a b. fin a \<Longrightarrow> fin b \<Longrightarrow> grid (val a - val b)
        \<Longrightarrow> fin (a - b) \<and> val (a - b) = val a - val b"
    and add: "\<And>a b. fin a \<Longrightarrow> fin b \<Longrightarrow> grid (val a + val b)
        \<Longrightarrow> fin (a + b) \<and> val (a + b) = val a + val b"
    and mul: "\<And>a b. fin a \<Longrightarrow> fin b \<Longrightarrow> grid (val a * val b)
        \<Longrightarrow> fin (a * b) \<and> val (a * b) = val a * val b"
    by (simp_all add: exact_arith_def)
  have "grid (val sr - val pr)" using x by (auto simp: s p grid_def)
  from sub [OF s(1) p(1) this] have dr: "fin (sr - pr)" "val (sr - pr) = 1 / 2 - x"
    by (simp_all add: s p)
  have "grid (val si - val pim)" using y by (auto simp: s p grid_def)
  from sub [OF s(3) p(3) this] have di: "fin (si - pim)" "val (si - pim) = 2 - y"
    by (simp_all add: s p)
  have "grid (val (sr - pr) * val (sr - pr))" using x by (auto simp: dr grid_def)
  from mul [OF dr(1) dr(1) this]
  have dr2: "fin ((sr - pr) * (sr - pr))" "val ((sr - pr) * (sr - pr)) = (1 / 2 - x) ^ 2"
    by (simp_all add: dr power2_eq_square)
  have "grid (val (si - pim) * val (si - pim))" using y by (auto simp: di grid_def)
  from mul [OF di(1) di(1) this]
  have di2: "fin ((si - pim) * (si - pim))" "val ((si - pim) * (si - pim)) = (2 - y) ^ 2"
    by (simp_all add: di power2_eq_square)
  let ?d = "(sr - pr) * (sr - pr) + (si - pim) * (si - pim)"
  have "grid (val ((sr - pr) * (sr - pr)) + val ((si - pim) * (si - pim)))"
    using x y by (auto simp: dr2 di2 grid_def power2_eq_square)
  from add [OF dr2(1) di2(1) this]
  have sm: "fin ?d" "val ?d = (1 / 2 - x) ^ 2 + (2 - y) ^ 2"
    by (simp_all add: dr2 di2)
  have g: "grid (val ?d * val scalar)" "grid (val scalar * val ?d)"
    using x y by (auto simp: sm c grid_def power2_eq_square)
  from mul [OF sm(1) c(1) g(1)]
  show "fin (sqd_vector (sr, si) scalar (pr, pim))
         \<and> val (sqd_vector (sr, si) scalar (pr, pim)) = ((1 / 2 - x) ^ 2 + (2 - y) ^ 2) / 64"
    by (simp add: sqd_vector_def sm c)
  from mul [OF c(1) sm(1) g(2)]
  show "fin (sqd_scalar (sr, si) scalar (pr, pim))
         \<and> val (sqd_scalar (sr, si) scalar (pr, pim)) = ((1 / 2 - x) ^ 2 + (2 - y) ^ 2) / 64"
    by (simp add: sqd_scalar_def sm c)
qed

lemma sixteen_targets:
  fixes st :: "'f::{zero,plus,minus,times} state"
  assumes "i < 16"
  shows "target_buf (volk_32fc_x2_s32f_square_dist_scalar_mult_32f_generic scalar 16 st) i
           = sqd_scalar (src0_buf st 0) scalar (points_buf st i)"
    and "target_buf (volk_32fc_x2_s32f_square_dist_scalar_mult_32f_a_avx2 scalar 16 st) i
           = sqd_vector (src0_buf st 0) scalar (points_buf st i)"
    and "target_buf (volk_32fc_x2_s32f_square_dist_scalar_mult_32f_u_avx2 scalar 16 st) i
           = sqd_vector (src0_buf st 0) scalar (points_buf st i)"
    and "target_buf (volk_32fc_x2_s32f_square_dist_scalar_mult_32f_a_avx junk scalar 16 st) i
           = sqd_vector (src0_buf st 0) scalar (points_buf st i)"
    and "target_buf (volk_32fc_x2_s32f_square_dist_scalar_mult_32f_a_sse3 scalar 16 st) i
           = sqd_vector (src0_buf st 0) scalar (points_buf st i)"
proof -
  have B: "unat (16 * 8 :: 32 word) = 128" "unat (16 :: 32 word) = 16" by simp_all
  show "target_buf (volk_32fc_x2_s32f_square_dist_scalar_mult_32f_generic scalar 16 st) i
           = sqd_scalar (src0_buf st 0) scalar (points_buf st i)"
    using generic_bufs [OF bufs_self, of scalar 16 st] assms
    by (simp add: bufs_eq wr_def)
  show "target_buf (volk_32fc_x2_s32f_square_dist_scalar_mult_32f_a_avx2 scalar 16 st) i
           = sqd_vector (src0_buf st 0) scalar (points_buf st i)"
    using a_avx2_bufs [OF bufs_self, of scalar 16 st] assms
    by (simp add: bufs_eq wr_def B)
  show "target_buf (volk_32fc_x2_s32f_square_dist_scalar_mult_32f_u_avx2 scalar 16 st) i
           = sqd_vector (src0_buf st 0) scalar (points_buf st i)"
    using u_avx2_bufs [OF bufs_self, of scalar 16 st] assms
    by (simp add: bufs_eq wr_def B)
  show "target_buf (volk_32fc_x2_s32f_square_dist_scalar_mult_32f_a_avx junk scalar 16 st) i
           = sqd_vector (src0_buf st 0) scalar (points_buf st i)"
    using a_avx_bufs [OF bufs_self, of junk scalar 16 st] assms
    by (simp add: bufs_eq wr_def B)
  show "target_buf (volk_32fc_x2_s32f_square_dist_scalar_mult_32f_a_sse3 scalar 16 st) i
           = sqd_vector (src0_buf st 0) scalar (points_buf st i)"
    using a_sse3_bufs [OF bufs_self, of scalar 16 st] assms
    by (simp add: bufs_eq wr_def B)
qed

lemma qam16_values:
  assumes e: "exact_arith fin val" and q: "qam16 fin val st"
    and c: "fin scalar" "val scalar = 1 / 64" and i: "i < 16"
  shows "fin (sqd_vector (src0_buf st 0) scalar (points_buf st i))
         \<and> val (sqd_vector (src0_buf st 0) scalar (points_buf st i)) = expected i"
    and "fin (sqd_scalar (src0_buf st 0) scalar (points_buf st i))
         \<and> val (sqd_scalar (src0_buf st 0) scalar (points_buf st i)) = expected i"
proof -
  obtain sr si where s0: "src0_buf st 0 = (sr, si)" by (cases "src0_buf st 0")
  obtain pr pim where p: "points_buf st i = (pr, pim)" by (cases "points_buf st i")
  from q s0 have s: "fin sr" "val sr = 1 / 2" "fin si" "val si = 2"
    by (simp_all add: qam16_def)
  from q i p have pv: "fin pr" "val pr = const_vals ! (i mod 4)"
    "fin pim" "val pim = const_vals ! (i div 4)"
    by (auto simp: qam16_def)
  have x: "const_vals ! (i mod 4) \<in> {- 3, - 1, 1, 3}" by (rule const_vals_cases) simp
  have y: "const_vals ! (i div 4) \<in> {- 3, - 1, 1, 3}" using i by (intro const_vals_cases) simp
  show "fin (sqd_vector (src0_buf st 0) scalar (points_buf st i))
         \<and> val (sqd_vector (src0_buf st 0) scalar (points_buf st i)) = expected i"
    unfolding s0 p expected_def by (rule val_sqd(1) [OF e s c pv x y])
  show "fin (sqd_scalar (src0_buf st 0) scalar (points_buf st i))
         \<and> val (sqd_scalar (src0_buf st 0) scalar (points_buf st i)) = expected i"
    unfolding s0 p expected_def by (rule val_sqd(2) [OF e s c pv x y])
qed

lemma scalar_result_cong_max:
  assumes "\<forall>k<max 1 N. s' k = s k"
  shows "scalar_result s' N = scalar_result s N"
proof (cases "N = 0")
  case True
  then show ?thesis by (simp add: scalar_result_def tail_loop.simps [of _ 0 "Suc 0"])
next
  case False
  then have "0 < N" "max 1 N = N" by simp_all
  with assms show ?thesis by (intro scalar_result_cong) simp_all
qed

lemma round_even_of_int: "round_even (of_int n) = n"
  by (simp add: round_even_def)

lemma round24_grid:
  assumes "grid q"
  shows "round24 q = q"
proof (cases "q = 0")
  case True
  then show ?thesis by (simp add: round24_def)
next
  case False
  define e where "e = \<lfloor>log 2 (real_of_rat \<bar>q\<bar>)\<rfloor>"
  from assms obtain k :: int where k: "q * 256 = of_int k"
    by (auto simp: grid_def elim: Ints_cases)
  from assms have "\<bar>q\<bar> * 256 < 2 ^ 24" by (simp add: grid_def abs_mult)
  then have "\<bar>q\<bar> < 2 ^ 16" by simp
  then have "real_of_rat \<bar>q\<bar> < real_of_rat (2 ^ 16)" by (simp only: of_rat_less)
  then have b: "real_of_rat \<bar>q\<bar> < 2 powr 16" by simp
  from False have pos: "0 < real_of_rat \<bar>q\<bar>" by simp
  from b pos have "log 2 (real_of_rat \<bar>q\<bar>) < 16"
    by (simp add: log_less_iff)
  then have e: "e \<le> 15" unfolding e_def by linarith
  define n where "n = nat (15 - e)"
  from e have n: "15 - e = int n" by (simp add: n_def)
  have two: "(2 :: rat) \<noteq> 0" by simp
  have "23 - e = 8 + int n" using n by simp
  then have "(2 :: rat) powi (23 - e) = 2 powi 8 * 2 powi int n"
    by (simp only: power_int_add [OF disjI1 [OF two]])
  also have "\<dots> = 256 * 2 ^ n" by (simp add: power_int_def)
  finally have up: "(2 :: rat) powi (23 - e) = 256 * 2 ^ n" .
  have "e - 23 = - (8 + int n)" using n by simp
  then have "(2 :: rat) powi (e - 23) = inverse (2 powi (8 + int n))"
    by (simp only: power_int_minus)
  also have "2 powi (8 + int n) = (2 :: rat) powi 8 * 2 powi int n"
    by (simp only: power_int_add [OF disjI1 [OF two]])
  also have "\<dots> = 256 * 2 ^ n" by (simp add: power_int_def)
  finally have down: "(2 :: rat) powi (e - 23) = inverse (256 * 2 ^ n)" .
  have "q * 2 powi (23 - e) = of_int (k * 2 ^ n)"
    using k by (simp add: up mult.assoc [symmetric])
  then have "round_even (q * 2 powi (23 - e)) = k * 2 ^ n"
    by (simp only: round_even_of_int)
  then have "round24 q = of_int (k * 2 ^ n) * inverse (256 * 2 ^ n)"
    using False by (simp add: round24_def e_def [symmetric] down)
  also have "\<dots> = of_int k / 256" by (simp add: field_simps)
  also have "\<dots> = q" using k by simp
  finally show ?thesis .
qed

lemma exact_arith_xfloat: "exact_arith xfin xval"
proof -
  have "xfin (a - b) \<and> xval (a - b) = xval a - xval b"
    if "xfin a" "xfin b" "grid (xval a - xval b)" for a b
    using that by (cases a; cases b) (simp_all add: minus_xfloat_def round24_grid)
  moreover have "xfin (a + b) \<and> xval (a + b) = xval a + xval b"
    if "xfin a" "xfin b" "grid (xval a + xval b)" for a b
    using that by (cases a; cases b) (simp_all add: plus_xfloat_def round24_grid)
  moreover have "xfin (a * b) \<and> xval (a * b) = xval a * xval b"
    if "xfin a" "xfin b" "grid (xval a * xval b)" for a b
    using that by (cases a; cases b) (simp_all add: times_xfloat_def round24_grid)
  ultimately show ?thesis by (simp add: exact_arith_def)
qed

text \<open>
  The arithmetic \<open>xfloat\<close> propagates its NaN, and it rounds: \<open>2^24 + 1\<close> is not
  representable with 24 bits, and the sum is \<open>2^24\<close>.
\<close>

lemma xfloat_nan_propagates:
  "NaN + b = NaN" "a + NaN = NaN" "NaN - b = NaN" "a - NaN = NaN" "NaN * b = NaN" "a * NaN = NaN"
  by (simp_all add: plus_xfloat_def minus_xfloat_def times_xfloat_def split: xfloat.split)

lemma xfloat_rounds: "Finite 16777216 + Finite 1 = Finite 16777216"
proof -
  have "(2 :: real) powr 24 \<le> 16777217" "(16777217 :: real) < 2 powr 25" by simp_all
  then have "24 \<le> log 2 16777217" "log 2 16777217 < 25"
    by (simp_all add: le_log_iff log_less_iff)
  then have e: "\<lfloor>log 2 (16777217 :: real)\<rfloor> = 24" by linarith
  have f: "\<lfloor>16777217 / 2 :: rat\<rfloor> = 8388608" by (simp add: floor_eq_iff)
  have r: "round_even (16777217 / 2) = 8388608"
    by (simp add: round_even_def Let_def f)
  show ?thesis
    by (simp add: plus_xfloat_def round24_def e r power_int_def)
qed

lemma qam16_state_ok: "qam16 xfin xval qam16_state"
  by (simp add: qam16_def qam16_state_def)

lemma int_mult_commute: "\<forall>a b :: int. a * b = b * a"
  by (simp add: mult.commute)


section \<open>Accesses of the square-distance kernels for one point\<close>

text \<open>
  With \<open>num_points = 1\<close> the generic kernel and the AVX kernel load \<open>points[0]\<close> and
  store \<open>target[0]\<close>, nothing else. The AVX2 kernels store \<open>target[0]\<close> only, but load
  the eight elements \<open>points[0..7]\<close> into registers before their loop.
\<close>

lemma generic_one_point_accesses:
  "stores (volk_32fc_x2_s32f_square_dist_scalar_mult_32f_generic scalar 1 st) = stores st @ [0]
   \<and> loads (volk_32fc_x2_s32f_square_dist_scalar_mult_32f_generic scalar 1 st) = loads st @ [0]"
  by (simp add: volk_32fc_x2_s32f_square_dist_scalar_mult_32f_generic_def Let_def
      load_points_def store_target_def calculate_scaled_distances_def
      calculate_scaled_distances_body_def upt_rec split_beta)

lemma a_avx_one_point_accesses:
  "stores (volk_32fc_x2_s32f_square_dist_scalar_mult_32f_a_avx junk scalar 1 st) = stores st @ [0]
   \<and> loads (volk_32fc_x2_s32f_square_dist_scalar_mult_32f_a_avx junk scalar 1 st) = loads st @ [0]"
  by (simp add: volk_32fc_x2_s32f_square_dist_scalar_mult_32f_a_avx_def Let_def
      a_avx_loop_sq.simps [of _ _ 0 0]
      load_points_def store_target_def calculate_scaled_distances_def
      calculate_scaled_distances_body_def upt_rec split_beta)

lemma a_avx2_one_point_accesses:
  "stores (volk_32fc_x2_s32f_square_dist_scalar_mult_32f_a_avx2 scalar 1 st) = stores st @ [0]
   \<and> loads (volk_32fc_x2_s32f_square_dist_scalar_mult_32f_a_avx2 scalar 1 st)
       = loads st @ [0, 1, 2, 3, 4, 5, 6, 7, 0]"
  by (simp add: volk_32fc_x2_s32f_square_dist_scalar_mult_32f_a_avx2_def Let_def
      mm256_load_ps_at_def load_points_def store_target_def calculate_scaled_distances_def
      calculate_scaled_distances_body_def upt_rec split_beta)

lemma generic_zero_points_accesses:
  "stores (volk_32fc_x2_s32f_square_dist_scalar_mult_32f_generic scalar 0 st) = stores st
   \<and> loads (volk_32fc_x2_s32f_square_dist_scalar_mult_32f_generic scalar 0 st) = loads st"
  by (simp add: volk_32fc_x2_s32f_square_dist_scalar_mult_32f_generic_def Let_def
      calculate_scaled_distances_def)

lemma a_avx2_zero_points_accesses:
  "stores (volk_32fc_x2_s32f_square_dist_scalar_mult_32f_a_avx2 scalar 0 st) = stores st
   \<and> loads (volk_32fc_x2_s32f_square_dist_scalar_mult_32f_a_avx2 scalar 0 st)
       = loads st @ [0, 1, 2, 3, 4, 5, 6, 7]"
  by (simp add: volk_32fc_x2_s32f_square_dist_scalar_mult_32f_a_avx2_def Let_def
      mm256_load_ps_at_def load_points_def calculate_scaled_distances_def upt_rec split_beta)

section \<open>The kernels on one memory\<close>

text \<open>
  On the memory \<open>adjacent_mem\<close> the generic kernel writes \<open>target[0]\<close> and nothing
  else, and a second call leaves the memory as the first one left it. The SSE3 kernel
  writes the five floats from \<open>target\<close> on; whatever the arithmetic and the memory,
  with \<open>points\<close> 16 bytes behind \<open>target\<close> the fifth of them replaces the real
  part of \<open>points[0]\<close> by the scaled distance of the symbol from \<open>points[4]\<close>.
  Where the buffers lie far apart, the model on one memory and the model on separate
  buffers leave the same values in \<open>target\<close>.
\<close>

lemma generic_mem_one_point:
  "map (volk_32fc_x2_s32f_square_dist_scalar_mult_32f_generic_mem 0 16 4 2 1 adjacent_mem) [0..<18]
     = [16, 0, 0, 0, 3, 4, 0, 0, 0, 0, 0, 0, 0, 0, 0, 0, 1, 2]
   \<and> map (volk_32fc_x2_s32f_square_dist_scalar_mult_32f_generic_mem 0 16 4 2 1
            (volk_32fc_x2_s32f_square_dist_scalar_mult_32f_generic_mem 0 16 4 2 1 adjacent_mem)) [0..<18]
     = [16, 0, 0, 0, 3, 4, 0, 0, 0, 0, 0, 0, 0, 0, 0, 0, 1, 2]"
  by code_simp

lemma a_sse3_mem_one_point:
  "map adjacent_mem [0..<18]
     = [0, 0, 0, 0, 3, 4, 0, 0, 0, 0, 0, 0, 0, 0, 0, 0, 1, 2]
   \<and> map (volk_32fc_x2_s32f_square_dist_scalar_mult_32f_a_sse3_mem 0 16 4 2 1 adjacent_mem) [0..<18]
     = [16, 10, 10, 10, 10, 4, 0, 0, 0, 0, 0, 0, 0, 0, 0, 0, 1, 2]"
  by code_simp

lemma a_sse3_mem_overwrites:
  fixes mem :: "nat \<Rightarrow> 'f::{zero,plus,minus,times}"
  shows "volk_32fc_x2_s32f_square_dist_scalar_mult_32f_a_sse3_mem t (t + 16) (t + 4) scalar 1 mem (t + 4)
     = scalar * ((mem (t + 16) - mem (t + 12)) * (mem (t + 16) - mem (t + 12))
                 + (mem (t + 17) - mem (t + 13)) * (mem (t + 17) - mem (t + 13)))"
  by (simp add: volk_32fc_x2_s32f_square_dist_scalar_mult_32f_a_sse3_mem_def Let_def
      mm_load_ps_def mm_store_ps_mem_def calculate_scaled_distances_mem_def
      calculate_scaled_distances_body_mem_def mm_mul_ps_def mm_hadd_ps_def mm_sub_ps_def
      mm_load1_ps_def mm_setzero_ps_def mm_loadl_pi_def mm_movelh_ps_def upt_rec split_beta)
     (simp add: add.commute)

lemma a_sse3_models_agree_example:
  "map (volk_32fc_x2_s32f_square_dist_scalar_mult_32f_a_sse3_mem 0 100 200 2 7
          (\<lambda>a. if a = 100 then 1 else if a = 101 then 2
                else if 200 \<le> a then (if even a then int ((a - 200) div 2) else 3) else 0))
       [0..<8]
   = map (target_buf (volk_32fc_x2_s32f_square_dist_scalar_mult_32f_a_sse3 2 7 int_state)) [0..<8]"
  by code_simp

section \<open>The claims\<close>

text \<open>
  C1. For every content of the source buffer and every \<open>num_points \<ge> 1\<close>, each SIMD
  variant of the index-of-minimum kernel (\<open>a_avx\<close>, \<open>a_sse4_1\<close>, \<open>a_sse\<close>,
  \<open>u_avx\<close>) stores into \<open>target[0]\<close> exactly the 16-bit index that the generic variant
  stores on the same input.
\<close>

theorem index_min_simd_equals_generic:
  assumes "1 \<le> num_points"
  shows "volk_32f_index_min_16u_a_avx source num_points
           = volk_32f_index_min_16u_generic source num_points
       \<and> volk_32f_index_min_16u_a_sse4_1 source num_points
           = volk_32f_index_min_16u_generic source num_points
       \<and> volk_32f_index_min_16u_a_sse source num_points
           = volk_32f_index_min_16u_generic source num_points
       \<and> volk_32f_index_min_16u_u_avx source num_points
           = volk_32f_index_min_16u_generic source num_points"
  by (simp add: variants_scalar)

theorem index_min_simd_equals_generic_witness:
  "(1 :: 32 word) \<le> 9
   \<and> volk_32f_index_min_16u_a_avx
        (buf [0x40A00000, 0x40000000, 0x40000000, 0x40E00000, 0x40A00000, 0x40000000,
              0xBF800000, 0x40E00000, 0xBF800000]) 9
      = volk_32f_index_min_16u_generic
        (buf [0x40A00000, 0x40000000, 0x40000000, 0x40E00000, 0x40A00000, 0x40000000,
              0xBF800000, 0x40E00000, 0xBF800000]) 9
   \<and> volk_32f_index_min_16u_a_sse4_1
        (buf [0x40A00000, 0x40000000, 0x40000000, 0x40E00000, 0x40A00000, 0x40000000,
              0xBF800000, 0x40E00000, 0xBF800000]) 9
      = volk_32f_index_min_16u_generic
        (buf [0x40A00000, 0x40000000, 0x40000000, 0x40E00000, 0x40A00000, 0x40000000,
              0xBF800000, 0x40E00000, 0xBF800000]) 9
   \<and> volk_32f_index_min_16u_a_sse
        (buf [0x40A00000, 0x40000000, 0x40000000, 0x40E00000, 0x40A00000, 0x40000000,
              0xBF800000, 0x40E00000, 0xBF800000]) 9
      = volk_32f_index_min_16u_generic
        (buf [0x40A00000, 0x40000000, 0x40000000, 0x40E00000, 0x40A00000, 0x40000000,
              0xBF800000, 0x40E00000, 0xBF800000]) 9
   \<and> volk_32f_index_min_16u_u_avx
        (buf [0x40A00000, 0x40000000, 0x40000000, 0x40E00000, 0x40A00000, 0x40000000,
              0xBF800000, 0x40E00000, 0xBF800000]) 9
      = volk_32f_index_min_16u_generic
        (buf [0x40A00000, 0x40000000, 0x40000000, 0x40E00000, 0x40A00000, 0x40000000,
              0xBF800000, 0x40E00000, 0xBF800000]) 9"
proof -
  have h: "(1 :: 32 word) \<le> 9" by simp
  show ?thesis
    using h index_min_simd_equals_generic [OF h,
        of "buf [0x40A00000, 0x40000000, 0x40000000, 0x40E00000, 0x40A00000, 0x40000000,
                 0xBF800000, 0x40E00000, 0xBF800000]"]
    by simp
qed

text \<open>
  C2 (amended). The claim is that, whenever the minimum occurs at more than one index of
  the effective range, every variant stores the lowest such index. The kernels find the
  minimum with the comparison \<open><\<close>, which is false as soon as one operand is a NaN, and
  start from \<open>source[0]\<close>: a NaN there is never replaced (the counterexample below).
  What holds is this, for every \<open>num_points \<ge> 1\<close>. When \<open>source[0]\<close> is a NaN,
  every variant stores 0. When it is not, the index \<open>r\<close> that a variant stores is the
  one index below \<open>min(num_points, USHRT_MAX)\<close> such that \<open>source[r]\<close> is a number,
  no element of that range compares less than \<open>source[r]\<close>, and no element before
  \<open>r\<close> compares equal to it: on equal values the lowest index wins, the NaNs behind
  element 0 being passed over. On the input \<open>[5, 2, 2, 7]\<close> with \<open>num_points = 4\<close>
  (the patterns of \<open>5.0f\<close>, \<open>2.0f\<close>, \<open>7.0f\<close> are \<open>0x40A00000\<close>,
  \<open>0x40000000\<close>, \<open>0x40E00000\<close>) every variant stores 1, and on \<open>[NaN, 2, 2, 7]\<close>
  every variant stores 0, as the second theorem computes.
\<close>

theorem index_min_lowest_index_wins:
  assumes "1 \<le> num_points"
  shows "(isnan (source 0) \<longrightarrow>
            volk_32f_index_min_16u_generic source num_points = 0
          \<and> volk_32f_index_min_16u_a_avx source num_points = 0
          \<and> volk_32f_index_min_16u_a_sse4_1 source num_points = 0
          \<and> volk_32f_index_min_16u_a_sse source num_points = 0
          \<and> volk_32f_index_min_16u_u_avx source num_points = 0)
       \<and> (\<not> isnan (source 0) \<longrightarrow>
            (lowest_min_index source (min (unat num_points) 65535) r
               \<longleftrightarrow> r = unat (volk_32f_index_min_16u_generic source num_points))
          \<and> (lowest_min_index source (min (unat num_points) 65535) r
               \<longleftrightarrow> r = unat (volk_32f_index_min_16u_a_avx source num_points))
          \<and> (lowest_min_index source (min (unat num_points) 65535) r
               \<longleftrightarrow> r = unat (volk_32f_index_min_16u_a_sse4_1 source num_points))
          \<and> (lowest_min_index source (min (unat num_points) 65535) r
               \<longleftrightarrow> r = unat (volk_32f_index_min_16u_a_sse source num_points))
          \<and> (lowest_min_index source (min (unat num_points) 65535) r
               \<longleftrightarrow> r = unat (volk_32f_index_min_16u_u_avx source num_points)))"
proof (rule conjI; rule impI)
  assume "isnan (source 0)"
  then show "volk_32f_index_min_16u_generic source num_points = 0
          \<and> volk_32f_index_min_16u_a_avx source num_points = 0
          \<and> volk_32f_index_min_16u_a_sse4_1 source num_points = 0
          \<and> volk_32f_index_min_16u_a_sse source num_points = 0
          \<and> volk_32f_index_min_16u_u_avx source num_points = 0"
    by (simp add: index_min_nan_first)
next
  assume s: "\<not> isnan (source 0)"
  from assms have "1 \<le> unat num_points" by (simp add: word_le_nat_alt)
  then have n: "0 < min (unat num_points) 65535" "min (unat num_points) 65535 \<le> 65535"
    by simp_all
  show "(lowest_min_index source (min (unat num_points) 65535) r
               \<longleftrightarrow> r = unat (volk_32f_index_min_16u_generic source num_points))
          \<and> (lowest_min_index source (min (unat num_points) 65535) r
               \<longleftrightarrow> r = unat (volk_32f_index_min_16u_a_avx source num_points))
          \<and> (lowest_min_index source (min (unat num_points) 65535) r
               \<longleftrightarrow> r = unat (volk_32f_index_min_16u_a_sse4_1 source num_points))
          \<and> (lowest_min_index source (min (unat num_points) 65535) r
               \<longleftrightarrow> r = unat (volk_32f_index_min_16u_a_sse source num_points))
          \<and> (lowest_min_index source (min (unat num_points) 65535) r
               \<longleftrightarrow> r = unat (volk_32f_index_min_16u_u_avx source num_points))"
    by (simp only: variants_scalar
        lowest_min_index_iff [of source "min (unat num_points) 65535", OF s n])
qed

theorem index_min_lowest_index_wins_witness:
  "(1 :: 32 word) \<le> 4
   \<and> \<not> isnan (buf [0x40A00000, 0x40000000, 0x40000000, 0x40E00000] 0)
   \<and> lowest_min_index (buf [0x40A00000, 0x40000000, 0x40000000, 0x40E00000]) 4 1
   \<and> feq (buf [0x40A00000, 0x40000000, 0x40000000, 0x40E00000] 2)
          (buf [0x40A00000, 0x40000000, 0x40000000, 0x40E00000] 1)
   \<and> volk_32f_index_min_16u_generic (buf [0x40A00000, 0x40000000, 0x40000000, 0x40E00000]) 4 = 1
   \<and> volk_32f_index_min_16u_a_avx (buf [0x40A00000, 0x40000000, 0x40000000, 0x40E00000]) 4 = 1
   \<and> volk_32f_index_min_16u_a_sse4_1 (buf [0x40A00000, 0x40000000, 0x40000000, 0x40E00000]) 4 = 1
   \<and> volk_32f_index_min_16u_a_sse (buf [0x40A00000, 0x40000000, 0x40000000, 0x40E00000]) 4 = 1
   \<and> volk_32f_index_min_16u_u_avx (buf [0x40A00000, 0x40000000, 0x40000000, 0x40E00000]) 4 = 1
   \<and> isnan (buf [0x7FC00000, 0x40000000, 0x40000000, 0x40E00000] 0)
   \<and> volk_32f_index_min_16u_generic (buf [0x7FC00000, 0x40000000, 0x40000000, 0x40E00000]) 4 = 0
   \<and> volk_32f_index_min_16u_a_avx (buf [0x7FC00000, 0x40000000, 0x40000000, 0x40E00000]) 4 = 0
   \<and> volk_32f_index_min_16u_a_sse4_1 (buf [0x7FC00000, 0x40000000, 0x40000000, 0x40E00000]) 4 = 0
   \<and> volk_32f_index_min_16u_a_sse (buf [0x7FC00000, 0x40000000, 0x40000000, 0x40E00000]) 4 = 0
   \<and> volk_32f_index_min_16u_u_avx (buf [0x7FC00000, 0x40000000, 0x40000000, 0x40E00000]) 4 = 0"
proof -
  let ?s = "buf [0x40A00000, 0x40000000, 0x40000000, 0x40E00000] :: nat \<Rightarrow> float"
  let ?n = "buf [0x7FC00000, 0x40000000, 0x40000000, 0x40E00000] :: nat \<Rightarrow> float"
  have h: "(1 :: 32 word) \<le> 4" by simp
  have n: "\<not> isnan (?s 0)" by code_simp
  have g: "volk_32f_index_min_16u_generic ?s 4 = 1" by code_simp
  have a: "volk_32f_index_min_16u_a_avx ?s 4 = 1" by code_simp
  have b: "volk_32f_index_min_16u_a_sse4_1 ?s 4 = 1" by code_simp
  have c: "volk_32f_index_min_16u_a_sse ?s 4 = 1" by code_simp
  have d: "volk_32f_index_min_16u_u_avx ?s 4 = 1" by code_simp
  have e: "feq (?s 2) (?s 1)" by code_simp
  have m: "isnan (?n 0)" by code_simp
  from index_min_lowest_index_wins [of 4 ?s 1, OF h] n have l: "lowest_min_index ?s 4 1"
    by (simp add: g)
  from index_min_lowest_index_wins [of 4 ?n, OF h] m
  have z: "volk_32f_index_min_16u_generic ?n 4 = 0" "volk_32f_index_min_16u_a_avx ?n 4 = 0"
    "volk_32f_index_min_16u_a_sse4_1 ?n 4 = 0" "volk_32f_index_min_16u_a_sse ?n 4 = 0"
    "volk_32f_index_min_16u_u_avx ?n 4 = 0"
    by blast+
  from h n l e g a b c d m z show ?thesis by simp
qed

text \<open>
  C2, the counterexample to the claim as stated. The buffer holds a NaN (\<open>0x7FC00000\<close>)
  followed by \<open>-1, -1, 7, 5, 2, 2, 7, -1\<close>, and \<open>num_points = 9\<close>. The minimum
  \<open>-1\<close> occurs at the indices 1, 2 and 8, and 1 is the lowest index of the minimum;
  every variant stores 0, the index of the NaN.
\<close>

theorem index_min_nan_first_counterexample:
  "isnan (buf [0x7FC00000, 0xBF800000, 0xBF800000, 0x40E00000, 0x40A00000, 0x40000000, 0x40000000, 0x40E00000, 0xBF800000] 0)
   \<and> feq (buf [0x7FC00000, 0xBF800000, 0xBF800000, 0x40E00000, 0x40A00000, 0x40000000, 0x40000000, 0x40E00000, 0xBF800000] 2)
          (buf [0x7FC00000, 0xBF800000, 0xBF800000, 0x40E00000, 0x40A00000, 0x40000000, 0x40000000, 0x40E00000, 0xBF800000] 1)
   \<and> lowest_min_index (buf [0x7FC00000, 0xBF800000, 0xBF800000, 0x40E00000, 0x40A00000, 0x40000000, 0x40000000, 0x40E00000, 0xBF800000]) 9 1
   \<and> \<not> lowest_min_index (buf [0x7FC00000, 0xBF800000, 0xBF800000, 0x40E00000, 0x40A00000, 0x40000000, 0x40000000, 0x40E00000, 0xBF800000]) 9 0
   \<and> volk_32f_index_min_16u_generic (buf [0x7FC00000, 0xBF800000, 0xBF800000, 0x40E00000, 0x40A00000, 0x40000000, 0x40000000, 0x40E00000, 0xBF800000]) 9 = 0
   \<and> volk_32f_index_min_16u_a_avx (buf [0x7FC00000, 0xBF800000, 0xBF800000, 0x40E00000, 0x40A00000, 0x40000000, 0x40000000, 0x40E00000, 0xBF800000]) 9 = 0
   \<and> volk_32f_index_min_16u_a_sse4_1 (buf [0x7FC00000, 0xBF800000, 0xBF800000, 0x40E00000, 0x40A00000, 0x40000000, 0x40000000, 0x40E00000, 0xBF800000]) 9 = 0
   \<and> volk_32f_index_min_16u_a_sse (buf [0x7FC00000, 0xBF800000, 0xBF800000, 0x40E00000, 0x40A00000, 0x40000000, 0x40000000, 0x40E00000, 0xBF800000]) 9 = 0
   \<and> volk_32f_index_min_16u_u_avx (buf [0x7FC00000, 0xBF800000, 0xBF800000, 0x40E00000, 0x40A00000, 0x40000000, 0x40000000, 0x40E00000, 0xBF800000]) 9 = 0"
proof -
  let ?s = "buf [0x7FC00000, 0xBF800000, 0xBF800000, 0x40E00000, 0x40A00000, 0x40000000, 0x40000000, 0x40E00000, 0xBF800000] :: nat \<Rightarrow> float"
  have n: "isnan (?s 0)" by code_simp
  have e: "feq (?s 2) (?s 1)" by code_simp
  have z: "volk_32f_index_min_16u_generic ?s 9 = 0" "volk_32f_index_min_16u_a_avx ?s 9 = 0"
    "volk_32f_index_min_16u_a_sse4_1 ?s 9 = 0" "volk_32f_index_min_16u_a_sse ?s 9 = 0"
    "volk_32f_index_min_16u_u_avx ?s 9 = 0"
    by (rule index_min_nan_first [of ?s, OF n])+
  have "list_all (\<lambda>i. \<not> flt (?s i) (?s 1)) [0..<9]" by code_simp
  then have f: "\<forall>i<9. \<not> flt (?s i) (?s 1)"
    by (simp only: list_all_iff set_upt atLeastLessThan_iff) simp
  have "list_all (\<lambda>i. \<not> feq (?s i) (?s 1)) [0..<1]" by code_simp
  then have q: "\<forall>i<1. \<not> feq (?s i) (?s 1)"
    by (simp only: list_all_iff set_upt atLeastLessThan_iff) simp
  have k: "\<not> isnan (?s 1)" by code_simp
  have l: "lowest_min_index ?s 9 1"
    unfolding lowest_min_index_def using f q k by simp
  have m: "\<not> lowest_min_index ?s 9 0"
    using n by (simp add: lowest_min_index_def)
  from n e l m z show ?thesis by simp
qed

text \<open>
  C3 (the code does not do this). The claim is that no kernel touches a buffer element
  outside \<open>[0, num_points)\<close>, the SSE3 square-distance kernel with \<open>num_points < 4\<close>
  included. The kernel runs the last vector iteration unconditionally, after a loop of
  \<open>bound - 1\<close> iterations: called with \<open>num_points = 1\<close> it loads the elements 0 to 4
  of \<open>points\<close> and stores into the elements 0 to 4 of \<open>target\<close>.
\<close>

theorem a_sse3_one_point_accesses:
  "stores (volk_32fc_x2_s32f_square_dist_scalar_mult_32f_a_sse3 scalar 1 st)
     = stores st @ [0, 1, 2, 3, 4]
   \<and> loads (volk_32fc_x2_s32f_square_dist_scalar_mult_32f_a_sse3 scalar 1 st)
     = loads st @ [0, 1, 2, 3, 4]"
  by (simp add: volk_32fc_x2_s32f_square_dist_scalar_mult_32f_a_sse3_def Let_def
      mm_load_ps_at_def mm_store_ps_at_def load_points_def store_target_def
      calculate_scaled_distances_def calculate_scaled_distances_body_def
      mm_mul_ps_def mm_hadd_ps_def mm_sub_ps_def mm_load1_ps_def mm_setzero_ps_def
      mm_loadl_pi_def mm_movelh_ps_def upt_rec split_beta)

text \<open>
  C4 (the code does not do this). The claim is that a call with \<open>num_points = 0\<close>
  touches no buffer element. The SSE3 square-distance kernel called with
  \<open>num_points = 0\<close> loads the elements 0 to 3 of \<open>points\<close> and stores into the
  elements 0 to 3 of \<open>target\<close>: the same unguarded iteration as in C3.
\<close>

theorem a_sse3_zero_points_accesses:
  "stores (volk_32fc_x2_s32f_square_dist_scalar_mult_32f_a_sse3 scalar 0 st)
     = stores st @ [0, 1, 2, 3]
   \<and> loads (volk_32fc_x2_s32f_square_dist_scalar_mult_32f_a_sse3 scalar 0 st)
     = loads st @ [0, 1, 2, 3]"
  by (simp add: volk_32fc_x2_s32f_square_dist_scalar_mult_32f_a_sse3_def Let_def
      mm_load_ps_at_def mm_store_ps_at_def load_points_def store_target_def
      calculate_scaled_distances_def calculate_scaled_distances_body_def
      mm_mul_ps_def mm_hadd_ps_def mm_sub_ps_def mm_load1_ps_def mm_setzero_ps_def
      mm_loadl_pi_def mm_movelh_ps_def upt_rec split_beta)

text \<open>
  C5. For every variant and every \<open>num_points\<close> above \<open>USHRT_MAX\<close>, the value stored
  into \<open>target[0]\<close> is the value the same variant stores for \<open>num_points = USHRT_MAX\<close>,
  and it is the same for any two buffers that agree on the indices below \<open>USHRT_MAX\<close>:
  the elements at or beyond the clamp do not influence the output.
\<close>

theorem index_min_clamp:
  assumes "USHRT_MAX < num_points" and "\<forall>i<65535. source' i = source i"
  shows "volk_32f_index_min_16u_generic source' num_points
           = volk_32f_index_min_16u_generic source USHRT_MAX
       \<and> volk_32f_index_min_16u_a_avx source' num_points
           = volk_32f_index_min_16u_a_avx source USHRT_MAX
       \<and> volk_32f_index_min_16u_a_sse4_1 source' num_points
           = volk_32f_index_min_16u_a_sse4_1 source USHRT_MAX
       \<and> volk_32f_index_min_16u_a_sse source' num_points
           = volk_32f_index_min_16u_a_sse source USHRT_MAX
       \<and> volk_32f_index_min_16u_u_avx source' num_points
           = volk_32f_index_min_16u_u_avx source USHRT_MAX"
proof -
  from assms(1) have "65535 < unat num_points"
    by (simp add: USHRT_MAX_def word_less_nat_alt)
  then have n: "min (unat num_points) 65535 = 65535" by simp
  have m: "min (unat USHRT_MAX) 65535 = 65535" by (simp add: USHRT_MAX_def)
  have "scalar_result source' 65535 = scalar_result source 65535"
    by (rule scalar_result_cong) (simp_all add: assms(2))
  then show ?thesis by (simp add: variants_scalar n m)
qed

theorem index_min_clamp_witness:
  "USHRT_MAX < 70000
   \<and> volk_32f_index_min_16u_generic
        (\<lambda>i. if i < 65535 then buf [0x40A00000, 0x40000000] i else 0xBF800000) 70000
      = volk_32f_index_min_16u_generic (buf [0x40A00000, 0x40000000]) USHRT_MAX
   \<and> volk_32f_index_min_16u_a_avx
        (\<lambda>i. if i < 65535 then buf [0x40A00000, 0x40000000] i else 0xBF800000) 70000
      = volk_32f_index_min_16u_a_avx (buf [0x40A00000, 0x40000000]) USHRT_MAX
   \<and> volk_32f_index_min_16u_a_sse4_1
        (\<lambda>i. if i < 65535 then buf [0x40A00000, 0x40000000] i else 0xBF800000) 70000
      = volk_32f_index_min_16u_a_sse4_1 (buf [0x40A00000, 0x40000000]) USHRT_MAX
   \<and> volk_32f_index_min_16u_a_sse
        (\<lambda>i. if i < 65535 then buf [0x40A00000, 0x40000000] i else 0xBF800000) 70000
      = volk_32f_index_min_16u_a_sse (buf [0x40A00000, 0x40000000]) USHRT_MAX
   \<and> volk_32f_index_min_16u_u_avx
        (\<lambda>i. if i < 65535 then buf [0x40A00000, 0x40000000] i else 0xBF800000) 70000
      = volk_32f_index_min_16u_u_avx (buf [0x40A00000, 0x40000000]) USHRT_MAX"
proof -
  have h1: "USHRT_MAX < 70000" by (simp add: USHRT_MAX_def)
  have h2: "\<forall>i<65535. (\<lambda>i. if i < 65535 then buf [0x40A00000, 0x40000000] i else 0xBF800000) i
                  = buf [0x40A00000, 0x40000000 :: float] i" by simp
  from index_min_clamp [OF h1 h2] h1 show ?thesis by simp
qed

text \<open>
  C6. For the received symbol \<open>(0.5, 2)\<close>, the 16 constellation points with coordinates
  in \<open>{-3, -1, 1, 3}\<close>, \<open>scalar = 1/64\<close> and \<open>num_points = 16\<close>, the generic
  variant and each of the variants \<open>a_avx2\<close>, \<open>u_avx2\<close>, \<open>a_avx\<close>, \<open>a_sse3\<close>
  leave in \<open>target[i]\<close>, for every \<open>i < 16\<close>, a finite float whose value is within
  \<open>1e-5\<close> of \<open>((0.5 - re_i)^2 + (2 - im_i)^2) / 64\<close> (it is that number exactly),
  for every float arithmetic that is exact on finite operands where the exact result is
  representable, whatever it does with a NaN or an infinity, and whatever the memory
  around the 16 points holds. The second theorem runs the example in a binary arithmetic
  with a significand of 24 bits and a NaN, the memory around the buffers filled with
  NaNs.
\<close>

theorem qam16_scaled_distances:
  fixes val :: "'f::{zero,plus,minus,times} \<Rightarrow> rat"
  assumes "exact_arith fin val" and "qam16 fin val st"
    and "fin scalar" and "val scalar = 1 / 64" and "i < 16"
  shows "fin (target_buf (volk_32fc_x2_s32f_square_dist_scalar_mult_32f_generic scalar 16 st) i)
   \<and> \<bar>val (target_buf (volk_32fc_x2_s32f_square_dist_scalar_mult_32f_generic scalar 16 st) i) - expected i\<bar> \<le> 1 / 100000
   \<and> fin (target_buf (volk_32fc_x2_s32f_square_dist_scalar_mult_32f_a_avx2 scalar 16 st) i)
   \<and> \<bar>val (target_buf (volk_32fc_x2_s32f_square_dist_scalar_mult_32f_a_avx2 scalar 16 st) i) - expected i\<bar> \<le> 1 / 100000
   \<and> fin (target_buf (volk_32fc_x2_s32f_square_dist_scalar_mult_32f_u_avx2 scalar 16 st) i)
   \<and> \<bar>val (target_buf (volk_32fc_x2_s32f_square_dist_scalar_mult_32f_u_avx2 scalar 16 st) i) - expected i\<bar> \<le> 1 / 100000
   \<and> fin (target_buf (volk_32fc_x2_s32f_square_dist_scalar_mult_32f_a_avx junk scalar 16 st) i)
   \<and> \<bar>val (target_buf (volk_32fc_x2_s32f_square_dist_scalar_mult_32f_a_avx junk scalar 16 st) i) - expected i\<bar> \<le> 1 / 100000
   \<and> fin (target_buf (volk_32fc_x2_s32f_square_dist_scalar_mult_32f_a_sse3 scalar 16 st) i)
   \<and> \<bar>val (target_buf (volk_32fc_x2_s32f_square_dist_scalar_mult_32f_a_sse3 scalar 16 st) i) - expected i\<bar> \<le> 1 / 100000"
  using assms by (simp add: sixteen_targets qam16_values)

theorem qam16_scaled_distances_witness:
  "xfin (target_buf (volk_32fc_x2_s32f_square_dist_scalar_mult_32f_generic (Finite (1 / 64)) 16 qam16_state) 13)
   \<and> \<bar>xval (target_buf (volk_32fc_x2_s32f_square_dist_scalar_mult_32f_generic (Finite (1 / 64)) 16 qam16_state) 13) - 13 / 256\<bar> \<le> 1 / 100000
   \<and> xfin (target_buf (volk_32fc_x2_s32f_square_dist_scalar_mult_32f_a_avx2 (Finite (1 / 64)) 16 qam16_state) 13)
   \<and> \<bar>xval (target_buf (volk_32fc_x2_s32f_square_dist_scalar_mult_32f_a_avx2 (Finite (1 / 64)) 16 qam16_state) 13) - 13 / 256\<bar> \<le> 1 / 100000
   \<and> xfin (target_buf (volk_32fc_x2_s32f_square_dist_scalar_mult_32f_u_avx2 (Finite (1 / 64)) 16 qam16_state) 13)
   \<and> \<bar>xval (target_buf (volk_32fc_x2_s32f_square_dist_scalar_mult_32f_u_avx2 (Finite (1 / 64)) 16 qam16_state) 13) - 13 / 256\<bar> \<le> 1 / 100000
   \<and> xfin (target_buf (volk_32fc_x2_s32f_square_dist_scalar_mult_32f_a_avx NaN (Finite (1 / 64)) 16 qam16_state) 13)
   \<and> \<bar>xval (target_buf (volk_32fc_x2_s32f_square_dist_scalar_mult_32f_a_avx NaN (Finite (1 / 64)) 16 qam16_state) 13) - 13 / 256\<bar> \<le> 1 / 100000
   \<and> xfin (target_buf (volk_32fc_x2_s32f_square_dist_scalar_mult_32f_a_sse3 (Finite (1 / 64)) 16 qam16_state) 13)
   \<and> \<bar>xval (target_buf (volk_32fc_x2_s32f_square_dist_scalar_mult_32f_a_sse3 (Finite (1 / 64)) 16 qam16_state) 13) - 13 / 256\<bar> \<le> 1 / 100000"
proof -
  have e: "expected 13 = 13 / 256"
    by (simp add: expected_def const_vals_def power2_eq_square)
  have f: "xfin (Finite (1 / 64))" by simp
  have c: "xval (Finite (1 / 64)) = 1 / 64" by simp
  have i: "(13 :: nat) < 16" by simp
  from qam16_scaled_distances [OF exact_arith_xfloat qam16_state_ok f c i, of NaN]
  show ?thesis by (simp only: e)
qed

text \<open>
  C7. For every \<open>num_points\<close> and every buffer content, the aligned and the unaligned
  AVX index-of-minimum kernels store the same index, and the aligned and the unaligned
  AVX2 square-distance kernels leave the same \<open>target\<close> memory (hence the same values
  in \<open>target[0..num_points)\<close>), for every float multiplication that is commutative:
  the vector code multiplies the squared distance by the scalar, the scalar tail
  multiplies the scalar by the squared distance.
\<close>

theorem aligned_unaligned_agree:
  fixes st :: "'f::{zero,plus,minus,times} state"
  assumes "\<forall>a b :: 'f. a * b = b * a"
  shows "volk_32f_index_min_16u_a_avx source num_points
           = volk_32f_index_min_16u_u_avx source num_points
       \<and> target_buf (volk_32fc_x2_s32f_square_dist_scalar_mult_32f_a_avx2 scalar count st)
           = target_buf (volk_32fc_x2_s32f_square_dist_scalar_mult_32f_u_avx2 scalar count st)"
  using avx2_pair_equal [OF assms] by (simp add: variants_scalar)

theorem aligned_unaligned_agree_witness:
  "volk_32f_index_min_16u_a_avx (buf [0x40A00000, 0x40000000, 0x40000000, 0x40E00000, 0x40A00000, 0x40000000, 0xBF800000, 0x40E00000, 0xBF800000]) 9
     = volk_32f_index_min_16u_u_avx (buf [0x40A00000, 0x40000000, 0x40000000, 0x40E00000, 0x40A00000, 0x40000000, 0xBF800000, 0x40E00000, 0xBF800000]) 9
   \<and> target_buf (volk_32fc_x2_s32f_square_dist_scalar_mult_32f_a_avx2 2 7 int_state)
     = target_buf (volk_32fc_x2_s32f_square_dist_scalar_mult_32f_u_avx2 2 7 int_state)"
  by (rule aligned_unaligned_agree [OF int_mult_commute])

text \<open>
  C8. For every \<open>num_points\<close> and every input vector, each puppet adapter leaves in
  \<open>outVector[i]\<close>, for every \<open>i < num_points\<close>, the word the wrapped single-word
  kernel stores for \<open>inVector[i]\<close>, and leaves every other element of \<open>outVector\<close> as
  it was.
\<close>

theorem puppet_adapters_delegate:
  "volk_32u_popcntpuppet_32u_e2k volk_32u_popcnt_e2k outVector inVector num_points
     = (\<lambda>i. if i < unat num_points then volk_32u_popcnt_e2k (inVector i) else outVector i)
   \<and> volk_32u_popcntpuppet_32u_a_sse4_2 volk_32u_popcnt_a_sse4_2 outVector inVector num_points
     = (\<lambda>i. if i < unat num_points then volk_32u_popcnt_a_sse4_2 (inVector i) else outVector i)"
  by (simp add: volk_32u_popcntpuppet_32u_e2k_def volk_32u_popcntpuppet_32u_a_sse4_2_def
      popcntpuppet_e2k_loop_eq popcntpuppet_a_sse4_2_loop_eq)

text \<open>
  C9 (the code does not do this). The claim is that no invocation modifies an input
  buffer and that a second invocation of a variant on unchanged inputs writes the same
  output. The SSE3 square-distance kernel stores past \<open>target\<close> when
  \<open>num_points < 4\<close> (C3). Called with \<open>num_points = 1\<close> on the memory
  \<open>adjacent_mem\<close>, where \<open>points\<close> lies 16 bytes behind \<open>target\<close>, it writes
  \<open>target[0] = 2 * ((1 - 3)^2 + (2 - 4)^2) = 16\<close>, and its store into \<open>target[4]\<close>
  replaces the real part of \<open>points[0]\<close>, which was 3, by 10: an input is modified.
  A second call with the same arguments then writes
  \<open>target[0] = 2 * ((1 - 10)^2 + (2 - 4)^2) = 170\<close>.
\<close>

theorem a_sse3_overwrites_points:
  "adjacent_mem 4 = 3
   \<and> volk_32fc_x2_s32f_square_dist_scalar_mult_32f_a_sse3_mem 0 16 4 2 1 adjacent_mem 0 = 16
   \<and> volk_32fc_x2_s32f_square_dist_scalar_mult_32f_a_sse3_mem 0 16 4 2 1 adjacent_mem 4 = 10
   \<and> volk_32fc_x2_s32f_square_dist_scalar_mult_32f_a_sse3_mem 0 16 4 2 1
         (volk_32fc_x2_s32f_square_dist_scalar_mult_32f_a_sse3_mem 0 16 4 2 1 adjacent_mem) 0 = 170"
  by code_simp

text \<open>
  C10. For every \<open>num_points \<ge> 1\<close> and every variant, the index stored into
  \<open>target[0]\<close> is strictly below \<open>min(num_points, USHRT_MAX)\<close>, whatever the buffer
  holds (NaN patterns included) and however large \<open>num_points\<close> is.
\<close>

theorem index_min_result_in_range:
  assumes "1 \<le> num_points"
  shows "unat (volk_32f_index_min_16u_generic source num_points) < min (unat num_points) 65535
       \<and> unat (volk_32f_index_min_16u_a_avx source num_points) < min (unat num_points) 65535
       \<and> unat (volk_32f_index_min_16u_a_sse4_1 source num_points) < min (unat num_points) 65535
       \<and> unat (volk_32f_index_min_16u_a_sse source num_points) < min (unat num_points) 65535
       \<and> unat (volk_32f_index_min_16u_u_avx source num_points) < min (unat num_points) 65535"
proof -
  from assms have "1 \<le> unat num_points" by (simp add: word_le_nat_alt)
  then have "0 < min (unat num_points) 65535" by simp
  with scalar_result_range [of source "min (unat num_points) 65535"]
  have "nat (scalar_result source (min (unat num_points) 65535)) < min (unat num_points) 65535"
    by auto
  then show ?thesis by (simp add: variants_scalar unat_index)
qed

theorem index_min_result_in_range_witness:
  "(1 :: 32 word) \<le> 70000
   \<and> unat (volk_32f_index_min_16u_generic (\<lambda>i. 0x7FC00000) 70000) < min (unat (70000 :: 32 word)) 65535
   \<and> unat (volk_32f_index_min_16u_a_avx (\<lambda>i. 0x7FC00000) 70000) < min (unat (70000 :: 32 word)) 65535
   \<and> unat (volk_32f_index_min_16u_a_sse4_1 (\<lambda>i. 0x7FC00000) 70000) < min (unat (70000 :: 32 word)) 65535
   \<and> unat (volk_32f_index_min_16u_a_sse (\<lambda>i. 0x7FC00000) 70000) < min (unat (70000 :: 32 word)) 65535
   \<and> unat (volk_32f_index_min_16u_u_avx (\<lambda>i. 0x7FC00000) 70000) < min (unat (70000 :: 32 word)) 65535"
proof -
  have h: "(1 :: 32 word) \<le> 70000" by simp
  from index_min_result_in_range [OF h, of "\<lambda>i. 0x7FC00000"] h show ?thesis by simp
qed

end
